theory Spec2Isabelle
  imports Complex_Main
begin

section \<open>The CPT derived-parameter engine of BoreholeInterpreter\<close>

text \<open>
  A shallow embedding of \<^verbatim>\<open>classes/CPT.py\<close> and of
  \<^verbatim>\<open>classes/CPT_SoilClassification.py\<close>.

  Conventions of the embedding.
  \<^item> A float is a real number; the arithmetic is exact. A value that can be NaN or
    infinite in the source (the result of a division, of a logarithm, or of a pandas
    alignment that finds no partner) is a \<open>real option\<close>, \<open>None\<close> standing for every
    non-finite float. No formula of the source maps a non-finite operand to a finite
    result, and a non-finite coordinate fails every bounding-box comparison, so the
    collapse is not observable in what is proved here. NaN in the raw input is outside
    the model.
  \<^item> A pandas Series is the list of its (index label, value) pairs, in row order.
  \<^item> A private attribute \<^verbatim>\<open>_x\<close> of the instance is the record field \<open>p_x\<close>; it holds
    \<open>None\<close> when \<^verbatim>\<open>hasattr(self, "_x")\<close> is false.
  \<^item> Every method is a function from the state to a result and the state it leaves
    behind: an exception is \<open>Inl\<close>, and the state next to it is what the instance holds
    when the exception leaves the method.
\<close>

subsection \<open>Data\<close>

datatype error =
    AttributeError string
  | ValueError string
  | IndexError string
  | KeyError string
  | TypeError string
  | DatabaseError string
  | IndexingError string
  | RecursionError

text \<open>
  The dtype of a numpy array. \<^verbatim>\<open>np.array\<close> of Python numbers is an \<^verbatim>\<open>int64\<close> array when
  every entry is a Python int and a \<^verbatim>\<open>float64\<close> array as soon as one entry is a float.
  The entries of an \<^verbatim>\<open>int64\<close> array are integers, written here as reals. (An array
  of another dtype that is handed in, and a Python int that does not fit in 64 bits,
  are outside the model.)
\<close>

datatype np_dtype = Int64 | Float64

type_synonym series = "(real \<times> real) list"

type_synonym nseries = "(real \<times> real option) list"

type_synonym soil_classification =
  "(real \<times> string option \<times> string option \<times> string option) list"

type_synonym graph_data =
  "(real \<times> real option \<times> real option \<times> real option \<times> real option) list"

record CPT =
  pointID :: string
  holedepth :: real
  p_qc :: "series option"
  p_fs :: "series option"
  p_u2 :: "series option"
  p_area_ratio :: "real option"
  p_gwl :: "real option"
  p_elevated_gwl :: "real option"
  p_unit_weight :: "(real \<times> real) list option"
  p_unit_weight_dtype :: np_dtype
  p_total_stress :: "series option"
  p_effective_stress :: "series option"
  p_static_u0 :: "series option"
  p_elevated_u0 :: "series option"
  p_qt :: "nseries option"
  p_Rf :: "nseries option"
  p_Qt :: "nseries option"
  p_Fr :: "nseries option"
  p_Bq :: "nseries option"
  p_Ic :: "nseries option"
  p_soil_classification_method :: "string option"
  p_soil_classification :: "soil_classification option"
  p_soil_classification_graph_data :: "graph_data option"

text \<open>
  \<^verbatim>\<open>GeotechPoint.__init__\<close>: identity and \<^verbatim>\<open>holedepth = 0\<close>, nothing else. The field
  \<open>p_unit_weight_dtype\<close> is the dtype of the array \<^verbatim>\<open>_unit_weight\<close>; it is read only while
  \<open>p_unit_weight\<close> holds the rows of that array.
\<close>

definition init_CPT :: "string \<Rightarrow> CPT" where
  "init_CPT name =
     \<lparr> pointID = name, holedepth = 0,
       p_qc = None, p_fs = None, p_u2 = None,
       p_area_ratio = None, p_gwl = None, p_elevated_gwl = None, p_unit_weight = None,
       p_unit_weight_dtype = Float64,
       p_total_stress = None, p_effective_stress = None,
       p_static_u0 = None, p_elevated_u0 = None,
       p_qt = None, p_Rf = None, p_Qt = None, p_Fr = None, p_Bq = None, p_Ic = None,
       p_soil_classification_method = None, p_soil_classification = None,
       p_soil_classification_graph_data = None \<rparr>"

definition GLOBAL_unit_weight_of_water :: real where
  "GLOBAL_unit_weight_of_water = 10"

subsection \<open>Total stress\<close>

text \<open>
  The assignment of a float to an element of an array: an \<^verbatim>\<open>int64\<close> array stores the float
  cut off towards zero.
\<close>

definition np_trunc :: "real \<Rightarrow> real" where
  "np_trunc r = (if 0 \<le> r then of_int \<lfloor>r\<rfloor> else of_int \<lceil>r\<rceil>)"

definition setitem :: "np_dtype \<Rightarrow> real \<Rightarrow> real" where
  "setitem dt r = (case dt of Int64 \<Rightarrow> np_trunc r | Float64 \<Rightarrow> r)"

text \<open>The arithmetic of \<^verbatim>\<open>int64\<close> on integers: the result wraps around modulo \<open>2\<^sup>6\<^sup>4\<close>.\<close>

definition wrap_int64 :: "real \<Rightarrow> real" where
  "wrap_int64 r = of_int ((\<lfloor>r\<rfloor> + 2 ^ 63) mod 2 ^ 64 - 2 ^ 63)"

text \<open>
  The loop of \<^verbatim>\<open>_calculate_total_stress\<close> that moves a breakpoint whose depth equals
  the depth before it (already moved, if it was): \<^verbatim>\<open>unit_weight_dataset[i, 0] += 0.000001\<close>
  adds to the element and stores the sum in the array of the dtype of the table. In a
  \<^verbatim>\<open>float64\<close> table the depth is raised by \<^verbatim>\<open>0.000001\<close>; in an \<^verbatim>\<open>int64\<close> table the sum is cut
  off on storing, so that a depth that is not negative stays where it was.
\<close>

fun nudge_from :: "np_dtype \<Rightarrow> real \<Rightarrow> (real \<times> real) list \<Rightarrow> (real \<times> real) list" where
  "nudge_from dt prev [] = []"
| "nudge_from dt prev ((x, y) # ps) =
     (let x' = (if x = prev then setitem dt (x + 0.000001) else x)
      in (x', y) # nudge_from dt x' ps)"

definition nudge_duplicates :: "np_dtype \<Rightarrow> (real \<times> real) list \<Rightarrow> (real \<times> real) list" where
  "nudge_duplicates dt ps =
     (case ps of [] \<Rightarrow> [] | (x, y) # rest \<Rightarrow> (x, y) # nudge_from dt x rest)"

text \<open>
  \<^verbatim>\<open>np.interp(z, xp, fp)\<close> for \<^verbatim>\<open>xp\<close> in ascending order: the left value below the range,
  the right value above it, else the line through the breakpoint \<open>j\<close> and the one after
  it, \<open>j\<close> being the last breakpoint that is not above \<open>z\<close> (so that at a depth that two
  breakpoints share, the value of the later one is returned).
\<close>

fun interp_seg :: "real \<Rightarrow> (real \<times> real) list \<Rightarrow> real" where
  "interp_seg z [] = 0"
| "interp_seg z [(x, y)] = y"
| "interp_seg z ((x0, y0) # (x1, y1) # ps) =
     (if z < x1
      then (if x0 = z then y0 else (y1 - y0) / (x1 - x0) * (z - x0) + y0)
      else interp_seg z ((x1, y1) # ps))"

definition np_interp :: "real \<Rightarrow> (real \<times> real) list \<Rightarrow> real" where
  "np_interp z ps =
     (if fst (last ps) < z then snd (last ps)
      else if z < fst (hd ps) then snd (hd ps)
      else interp_seg z ps)"

definition np_diff :: "real list \<Rightarrow> real list" where
  "np_diff xs = map (\<lambda>(a, b). b - a) (zip xs (tl xs))"

fun cumsum_from :: "real \<Rightarrow> real list \<Rightarrow> real list" where
  "cumsum_from acc [] = []"
| "cumsum_from acc (x # xs) = (acc + x) # cumsum_from (acc + x) xs"

definition cumsum :: "real list \<Rightarrow> real list" where
  "cumsum xs = cumsum_from 0 xs"

text \<open>
  The depth samples: the index of the first raw channel present, else the breakpoints.
  The index of a raw channel is \<^verbatim>\<open>float64\<close> (the setters build it with
  \<^verbatim>\<open>dtype=np.float64\<close>); the depths of the breakpoints have the dtype of the table.
\<close>

definition depth_index_series :: "CPT \<Rightarrow> (real \<times> real) list \<Rightarrow> real list" where
  "depth_index_series s unit_weight =
     (case p_qc s of Some c \<Rightarrow> map fst c
      | None \<Rightarrow> (case p_fs s of Some c \<Rightarrow> map fst c
         | None \<Rightarrow> (case p_u2 s of Some c \<Rightarrow> map fst c
            | None \<Rightarrow> map fst unit_weight)))"

definition depth_index_dtype :: "CPT \<Rightarrow> np_dtype" where
  "depth_index_dtype s =
     (if p_qc s = None \<and> p_fs s = None \<and> p_u2 s = None then p_unit_weight_dtype s
      else Float64)"

text \<open>
  The values of the total stress. Between two \<^verbatim>\<open>int64\<close> the first product and the
  differences of \<^verbatim>\<open>np.diff\<close> are \<^verbatim>\<open>int64\<close>; the interpolated unit weights are floats, and
  so is everything that is multiplied with them.
\<close>

definition int64_op :: "np_dtype \<Rightarrow> real \<Rightarrow> real" where
  "int64_op dt r = (case dt of Int64 \<Rightarrow> wrap_int64 r | Float64 \<Rightarrow> r)"

definition total_stress_values ::
  "np_dtype \<Rightarrow> np_dtype \<Rightarrow> real list \<Rightarrow> (real \<times> real) list \<Rightarrow> real list" where
  "total_stress_values depth_dtype dtype depths unit_weight =
     (let unit_weight_dataset = nudge_duplicates dtype unit_weight;
          interpolated_unit_weight = map (\<lambda>z. np_interp z unit_weight_dataset) depths;
          interpolated_inc_total_stress =
            map (\<lambda>(d, w). int64_op depth_dtype d * w)
              (zip (np_diff depths) (tl interpolated_unit_weight))
      in cumsum (int64_op depth_dtype (hd depths * snd (hd unit_weight_dataset))
                 # interpolated_inc_total_stress))"

definition calculate_total_stress :: "CPT \<Rightarrow> (error + unit) \<times> CPT" where
  "calculate_total_stress s =
     (case p_unit_weight s of
        None \<Rightarrow> (Inl (AttributeError (''Unit weight of '' @ pointID s @ '' not set.'')), s)
      | Some unit_weight \<Rightarrow>
          if unit_weight = [] then (Inl (IndexError ''too many indices for array''), s)
          else
            (let depths = depth_index_series s unit_weight in
             if depths = [] then (Inl (IndexError ''index 0 is out of bounds''), s)
             else (Inr (),
                   s\<lparr>p_total_stress :=
                       Some (zip depths
                               (total_stress_values (depth_index_dtype s)
                                  (p_unit_weight_dtype s) depths unit_weight))\<rparr>)))"

subsection \<open>Pore pressure and effective stress\<close>

definition u0_series :: "real \<Rightarrow> real list \<Rightarrow> series" where
  "u0_series gwl depth_index =
     map (\<lambda>z. (z, if z < gwl then 0 else (z - gwl) * GLOBAL_unit_weight_of_water)) depth_index"

text \<open>Subtraction of two Series that carry the same index: row by row.\<close>

definition series_sub :: "series \<Rightarrow> series \<Rightarrow> series" where
  "series_sub a b = map (\<lambda>((d, x), (d', y)). (d, x - y)) (zip a b)"

definition calculate_effective_stress :: "CPT \<Rightarrow> (error + unit) \<times> CPT" where
  "calculate_effective_stress s =
     (if p_unit_weight s = None
      then (Inl (AttributeError (''Unit weight of '' @ pointID s @ '' is not yet defined.'')), s)
      else if p_gwl s = None \<and> p_elevated_gwl s = None
      then (Inl (AttributeError (''Groundwater level of '' @ pointID s @ '' is not yet defined.'')), s)
      else
        (case p_total_stress s of
           None \<Rightarrow> (Inl (AttributeError ''object has no attribute _total_stress''), s)
         | Some total_stress \<Rightarrow>
             (let depth_index = map fst total_stress;
                  s1 = (case p_elevated_gwl s of
                          None \<Rightarrow> s
                        | Some elevated_gwl \<Rightarrow>
                            s\<lparr>p_elevated_u0 := Some (u0_series elevated_gwl depth_index)\<rparr>);
                  s2 = (case p_gwl s of
                          None \<Rightarrow> s1
                        | Some static_gwl \<Rightarrow>
                            s1\<lparr>p_static_u0 := Some (u0_series static_gwl depth_index)\<rparr>);
                  effective_stress =
                    (case p_elevated_gwl s of
                       Some elevated_gwl \<Rightarrow>
                         Some (series_sub total_stress (u0_series elevated_gwl depth_index))
                     | None \<Rightarrow>
                         (case p_gwl s of
                            Some static_gwl \<Rightarrow>
                              Some (series_sub total_stress (u0_series static_gwl depth_index))
                          | None \<Rightarrow> None))
              in case effective_stress of
                   None \<Rightarrow> (Inl (AttributeError ''effective_stress referenced before assignment''), s2)
                 | Some e \<Rightarrow> (Inr (), s2\<lparr>p_effective_stress := Some e\<rparr>))))"

subsection \<open>Eviction\<close>

text \<open>\<^verbatim>\<open>if hasattr(self, "_" + dpd): delattr(self, "_" + dpd)\<close>, for one name.\<close>

definition delattr_private :: "string \<Rightarrow> CPT \<Rightarrow> CPT" where
  "delattr_private dpd s =
     (if dpd = ''qc'' then s\<lparr>p_qc := None\<rparr>
      else if dpd = ''fs'' then s\<lparr>p_fs := None\<rparr>
      else if dpd = ''u2'' then s\<lparr>p_u2 := None\<rparr>
      else if dpd = ''area_ratio'' then s\<lparr>p_area_ratio := None\<rparr>
      else if dpd = ''gwl'' then s\<lparr>p_gwl := None\<rparr>
      else if dpd = ''elevated_gwl'' then s\<lparr>p_elevated_gwl := None\<rparr>
      else if dpd = ''unit_weight'' then s\<lparr>p_unit_weight := None\<rparr>
      else if dpd = ''total_stress'' then s\<lparr>p_total_stress := None\<rparr>
      else if dpd = ''effective_stress'' then s\<lparr>p_effective_stress := None\<rparr>
      else if dpd = ''static_u0'' then s\<lparr>p_static_u0 := None\<rparr>
      else if dpd = ''elevated_u0'' then s\<lparr>p_elevated_u0 := None\<rparr>
      else if dpd = ''qt'' then s\<lparr>p_qt := None\<rparr>
      else if dpd = ''Rf'' then s\<lparr>p_Rf := None\<rparr>
      else if dpd = ''Qt'' then s\<lparr>p_Qt := None\<rparr>
      else if dpd = ''Fr'' then s\<lparr>p_Fr := None\<rparr>
      else if dpd = ''Bq'' then s\<lparr>p_Bq := None\<rparr>
      else if dpd = ''Ic'' then s\<lparr>p_Ic := None\<rparr>
      else if dpd = ''soil_classification_method'' then s\<lparr>p_soil_classification_method := None\<rparr>
      else if dpd = ''soil_classification'' then s\<lparr>p_soil_classification := None\<rparr>
      else if dpd = ''soil_classification_graph_data''
      then s\<lparr>p_soil_classification_graph_data := None\<rparr>
      else s)"

text \<open>The deleter of \<^verbatim>\<open>classification\<close>: the method name stays.\<close>

definition del_classification :: "CPT \<Rightarrow> CPT" where
  "del_classification s =
     s\<lparr>p_soil_classification := None, p_soil_classification_graph_data := None\<rparr>"

definition listener_dependency :: "string list \<Rightarrow> bool \<Rightarrow> CPT \<Rightarrow> CPT" where
  "listener_dependency list_dependencies reset_classification s =
     (let s1 = fold delattr_private list_dependencies s
      in if reset_classification \<and> p_soil_classification_method s1 \<noteq> None
         then del_classification s1 else s1)"

text \<open>The deleter of \<^verbatim>\<open>qt\<close>, through which the eviction cascades.\<close>

definition del_qt :: "CPT \<Rightarrow> CPT" where
  "del_qt s =
     (listener_dependency [''Rf'', ''Qt'', ''Fr'', ''Bq'', ''Ic''] True s)\<lparr>p_qt := None\<rparr>"

subsection \<open>Series arithmetic\<close>

definition nadd :: "real option \<Rightarrow> real option \<Rightarrow> real option" where
  "nadd a b = (case (a, b) of (Some x, Some y) \<Rightarrow> Some (x + y) | _ \<Rightarrow> None)"

definition nsub :: "real option \<Rightarrow> real option \<Rightarrow> real option" where
  "nsub a b = (case (a, b) of (Some x, Some y) \<Rightarrow> Some (x - y) | _ \<Rightarrow> None)"

definition nmul :: "real option \<Rightarrow> real option \<Rightarrow> real option" where
  "nmul a b = (case (a, b) of (Some x, Some y) \<Rightarrow> Some (x * y) | _ \<Rightarrow> None)"

text \<open>A float division by zero gives an infinity or NaN: here \<open>None\<close>.\<close>

definition ndiv :: "real option \<Rightarrow> real option \<Rightarrow> real option" where
  "ndiv a b =
     (case (a, b) of (Some x, Some y) \<Rightarrow> (if y = 0 then None else Some (x / y)) | _ \<Rightarrow> None)"

definition np_log10 :: "real option \<Rightarrow> real option" where
  "np_log10 a = (case a of Some x \<Rightarrow> (if 0 < x then Some (log 10 x) else None) | None \<Rightarrow> None)"

definition nsquare :: "real option \<Rightarrow> real option" where
  "nsquare a = nmul a a"

definition nsqrt :: "real option \<Rightarrow> real option" where
  "nsqrt a = (case a of Some x \<Rightarrow> (if 0 \<le> x then Some (sqrt x) else None) | None \<Rightarrow> None)"

definition to_nseries :: "series \<Rightarrow> nseries" where
  "to_nseries a = map (\<lambda>(d, v). (d, Some v)) a"

text \<open>An operation of a Series with a scalar, or a function applied to each value.\<close>

definition smap :: "(real option \<Rightarrow> real option) \<Rightarrow> nseries \<Rightarrow> nseries" where
  "smap g a = map (\<lambda>(d, v). (d, g v)) a"

definition label_value :: "nseries \<Rightarrow> real \<Rightarrow> real option" where
  "label_value a d = (case map_of a d of Some v \<Rightarrow> v | None \<Rightarrow> None)"

text \<open>
  An operation of two Series. pandas works row by row when the two indexes are equal;
  otherwise it aligns both on the union of the labels, in ascending order: a label
  missing on one side gives NaN, and the rows of a label that is repeated are paired each
  with each.
\<close>

definition values_at :: "nseries \<Rightarrow> real \<Rightarrow> real option list" where
  "values_at a d = (case map snd (filter (\<lambda>p. fst p = d) a) of [] \<Rightarrow> [None] | vs \<Rightarrow> vs)"

definition align_op ::
  "(real option \<Rightarrow> real option \<Rightarrow> real option) \<Rightarrow> nseries \<Rightarrow> nseries \<Rightarrow> nseries" where
  "align_op f a b =
     (if map fst a = map fst b
      then map (\<lambda>((d, x), (d', y)). (d, f x y)) (zip a b)
      else concat (map (\<lambda>d. concat (map (\<lambda>x. map (\<lambda>y. (d, f x y)) (values_at b d))
                                       (values_at a d)))
                     (sort (remdups (map fst a @ map fst b)))))"

subsection \<open>Getters\<close>

text \<open>
  A getter that misses the cache of a stress quantity calls \<^verbatim>\<open>_calculate_stress\<close>, which
  classifies the soil again, which reads getters. The getters therefore take the
  \<^verbatim>\<open>_calculate_stress\<close> they call as the argument \<open>cs\<close>; the knot is tied further down.
\<close>

type_synonym 'a action = "CPT \<Rightarrow> (error + 'a) \<times> CPT"

definition and_then :: "'a action \<Rightarrow> ('a \<Rightarrow> 'b action) \<Rightarrow> 'b action" where
  "and_then m f s = (case m s of (Inl e, s1) \<Rightarrow> (Inl e, s1) | (Inr x, s1) \<Rightarrow> f x s1)"

definition get_qc :: "series action" where
  "get_qc s =
     (case p_qc s of
        None \<Rightarrow> (Inl (AttributeError (''Cone penetration, qc, of '' @ pointID s @ '' is not yet defined.'')), s)
      | Some v \<Rightarrow> (Inr v, s))"

definition get_fs :: "series action" where
  "get_fs s =
     (case p_fs s of
        None \<Rightarrow> (Inl (AttributeError (''Sleeve friction, fs, of '' @ pointID s @ '' is not yet defined.'')), s)
      | Some v \<Rightarrow> (Inr v, s))"

definition get_u2 :: "series action" where
  "get_u2 s =
     (case p_u2 s of
        None \<Rightarrow> (Inl (AttributeError (''Pore pressure, u2, of '' @ pointID s @ '' is not yet defined.'')), s)
      | Some v \<Rightarrow> (Inr v, s))"

definition get_total_stress :: "unit action \<Rightarrow> series action" where
  "get_total_stress cs s =
     (case p_total_stress s of
        Some v \<Rightarrow> (Inr v, s)
      | None \<Rightarrow>
          and_then cs (\<lambda>_ s1.
            case p_total_stress s1 of
              None \<Rightarrow> (Inl (AttributeError ''object has no attribute _total_stress''), s1)
            | Some v \<Rightarrow> (Inr v, s1)) s)"

definition get_effective_stress :: "unit action \<Rightarrow> series action" where
  "get_effective_stress cs s =
     (case p_effective_stress s of
        Some v \<Rightarrow> (Inr v, s)
      | None \<Rightarrow>
          and_then cs (\<lambda>_ s1.
            case p_effective_stress s1 of
              None \<Rightarrow> (Inl (AttributeError ''object has no attribute _effective_stress''), s1)
            | Some v \<Rightarrow> (Inr v, s1)) s)"

definition get_static_u0 :: "unit action \<Rightarrow> series action" where
  "get_static_u0 cs s =
     (case p_static_u0 s of
        Some v \<Rightarrow> (Inr v, s)
      | None \<Rightarrow>
          if p_gwl s = None
          then (Inl (AttributeError (''Groundwater level of '' @ pointID s @ '' not set.'')), s)
          else and_then cs (\<lambda>_ s1.
            case p_static_u0 s1 of
              None \<Rightarrow> (Inl (AttributeError ''object has no attribute _static_u0''), s1)
            | Some v \<Rightarrow> (Inr v, s1)) s)"

definition get_elevated_u0 :: "unit action \<Rightarrow> series action" where
  "get_elevated_u0 cs s =
     (case p_elevated_u0 s of
        Some v \<Rightarrow> (Inr v, s)
      | None \<Rightarrow>
          if p_elevated_gwl s = None
          then (Inl (AttributeError (''Elevated groundwater level of '' @ pointID s @ '' not set.'')), s)
          else and_then cs (\<lambda>_ s1.
            case p_elevated_u0 s1 of
              None \<Rightarrow> (Inl (AttributeError ''object has no attribute _elevated_u0''), s1)
            | Some v \<Rightarrow> (Inr v, s1)) s)"

text \<open>
  \<^verbatim>\<open>qt\<close>. Without an area ratio the getter warns and returns \<^verbatim>\<open>qc\<close>, caching nothing
  (the warning is not modelled).
\<close>

definition get_qt :: "nseries action" where
  "get_qt s =
     (case p_qc s of
        None \<Rightarrow> (Inl (AttributeError (''Cone penetration, qc, of '' @ pointID s @ '' is not yet defined.'')), s)
      | Some qc \<Rightarrow>
          (case p_qt s of
             Some v \<Rightarrow> (Inr v, s)
           | None \<Rightarrow>
               (case p_area_ratio s of
                  None \<Rightarrow> (Inr (to_nseries qc), s)
                | Some area_ratio \<Rightarrow>
                    (let s_qt =
                       (case p_u2 s of
                          Some u2 \<Rightarrow>
                            align_op nadd (to_nseries qc)
                              (smap (\<lambda>v. nmul (ndiv v (Some 1000)) (Some (1 - area_ratio)))
                                 (to_nseries u2))
                        | None \<Rightarrow>
                            smap (\<lambda>v. nadd v (Some (0 / 1000 * (1 - area_ratio))))
                              (to_nseries qc))
                     in (Inr s_qt, s\<lparr>p_qt := Some s_qt\<rparr>)))))"

text \<open>\<^verbatim>\<open>self.qt if hasattr(self, "_area_ratio") else self.qc\<close>, as four getters write it.\<close>

definition qt_or_qc :: "nseries action" where
  "qt_or_qc s =
     (if p_area_ratio s \<noteq> None then get_qt s
      else and_then get_qc (\<lambda>v s1. (Inr (to_nseries v), s1)) s)"

definition get_Rf :: "nseries action" where
  "get_Rf s =
     (if p_qc s = None \<and> p_fs s = None
      then (Inl (AttributeError (''Cone penetration, qc, and sleeve friction, fs, of '' @ pointID s @ '' are not yet defined.'')), s)
      else case p_qc s of
        None \<Rightarrow> (Inl (AttributeError (''Cone penetration, qc, of '' @ pointID s @ '' is not yet defined.'')), s)
      | Some qc \<Rightarrow>
          (case p_fs s of
             None \<Rightarrow> (Inl (AttributeError (''Sleeve friction, fs, of '' @ pointID s @ '' is not yet defined.'')), s)
           | Some s_fs \<Rightarrow>
               (case p_Rf s of
                  Some v \<Rightarrow> (Inr v, s)
                | None \<Rightarrow>
                    and_then (if p_area_ratio s \<noteq> None then get_qt
                              else (\<lambda>s1. (Inr (to_nseries qc), s1)))
                      (\<lambda>s_qt s1.
                         let s_Rf =
                           smap (\<lambda>v. nmul v (Some 100))
                             (align_op ndiv (to_nseries s_fs)
                                (smap (\<lambda>v. nmul v (Some 1000)) s_qt))
                         in (Inr s_Rf, s1\<lparr>p_Rf := Some s_Rf\<rparr>)) s)))"

definition get_Qt :: "unit action \<Rightarrow> nseries action" where
  "get_Qt cs s =
     (case p_Qt s of
        Some v \<Rightarrow> (Inr v, s)
      | None \<Rightarrow>
          if p_qc s = None
          then (Inl (AttributeError (''Cone penetration, qc, of '' @ pointID s @ '' is not yet defined.'')), s)
          else if p_unit_weight s = None
          then (Inl (AttributeError (''Unit weight of '' @ pointID s @ '' is not yet defined.'')), s)
          else if p_gwl s = None \<and> p_elevated_gwl s = None
          then (Inl (AttributeError (''Groundwater level of '' @ pointID s @ '' is not yet defined.'')), s)
          else
            and_then qt_or_qc (\<lambda>s_qt.
            and_then (get_total_stress cs) (\<lambda>s_total_stress.
            and_then (get_effective_stress cs) (\<lambda>s_effective_stress s1.
              let s_norm_Qt =
                align_op ndiv
                  (align_op nsub (smap (\<lambda>v. nmul v (Some 1000)) s_qt)
                     (to_nseries s_total_stress))
                  (to_nseries s_effective_stress)
              in (Inr s_norm_Qt, s1\<lparr>p_Qt := Some s_norm_Qt\<rparr>)))) s)"

definition get_Fr :: "unit action \<Rightarrow> nseries action" where
  "get_Fr cs s =
     (case p_Fr s of
        Some v \<Rightarrow> (Inr v, s)
      | None \<Rightarrow>
          if p_qc s = None
          then (Inl (AttributeError (''Cone penetration, qc, of '' @ pointID s @ '' is not yet defined.'')), s)
          else if p_unit_weight s = None
          then (Inl (AttributeError (''Unit weight of '' @ pointID s @ '' is not yet defined.'')), s)
          else
            and_then get_fs (\<lambda>s_fs.
            and_then qt_or_qc (\<lambda>s_qt.
            and_then (get_total_stress cs) (\<lambda>s_total_stress s1.
              let s_norm_Fr =
                smap (\<lambda>v. nmul (Some 100) v)
                  (align_op ndiv (to_nseries s_fs)
                     (align_op nsub (smap (\<lambda>v. nmul v (Some 1000)) s_qt)
                        (to_nseries s_total_stress)))
              in (Inr s_norm_Fr, s1\<lparr>p_Fr := Some s_norm_Fr\<rparr>)))) s)"

text \<open>
  \<^verbatim>\<open>Bq\<close>. When \<^verbatim>\<open>_u2\<close> is absent the source builds an all-NaN Series in \<^verbatim>\<open>s_Bq\<close> and
  goes on; the next statements do not look at it, and \<^verbatim>\<open>self.u2\<close> raises.
\<close>

definition get_Bq :: "unit action \<Rightarrow> nseries action" where
  "get_Bq cs s =
     (case p_Bq s of
        Some v \<Rightarrow> (Inr v, s)
      | None \<Rightarrow>
          if p_qc s = None
          then (Inl (AttributeError (''Cone penetration, qc, of '' @ pointID s @ '' is not yet defined.'')), s)
          else if p_unit_weight s = None
          then (Inl (AttributeError (''Unit weight of '' @ pointID s @ '' is not yet defined.'')), s)
          else if p_gwl s = None \<and> p_elevated_gwl s = None
          then (Inl (AttributeError (''Groundwater level of '' @ pointID s @ '' is not yet defined.'')), s)
          else
            and_then qt_or_qc (\<lambda>s_qt.
            let s_Bq_without_u2 =
                  (if p_u2 s = None then Some (map (\<lambda>(z, v). (z, None :: real option)) s_qt)
                   else None)
            in
            and_then (get_total_stress cs) (\<lambda>s_total_stress.
            and_then (\<lambda>s1. if p_elevated_u0 s1 = None \<and> p_static_u0 s1 = None
                            then calculate_effective_stress s1 else (Inr (), s1)) (\<lambda>_.
            and_then get_u2 (\<lambda>s_u2.
            and_then (\<lambda>s1. if p_elevated_u0 s1 \<noteq> None then get_elevated_u0 cs s1
                            else get_static_u0 cs s1) (\<lambda>s_u0 s1.
              let s_Bq =
                align_op ndiv
                  (align_op nsub (to_nseries s_u2) (to_nseries s_u0))
                  (align_op nsub (smap (\<lambda>v. nmul v (Some 1000)) s_qt)
                     (to_nseries s_total_stress))
              in (Inr s_Bq, s1\<lparr>p_Bq := Some s_Bq\<rparr>)))))) s)"

definition get_Ic :: "unit action \<Rightarrow> nseries action" where
  "get_Ic cs s =
     (case p_Ic s of
        Some v \<Rightarrow> (Inr v, s)
      | None \<Rightarrow>
          and_then (get_Qt cs) (\<lambda>s_Qt.
          and_then (get_Fr cs) (\<lambda>s_Fr s1.
            let s_Ic =
              smap nsqrt
                (align_op nadd
                   (smap (\<lambda>v. nsquare (nsub (Some 3.47) (np_log10 v))) s_Qt)
                   (smap (\<lambda>v. nsquare (nadd (np_log10 v) (Some 1.22))) s_Fr))
            in (Inr s_Ic, s1\<lparr>p_Ic := Some s_Ic\<rparr>))) s)"

text \<open>
  \<^verbatim>\<open>CPT_point.__getattribute__(param)\<close> for the properties that are Series. Any other
  name is an attribute that does not exist or is not a Series.
\<close>

definition lift_series :: "series action \<Rightarrow> nseries action" where
  "lift_series g = and_then g (\<lambda>v s1. (Inr (to_nseries v), s1))"

definition getattribute :: "unit action \<Rightarrow> string \<Rightarrow> nseries action" where
  "getattribute cs param =
     (if param = ''qc'' then lift_series get_qc
      else if param = ''fs'' then lift_series get_fs
      else if param = ''u2'' then lift_series get_u2
      else if param = ''qt'' then get_qt
      else if param = ''Rf'' then get_Rf
      else if param = ''Qt'' then get_Qt cs
      else if param = ''Fr'' then get_Fr cs
      else if param = ''Bq'' then get_Bq cs
      else if param = ''Ic'' then get_Ic cs
      else if param = ''total_stress'' then lift_series (get_total_stress cs)
      else if param = ''effective_stress'' then lift_series (get_effective_stress cs)
      else if param = ''static_u0'' \<or> param = ''u0'' then lift_series (get_static_u0 cs)
      else if param = ''elevated_u0'' then lift_series (get_elevated_u0 cs)
      else (\<lambda>s. (Inl (AttributeError param), s)))"

subsection \<open>Soil classification\<close>

text \<open>
  The SQLite database of classification methods and the shapely library are not part of
  the sources; they are parameters. A method record holds what the queries of
  \<^verbatim>\<open>calculate_soil_classification\<close> return for one \<^verbatim>\<open>method_name\<close>: the row of
  \<^verbatim>\<open>methods\<close>, the rows of \<^verbatim>\<open>zone_names\<close>, and for each graph the zones of
  \<^verbatim>\<open>zone_definitions\<close> in the order of the \<^verbatim>\<open>GROUP BY zone_no\<close> query, each with its
  vertex rows (a group has at least one row). \<open>shp_within\<close> is \<^verbatim>\<open>Point.within(Polygon)\<close>
  and \<open>shp_distance\<close> is \<^verbatim>\<open>LineString.distance(Point)\<close>. The rounding of a \<^verbatim>\<open>float64\<close> to
  \<^verbatim>\<open>float32\<close> is a parameter as well, as the floats are real numbers here: \<open>np_float32\<close>,
  \<open>None\<close> when the value is out of the range of \<^verbatim>\<open>float32\<close>.
\<close>

record method_def =
  param_x1 :: string
  param_y1 :: string
  param_x2 :: "string option"
  param_y2 :: "string option"
  is_x1_on_log_scale :: bool
  is_y1_on_log_scale :: bool
  is_x2_on_log_scale :: bool
  is_y2_on_log_scale :: bool
  zone_names :: "(string \<times> string \<times> string) list"
  zone_definitions_graph_1 :: "(string \<times> (real \<times> real) list) list"
  zone_definitions_graph_2 :: "(string \<times> (real \<times> real) list) list"

type_synonym polygon = "(real option \<times> real option) list"

record environment =
  methods :: "string \<Rightarrow> method_def option"
  shp_within :: "polygon \<Rightarrow> real \<times> real \<Rightarrow> bool"
  shp_distance :: "polygon \<Rightarrow> real \<times> real \<Rightarrow> real"
  np_float32 :: "real \<Rightarrow> real option"

text \<open>One point of \<^verbatim>\<open>_parallel_is_point_in_polygon\<close>.\<close>

definition is_point_in_polygon ::
  "environment \<Rightarrow> polygon \<Rightarrow> real option \<Rightarrow> real option \<Rightarrow> bool" where
  "is_point_in_polygon env poly x y =
     (case (x, y) of
        (Some a, Some b) \<Rightarrow> shp_within env poly (a, b) \<or> shp_distance env poly (a, b) < 1 / 10 ^ 8
      | _ \<Rightarrow> False)"

definition list_min :: "real list \<Rightarrow> real" where
  "list_min xs = fold min (tl xs) (hd xs)"

definition list_max :: "real list \<Rightarrow> real" where
  "list_max xs = fold max (tl xs) (hd xs)"

text \<open>
  The working frame \<^verbatim>\<open>df_soil_zones\<close>: its rows (label, zone number, description, USCS),
  \<open>None\<close> for \<^verbatim>\<open>pd.NA\<close>, next to \<^verbatim>\<open>recalc_segment\<close>, the labels put aside. A boolean
  Series is a list of labelled truth values.
\<close>

type_synonym frame = "soil_classification \<times> real list option"

type_synonym bseries = "(real \<times> bool) list"

text \<open>
  \<^verbatim>\<open>Series.reindex\<close>, as the frame does it to a column it is given: a Series on the very
  index of the frame keeps its values; otherwise pandas looks each label of the frame up,
  NaN for a label that the Series does not have, and refuses a Series whose own labels
  repeat.
\<close>

definition reindex :: "nseries \<Rightarrow> real list \<Rightarrow> error + real option list" where
  "reindex a index =
     (if map fst a = index then Inr (map snd a)
      else if \<not> distinct (map fst a)
      then Inl (ValueError ''cannot reindex on an axis with duplicate labels'')
      else Inr (map (label_value a) index))"

definition astype_float32 :: "environment \<Rightarrow> real option \<Rightarrow> real option" where
  "astype_float32 env v = (case v of None \<Rightarrow> None | Some x \<Rightarrow> np_float32 env x)"

definition pad :: "nat \<Rightarrow> real option list \<Rightarrow> real option list" where
  "pad n xs = xs @ replicate (n - length xs) None"

text \<open>
  The frame is built on the index of \<^verbatim>\<open>qc\<close>: \<^verbatim>\<open>pd.DataFrame(index=..., data=..., dtype=np.float32)\<close>
  reindexes the coordinates of the first graph and casts them to \<^verbatim>\<open>float32\<close>. The
  coordinates of the second graph are assigned as columns afterwards: they are reindexed
  and keep their \<^verbatim>\<open>float64\<close> values, and a frame without rows takes the index of a column
  with rows. A second graph without a second entry in \<^verbatim>\<open>compare_data\<close> (which
  'Eslami Fellenius' never appends) is an \<^verbatim>\<open>IndexError\<close>. The result is the index of the
  frame and its four coordinate columns.
\<close>

definition build_frame ::
  "environment \<Rightarrow> method_def \<Rightarrow> real list \<Rightarrow> nseries \<times> nseries
   \<Rightarrow> (nseries \<times> nseries) option \<Rightarrow> error + real list \<times> graph_data" where
  "build_frame env m index g1 g2 =
     (case reindex (fst g1) index of
        Inl e \<Rightarrow> Inl e
      | Inr X_graph_1 \<Rightarrow>
     (case reindex (snd g1) index of
        Inl e \<Rightarrow> Inl e
      | Inr Y_graph_1 \<Rightarrow>
          (let X1 = map (astype_float32 env) X_graph_1;
               Y1 = map (astype_float32 env) Y_graph_1
           in if param_x2 m = None
              then Inr (index, map (\<lambda>(lab, x, y). (lab, x, y, None, None))
                                 (zip index (zip X1 Y1)))
              else
                (case g2 of
                   None \<Rightarrow> Inl (IndexError ''list index out of range'')
                 | Some (x2, y2) \<Rightarrow>
                     (let index1 = (if index = [] \<and> x2 \<noteq> [] then map fst x2 else index)
                      in case reindex x2 index1 of
                           Inl e \<Rightarrow> Inl e
                         | Inr X_graph_2 \<Rightarrow>
                             (let index2 = (if index1 = [] \<and> y2 \<noteq> [] then map fst y2
                                            else index1)
                              in case reindex y2 index2 of
                                   Inl e \<Rightarrow> Inl e
                                 | Inr Y_graph_2 \<Rightarrow>
                                     (let n = length index2
                                      in Inr (index2,
                                              zip index2 (zip (pad n X1) (zip (pad n Y1)
                                                (zip (pad n X_graph_2) Y_graph_2)))))))))))"

text \<open>A comparison of a Series with a bound: row by row, false on NaN.\<close>

definition series_ge :: "nseries \<Rightarrow> real \<Rightarrow> bseries" where
  "series_ge a lo = map (\<lambda>(d, v). (d, case v of None \<Rightarrow> False | Some x \<Rightarrow> lo \<le> x)) a"

definition series_le :: "nseries \<Rightarrow> real \<Rightarrow> bseries" where
  "series_le a hi = map (\<lambda>(d, v). (d, case v of None \<Rightarrow> False | Some x \<Rightarrow> x \<le> hi)) a"

text \<open>
  \<^verbatim>\<open>&\<close> of two boolean Series aligns them as an arithmetic operation does; a label missing
  on one side counts as false there.
\<close>

definition bools_at :: "bseries \<Rightarrow> real \<Rightarrow> bool list" where
  "bools_at a d = (case map snd (filter (\<lambda>p. fst p = d) a) of [] \<Rightarrow> [False] | vs \<Rightarrow> vs)"

definition series_and :: "bseries \<Rightarrow> bseries \<Rightarrow> bseries" where
  "series_and a b =
     (if map fst a = map fst b
      then map (\<lambda>((d, x), (d', y)). (d, x \<and> y)) (zip a b)
      else concat (map (\<lambda>d. concat (map (\<lambda>x. map (\<lambda>y. (d, x \<and> y)) (bools_at b d))
                                       (bools_at a d)))
                     (sort (remdups (map fst a @ map fst b)))))"

text \<open>
  \<^verbatim>\<open>bool_series_inbounds\<close>: not yet assigned, and inside the bounding box of the zone.
  The coordinates are the Series of \<^verbatim>\<open>compare_data\<close>, not the columns of the frame.
\<close>

definition series_inbounds ::
  "(real \<times> real) list \<Rightarrow> soil_classification \<Rightarrow> nseries \<Rightarrow> nseries \<Rightarrow> bseries" where
  "series_inbounds verts rows x_data y_data =
     series_and (series_and (series_and (series_and
       (map (\<lambda>(lab, z, de, us). (lab, z = None)) rows)
       (series_ge x_data (list_min (map fst verts))))
       (series_le x_data (list_max (map fst verts))))
       (series_ge y_data (list_min (map snd verts))))
       (series_le y_data (list_max (map snd verts)))"

text \<open>
  A boolean Series used as an indexer of an object with the index \<open>index\<close>
  (\<^verbatim>\<open>check_bool_indexer\<close> of pandas): on the very index it is taken row by row, otherwise
  its values are looked up label by label, every row of a repeated label.
\<close>

definition check_bool_indexer :: "real list \<Rightarrow> bseries \<Rightarrow> error + bool list" where
  "check_bool_indexer index key =
     (if map fst key = index then Inr (map snd key)
      else if \<not> set index \<subseteq> set (map fst key)
      then Inl (IndexingError ''Unalignable boolean Series provided as indexer'')
      else Inr (concat (map (\<lambda>l. map snd (filter (\<lambda>p. fst p = l) key)) index)))"

text \<open>\<^verbatim>\<open>x_data[bool_series_inbounds].to_numpy()\<close>.\<close>

definition getitem_bool :: "nseries \<Rightarrow> bseries \<Rightarrow> error + real option list" where
  "getitem_bool a key =
     (case check_bool_indexer (map fst a) key of
        Inl e \<Rightarrow> Inl e
      | Inr indexer \<Rightarrow>
          if length indexer \<noteq> length a
          then Inl (IndexError ''boolean index did not match indexed array along dimension 0'')
          else Inr (map (\<lambda>(b, d, v). v) (filter fst (zip indexer a))))"

text \<open>
  \<^verbatim>\<open>df_soil_zones.loc[bool_series_inbounds]\<close>: the rows at the positions where the indexer is
  true.
\<close>

definition nonzero :: "bool list \<Rightarrow> nat list" where
  "nonzero indexer = map snd (filter fst (zip indexer [0..<length indexer]))"

definition loc_getbool ::
  "soil_classification \<Rightarrow> bseries \<Rightarrow> error + soil_classification" where
  "loc_getbool rows key =
     (case check_bool_indexer (map fst rows) key of
        Inl e \<Rightarrow> Inl e
      | Inr indexer \<Rightarrow>
          if list_ex (\<lambda>i. length rows \<le> i) (nonzero indexer)
          then Inl (IndexError ''indices are out-of-bounds'')
          else Inr (map (\<lambda>i. rows ! i) (nonzero indexer)))"

text \<open>
  The three assignments \<^verbatim>\<open>df_soil_zones[...].loc[bool_series_inbounds] = np.where(...)\<close>:
  the indexer must have the length of the frame and as many true entries as there are
  values, and the rows where it is true take the values in their order.
\<close>

fun store_rows ::
  "bool list \<Rightarrow> (string option \<times> string option \<times> string option) list
   \<Rightarrow> soil_classification \<Rightarrow> soil_classification" where
  "store_rows (b # bs) vs ((lab, z, de, us) # rows) =
     (if b then (case vs of
                   [] \<Rightarrow> (lab, z, de, us) # store_rows bs [] rows
                 | v # vs' \<Rightarrow> (lab, v) # store_rows bs vs' rows)
      else (lab, z, de, us) # store_rows bs vs rows)"
| "store_rows [] vs rows = rows"
| "store_rows (b # bs) vs [] = []"

definition loc_setbool :: "soil_classification \<Rightarrow> bseries \<Rightarrow> nat \<Rightarrow> error + bool list" where
  "loc_setbool rows key n =
     (case check_bool_indexer (map fst rows) key of
        Inl e \<Rightarrow> Inl e
      | Inr indexer \<Rightarrow>
          if length indexer \<noteq> length rows
          then Inl (IndexError ''Boolean index has wrong length'')
          else if length (filter (\<lambda>b. b) indexer) \<noteq> n
          then Inl (ValueError ''cannot set using a list-like indexer with a different length than the value'')
          else Inr indexer)"

text \<open>
  The body of the loop over the zones of one graph, for the zone \<open>k\<close>. The logarithm is
  taken of the coordinates and of the vertices where the axis asks for it. The
  description and the USCS of the zone are looked up after the zone numbers are
  assigned.
\<close>

definition process_zone ::
  "environment \<Rightarrow> string \<Rightarrow> (string \<times> string \<times> string) list
   \<Rightarrow> nseries \<Rightarrow> nseries \<Rightarrow> bool \<Rightarrow> bool
   \<Rightarrow> string \<times> (real \<times> real) list \<Rightarrow> frame \<Rightarrow> error + frame" where
  "process_zone env method names x_data y_data is_x_on_log_scale is_y_on_log_scale zone fr =
     (case zone of (k, verts) \<Rightarrow> case fr of (rows, recalc_segment) \<Rightarrow>
      let bool_series_inbounds = series_inbounds verts rows x_data y_data
      in if \<not> list_ex snd bool_series_inbounds then Inr (rows, recalc_segment)
         else
          (case getitem_bool x_data bool_series_inbounds of
             Inl e \<Rightarrow> Inl e
           | Inr process_x_data \<Rightarrow>
          (case getitem_bool y_data bool_series_inbounds of
             Inl e \<Rightarrow> Inl e
           | Inr process_y_data \<Rightarrow>
               if length process_x_data \<noteq> length process_y_data
               then Inl (IndexError ''x and y of points must be equal in size.'')
               else
                (let tx = (\<lambda>v. if is_x_on_log_scale then np_log10 v else v);
                     ty = (\<lambda>v. if is_y_on_log_scale then np_log10 v else v);
                     table_soilzone_coordinates =
                       map (\<lambda>(vx, vy). (tx (Some vx), ty (Some vy))) verts;
                     bool_is_in_polygon =
                       map (\<lambda>(x, y). is_point_in_polygon env table_soilzone_coordinates
                                        (tx x) (ty y))
                         (zip process_x_data process_y_data)
                 in if method = ''Robertson et al 1986'' \<and> k = ''9,10,11,12''
                    then
                      (case loc_getbool rows bool_series_inbounds of
                         Inl e \<Rightarrow> Inl e
                       | Inr candidates \<Rightarrow>
                           if length bool_is_in_polygon \<noteq> length candidates
                           then Inl (IndexError ''Boolean index has wrong length'')
                           else Inr (rows,
                                     Some (map (\<lambda>(h, lab, z, de, us). lab)
                                             (filter fst (zip bool_is_in_polygon candidates)))))
                    else
                      (case loc_setbool rows bool_series_inbounds (length bool_is_in_polygon) of
                         Inl e \<Rightarrow> Inl e
                       | Inr indexer \<Rightarrow>
                           (case map_of (rev names) k of
                              None \<Rightarrow> Inl (KeyError k)
                            | Some (description, uscs) \<Rightarrow>
                                Inr (store_rows indexer
                                       (map (\<lambda>h. if h then (Some k, Some description, Some uscs)
                                                  else (None, None, None))
                                          bool_is_in_polygon)
                                       rows,
                                     recalc_segment)))))))"

fun process_zones ::
  "environment \<Rightarrow> string \<Rightarrow> (string \<times> string \<times> string) list
   \<Rightarrow> nseries \<Rightarrow> nseries \<Rightarrow> bool \<Rightarrow> bool
   \<Rightarrow> (string \<times> (real \<times> real) list) list \<Rightarrow> frame \<Rightarrow> error + frame" where
  "process_zones env method names x_data y_data lx ly [] fr = Inr fr"
| "process_zones env method names x_data y_data lx ly (zone # zones) fr =
     (case process_zone env method names x_data y_data lx ly zone fr of
        Inl e \<Rightarrow> Inl e
      | Inr fr' \<Rightarrow> process_zones env method names x_data y_data lx ly zones fr')"

definition is_concrete_zone :: "string option \<Rightarrow> bool" where
  "is_concrete_zone z = (z \<in> {Some ''9'', Some ''10'', Some ''11'', Some ''12''})"

text \<open>
  The three assignments after the loops, in their order: each reads the zone-number
  column as the assignment before it left it, and writes the rows whose label is put
  aside.
\<close>

definition finalize_recalc :: "real list \<Rightarrow> soil_classification \<Rightarrow> soil_classification" where
  "finalize_recalc recalc_segment rows =
     (let rows1 = map (\<lambda>(lab, z, de, us).
                    if lab \<in> set recalc_segment \<and> \<not> is_concrete_zone z
                    then (lab, Some ''9,10,11,12'', de, us) else (lab, z, de, us)) rows;
          rows2 = map (\<lambda>(lab, z, de, us).
                    if lab \<in> set recalc_segment \<and> \<not> is_concrete_zone z
                    then (lab, z, Some ''Zone 9,10,11,12'', us) else (lab, z, de, us)) rows1;
          rows3 = map (\<lambda>(lab, z, de, us).
                    if lab \<in> set recalc_segment \<and> \<not> is_concrete_zone z
                    then (lab, z, de, Some []) else (lab, z, de, us)) rows2
      in rows3)"

text \<open>
  \<^verbatim>\<open>.loc[recalc_segment]\<close> selects by label, every row of each label put aside, and the
  Series on the right-hand side is reindexed to the labels of the rows selected. On a
  frame with a repeated label pandas refuses to reindex, unless the rows selected are
  all rows of the frame in their order.
\<close>

definition loc_labels :: "real list \<Rightarrow> real list \<Rightarrow> real list" where
  "loc_labels index labels = concat (map (\<lambda>k. filter (\<lambda>l. l = k) index) labels)"

definition assign_recalc ::
  "string \<Rightarrow> frame \<Rightarrow> error + soil_classification" where
  "assign_recalc method fr =
     (case fr of (rows, recalc_segment) \<Rightarrow>
        if method = ''Robertson et al 1986''
        then (case recalc_segment of
                None \<Rightarrow> Inr rows
              | Some labels \<Rightarrow>
                  if \<not> distinct (map fst rows) \<and> loc_labels (map fst rows) labels \<noteq> map fst rows
                  then Inl (ValueError ''cannot reindex on an axis with duplicate labels'')
                  else Inr (finalize_recalc labels rows))
        else Inr rows)"

text \<open>
  \<^verbatim>\<open>compare_data\<close>: the coordinate Series of each graph, read off the probe. For
  'Eslami Fellenius' the pair is \<^verbatim>\<open>fs\<close> and \<^verbatim>\<open>qt - u2 / 1000\<close> (or \<^verbatim>\<open>qt\<close> without \<^verbatim>\<open>_u2\<close>),
  whatever the database names.
\<close>

definition compare_data_first ::
  "unit action \<Rightarrow> string \<Rightarrow> method_def \<Rightarrow> (nseries \<times> nseries) action" where
  "compare_data_first cs method m =
     (if method = ''Eslami Fellenius''
      then and_then (lift_series get_fs) (\<lambda>x s1.
             if p_u2 s1 \<noteq> None
             then and_then get_qt (\<lambda>s_qt.
                  and_then get_u2 (\<lambda>s_u2 s2.
                    (Inr (x, align_op nsub s_qt
                               (smap (\<lambda>v. ndiv v (Some 1000)) (to_nseries s_u2))), s2))) s1
             else and_then get_qt (\<lambda>s_qt s2. (Inr (x, s_qt), s2)) s1)
      else and_then (getattribute cs (param_x1 m)) (\<lambda>x.
           and_then (getattribute cs (param_y1 m)) (\<lambda>y s2. (Inr (x, y), s2))))"

definition compare_data_second ::
  "unit action \<Rightarrow> string \<Rightarrow> method_def \<Rightarrow> ((nseries \<times> nseries) option) action" where
  "compare_data_second cs method m =
     (if method = ''Eslami Fellenius'' then (\<lambda>s. (Inr None, s))
      else case param_x2 m of
        None \<Rightarrow> (\<lambda>s. (Inr None, s))
      | Some px2 \<Rightarrow>
          and_then (getattribute cs px2) (\<lambda>x.
            case param_y2 m of
              None \<Rightarrow> (\<lambda>s. (Inl (TypeError ''attribute name must be string''), s))
            | Some py2 \<Rightarrow>
                and_then (getattribute cs py2) (\<lambda>y s2. (Inr (Some (x, y)), s2))))"

text \<open>
  The loops over the graphs and their zones, on a frame with the index \<open>index\<close>. The
  number of graphs is that of the database: two when \<^verbatim>\<open>param_x2\<close> is not null.
\<close>

definition classify_frames ::
  "environment \<Rightarrow> string \<Rightarrow> method_def \<Rightarrow> real list
   \<Rightarrow> nseries \<times> nseries \<Rightarrow> (nseries \<times> nseries) option \<Rightarrow> error + frame" where
  "classify_frames env method m index g1 g2 =
     (let rows0 = map (\<lambda>lab. (lab, None, None, None)) index in
      case process_zones env method (zone_names m) (fst g1) (snd g1)
             (is_x1_on_log_scale m) (is_y1_on_log_scale m)
             (zone_definitions_graph_1 m) (rows0, None) of
        Inl e \<Rightarrow> Inl e
      | Inr fr1 \<Rightarrow>
          (if param_x2 m = None then Inr fr1
           else case g2 of
               None \<Rightarrow> Inl (IndexError ''list index out of range'')
             | Some (x2, y2) \<Rightarrow>
                 process_zones env method (zone_names m) x2 y2
                   (is_x2_on_log_scale m) (is_y2_on_log_scale m)
                   (zone_definitions_graph_2 m) fr1))"

text \<open>
  \<^verbatim>\<open>calculate_soil_classification\<close>: the coordinates are read, the frame is built, the
  zones are assigned, and only then the method, the classification and the coordinate
  columns are stored on the probe.
\<close>

definition calculate_soil_classification ::
  "unit action \<Rightarrow> environment \<Rightarrow> string \<Rightarrow> soil_classification action" where
  "calculate_soil_classification cs env method s =
     (case methods env method of
        None \<Rightarrow> (Inl (DatabaseError (''No soil classification method by the label '' @ method)), s)
      | Some m \<Rightarrow>
          and_then (compare_data_first cs method m) (\<lambda>g1.
          and_then (compare_data_second cs method m) (\<lambda>g2.
          and_then get_qc (\<lambda>qc s1.
            case build_frame env m (map fst qc) g1 g2 of
              Inl e \<Rightarrow> (Inl e, s1)
            | Inr (index, graph_data) \<Rightarrow>
                (case classify_frames env method m index g1 g2 of
                   Inl e \<Rightarrow> (Inl e, s1)
                 | Inr fr \<Rightarrow>
                     (case assign_recalc method fr of
                        Inl e \<Rightarrow> (Inl e, s1)
                      | Inr df_soil_zones \<Rightarrow>
                          (Inr df_soil_zones,
                           s1\<lparr>p_soil_classification_method := Some method,
                              p_soil_classification := Some df_soil_zones,
                              p_soil_classification_graph_data := Some graph_data\<rparr>)))))) s)"

definition classify_soil ::
  "unit action \<Rightarrow> environment \<Rightarrow> string option \<Rightarrow> unit action" where
  "classify_soil cs env method s =
     (case (case method of None \<Rightarrow> p_soil_classification_method s | Some m \<Rightarrow> Some m) of
        None \<Rightarrow> (Inl (AttributeError ''Soil classification method is not set.''), s)
      | Some m \<Rightarrow>
          and_then (calculate_soil_classification cs env m) (\<lambda>_ s1. (Inr (), s1)) s)"

subsection \<open>Stress recalculation\<close>

text \<open>
  \<^verbatim>\<open>_calculate_stress\<close>, with the \<^verbatim>\<open>_calculate_stress\<close> that the getters inside the
  classification call as the argument \<open>inner\<close>. An exception of the classification is
  swallowed (\<^verbatim>\<open>except Exception: pass\<close>); what it has written stays.
\<close>

definition calculate_stress_body :: "environment \<Rightarrow> unit action \<Rightarrow> unit action" where
  "calculate_stress_body env inner s =
     and_then calculate_total_stress (\<lambda>_.
     and_then (\<lambda>s1. if p_gwl s1 \<noteq> None \<or> p_elevated_gwl s1 \<noteq> None
                     then calculate_effective_stress s1 else (Inr (), s1)) (\<lambda>_ s2.
       case p_soil_classification_method s2 of
         None \<Rightarrow> (Inr (), s2)
       | Some method \<Rightarrow> (Inr (), snd (classify_soil inner env (Some method) s2)))) s"

text \<open>
  The knot. \<open>calculate_stress env n\<close> lets the classification re-enter
  \<^verbatim>\<open>_calculate_stress\<close> \<open>n\<close> levels deep; one level deeper the interpreter's recursion
  limit is reached and the call raises \<^verbatim>\<open>RecursionError\<close>.
\<close>

primrec calculate_stress :: "environment \<Rightarrow> nat \<Rightarrow> unit action" where
  "calculate_stress env 0 = calculate_stress_body env (\<lambda>s. (Inl RecursionError, s))"
| "calculate_stress env (Suc n) = calculate_stress_body env (calculate_stress env n)"

subsection \<open>Setters and deleters of the inputs\<close>

text \<open>
  \<^verbatim>\<open>_validate_depth_index\<close>: \<^verbatim>\<open>Index.equals\<close> compares the labels and their order. The
  name of a stored Series is that of its channel.
\<close>

definition stored_channel :: "string \<Rightarrow> CPT \<Rightarrow> series option" where
  "stored_channel attr s =
     (if attr = ''qc'' then p_qc s else if attr = ''fs'' then p_fs s
      else if attr = ''u2'' then p_u2 s else None)"

definition validate_depth_index ::
  "real list \<Rightarrow> string list \<Rightarrow> CPT \<Rightarrow> bool \<times> string list option" where
  "validate_depth_index check_ds_depth arr_checkDatasets s =
     (let arr_existing_data_series =
            concat (map (\<lambda>attr. case stored_channel attr s of
                                   None \<Rightarrow> [] | Some c \<Rightarrow> [(attr, c)]) arr_checkDatasets)
      in if arr_existing_data_series = [] then (True, None)
         else
           (let arr_misaligned_dataset =
                  map fst (filter (\<lambda>(name, c). check_ds_depth \<noteq> map fst c)
                             arr_existing_data_series)
            in if arr_misaligned_dataset = [] then (True, None)
               else (False, Some arr_misaligned_dataset)))"

fun join_comma :: "string list \<Rightarrow> string" where
  "join_comma [] = []"
| "join_comma [x] = x"
| "join_comma (x # y # ys) = x @ '', '' @ join_comma (y # ys)"

definition mismatch_message :: "string list \<Rightarrow> string" where
  "mismatch_message names =
     ''Error: Input data is mismatched with existing '' @ join_comma names @ '' datasets.''
     @ [CHR 0x0A] @ ''To reset the whole raw dataset, use the raw_data property.''"

text \<open>
  \<^verbatim>\<open>np.array(data, dtype=np.float64)\<close> of the rows given to \<^verbatim>\<open>raw_data\<close>: no row, or rows
  of different lengths, do not make a two-dimensional array.
\<close>

definition is_two_dimensional :: "real list list \<Rightarrow> bool" where
  "is_two_dimensional data = (data \<noteq> [] \<and> (\<forall>r \<in> set data. length r = length (hd data)))"

definition set_raw_data :: "environment \<Rightarrow> nat \<Rightarrow> real list list \<Rightarrow> unit action" where
  "set_raw_data env lvl data s =
     (if \<not> is_two_dimensional data
      then (Inl (ValueError ''The input array must be two-dimensional.''), s)
      else if length (hd data) < 3
      then (Inl (ValueError ''The input array must have at least 3 columns''), s)
      else
        (let depth = map (\<lambda>r. r ! 0) data;
             s1 = s\<lparr>p_qc := Some (zip depth (map (\<lambda>r. r ! 1) data)),
                    p_fs := Some (zip depth (map (\<lambda>r. r ! 2) data))\<rparr>;
             s2 = (if 3 < length (hd data)
                   then s1\<lparr>p_u2 := Some (zip depth (map (\<lambda>r. r ! 3) data))\<rparr> else s1);
             s3 = s2\<lparr>holedepth := list_max depth\<rparr>;
             s4 = listener_dependency
                    [''qt'', ''Rf'', ''Qt'', ''Fr'', ''Bq'', ''Ic'',
                     ''total_stress'', ''effective_stress'', ''static_u0'', ''elevated_u0'']
                    True s3
         in if p_total_stress s4 \<noteq> None then calculate_stress env lvl s4 else (Inr (), s4)))"

definition del_raw_data :: "unit action" where
  "del_raw_data s =
     (Inr (),
      del_qt (listener_dependency
                [''qc'', ''fs'', ''u2'',
                 ''total_stress'', ''effective_stress'', ''static_u0'', ''elevated_u0'']
                True s))"

text \<open>
  The setters of one channel. \<^verbatim>\<open>max_depth\<close> is \<^verbatim>\<open>Series.max()\<close>, the largest value of the
  channel, as the source has it.
\<close>

definition set_qc :: "environment \<Rightarrow> nat \<Rightarrow> (real \<times> real) list \<Rightarrow> unit action" where
  "set_qc env lvl data s =
     (if data = [] then (Inl (IndexError ''too many indices for array''), s)
      else
        (case validate_depth_index (map fst data) [''fs'', ''u2''] s of
           (False, arr_mismatcheddatasets) \<Rightarrow>
             (Inl (ValueError (mismatch_message
                     (case arr_mismatcheddatasets of None \<Rightarrow> [] | Some ns \<Rightarrow> ns))), s)
         | (True, _) \<Rightarrow>
             (let bool_keepexistingindex = fst (validate_depth_index (map fst data) [''qc''] s);
                  s1 = s\<lparr>p_qc := Some data\<rparr>;
                  max_depth = list_max (map snd data);
                  s2 = (if holedepth s1 < max_depth then s1\<lparr>holedepth := max_depth\<rparr> else s1);
                  s3 = del_qt s2
              in if p_total_stress s3 \<noteq> None \<and> \<not> bool_keepexistingindex
                 then calculate_stress env lvl s3 else (Inr (), s3))))"

definition del_qc :: "unit action" where
  "del_qc s =
     (let s1 = del_qt s
      in if p_qc s1 = None then (Inl (AttributeError ''_qc''), s1)
         else (Inr (), s1\<lparr>p_qc := None\<rparr>))"

definition set_fs :: "environment \<Rightarrow> nat \<Rightarrow> (real \<times> real) list \<Rightarrow> unit action" where
  "set_fs env lvl data s =
     (if data = [] then (Inl (IndexError ''too many indices for array''), s)
      else
        (case validate_depth_index (map fst data) [''qc'', ''u2''] s of
           (False, arr_mismatcheddatasets) \<Rightarrow>
             (Inl (ValueError (mismatch_message
                     (case arr_mismatcheddatasets of None \<Rightarrow> [] | Some ns \<Rightarrow> ns))), s)
         | (True, _) \<Rightarrow>
             (let bool_keepexistingindex = fst (validate_depth_index (map fst data) [''fs''] s);
                  s1 = s\<lparr>p_fs := Some data\<rparr>;
                  max_depth = list_max (map snd data);
                  s2 = (if holedepth s1 < max_depth then s1\<lparr>holedepth := max_depth\<rparr> else s1);
                  s3 = listener_dependency [''Rf'', ''Fr'', ''Ic''] True s2
              in if p_total_stress s3 \<noteq> None \<and> \<not> bool_keepexistingindex
                 then calculate_stress env lvl s3 else (Inr (), s3))))"

definition del_fs :: "unit action" where
  "del_fs s =
     (let s1 = listener_dependency [''Rf'', ''Fr'', ''Ic''] True s
      in if p_fs s1 = None then (Inl (AttributeError ''_fs''), s1)
         else (Inr (), s1\<lparr>p_fs := None\<rparr>))"

definition set_u2 :: "environment \<Rightarrow> nat \<Rightarrow> (real \<times> real) list \<Rightarrow> unit action" where
  "set_u2 env lvl data s =
     (if data = [] then (Inl (IndexError ''too many indices for array''), s)
      else
        (case validate_depth_index (map fst data) [''qc'', ''fs''] s of
           (False, arr_mismatcheddatasets) \<Rightarrow>
             (Inl (ValueError (mismatch_message
                     (case arr_mismatcheddatasets of None \<Rightarrow> [] | Some ns \<Rightarrow> ns))), s)
         | (True, _) \<Rightarrow>
             (let bool_keepexistingindex = fst (validate_depth_index (map fst data) [''u2''] s);
                  s1 = s\<lparr>p_u2 := Some data\<rparr>;
                  max_depth = list_max (map snd data);
                  s2 = (if holedepth s1 < max_depth then s1\<lparr>holedepth := max_depth\<rparr> else s1);
                  s3 = del_qt s2
              in if p_total_stress s3 \<noteq> None \<and> \<not> bool_keepexistingindex
                 then calculate_stress env lvl s3 else (Inr (), s3))))"

definition del_u2 :: "unit action" where
  "del_u2 s =
     (let s1 = del_qt s
      in if p_u2 s1 = None then (Inl (AttributeError ''_u2''), s1)
         else (Inr (), s1\<lparr>p_u2 := None\<rparr>))"

definition set_area_ratio :: "real \<Rightarrow> unit action" where
  "set_area_ratio v s = (Inr (), del_qt (s\<lparr>p_area_ratio := Some v\<rparr>))"

definition del_area_ratio :: "unit action" where
  "del_area_ratio s =
     (let s1 = del_qt s
      in if p_area_ratio s1 = None then (Inl (AttributeError ''_area_ratio''), s1)
         else (Inr (), s1\<lparr>p_area_ratio := None\<rparr>))"

text \<open>The groundwater levels: the assignment comes first, then the recalculation.\<close>

definition set_gwl :: "real \<Rightarrow> unit action" where
  "set_gwl v s =
     and_then calculate_effective_stress (\<lambda>_ s2.
       (Inr (),
        listener_dependency [''static_u0'', ''effective_stress'', ''Qt'', ''Bq'', ''Ic''] True s2))
       (s\<lparr>p_gwl := Some v\<rparr>)"

definition del_gwl :: "unit action" where
  "del_gwl s =
     (let s1 = listener_dependency
                 [''static_u0'', ''effective_stress'', ''Qt'', ''Bq'', ''Ic''] True s
      in if p_gwl s1 = None then (Inl (AttributeError ''_gwl''), s1)
         else (Inr (), s1\<lparr>p_gwl := None\<rparr>))"

definition set_static_gwl :: "real \<Rightarrow> unit action" where
  "set_static_gwl rawGWL = set_gwl rawGWL"

definition del_static_gwl :: "unit action" where
  "del_static_gwl = del_gwl"

definition set_elevated_gwl :: "real \<Rightarrow> unit action" where
  "set_elevated_gwl v s =
     and_then calculate_effective_stress (\<lambda>_ s2.
       (Inr (),
        listener_dependency [''elevated_u0'', ''effective_stress'', ''Qt'', ''Bq'', ''Ic''] True s2))
       (s\<lparr>p_elevated_gwl := Some v\<rparr>)"

definition del_elevated_gwl :: "unit action" where
  "del_elevated_gwl s =
     (let s1 = listener_dependency
                 [''elevated_u0'', ''effective_stress'', ''Qt'', ''Bq'', ''Ic''] True s
      in if p_elevated_gwl s1 = None then (Inl (AttributeError ''_elevated_gwl''), s1)
         else (Inr (), s1\<lparr>p_elevated_gwl := None\<rparr>))"

text \<open>
  The unit weight: a Python int or float, or a table of breakpoints, of Python ints
  only or with a float among its entries. \<^verbatim>\<open>np.array\<close> makes an \<^verbatim>\<open>int64\<close> array of the
  first kind of table and of \<^verbatim>\<open>[[0, value], [9999, value]]\<close> with an int \<^verbatim>\<open>value\<close>.
\<close>

datatype unit_weight_value =
    IntNumber int | FloatNumber real
  | IntBreakpoints "(int \<times> int) list" | FloatBreakpoints "(real \<times> real) list"

definition unit_weight_rows :: "unit_weight_value \<Rightarrow> (real \<times> real) list" where
  "unit_weight_rows v =
     (case v of
        IntNumber n \<Rightarrow> [(0, of_int n), (9999, of_int n)]
      | FloatNumber x \<Rightarrow> [(0, x), (9999, x)]
      | IntBreakpoints tbl \<Rightarrow> map (\<lambda>(z, w). (of_int z, of_int w)) tbl
      | FloatBreakpoints tbl \<Rightarrow> tbl)"

definition unit_weight_dtype :: "unit_weight_value \<Rightarrow> np_dtype" where
  "unit_weight_dtype v =
     (case v of IntNumber n \<Rightarrow> Int64 | FloatNumber x \<Rightarrow> Float64
      | IntBreakpoints tbl \<Rightarrow> Int64 | FloatBreakpoints tbl \<Rightarrow> Float64)"

definition set_unit_weight :: "environment \<Rightarrow> nat \<Rightarrow> unit_weight_value \<Rightarrow> unit action" where
  "set_unit_weight env lvl v s =
     (let s1 = s\<lparr>p_unit_weight := Some (unit_weight_rows v),
                   p_unit_weight_dtype := unit_weight_dtype v\<rparr>;
          s2 = listener_dependency
                 [''total_stress'', ''effective_stress'', ''Qt'', ''Fr'', ''Bq'', ''Ic''] True s1
      in calculate_stress env lvl s2)"

definition del_unit_weight :: "unit action" where
  "del_unit_weight s =
     (let s1 = listener_dependency
                 [''total_stress'', ''effective_stress'', ''Qt'', ''Fr'', ''Bq'', ''Ic''] True s
      in if p_unit_weight s1 = None then (Inl (AttributeError ''_unit_weight''), s1)
         else (Inr (), s1\<lparr>p_unit_weight := None\<rparr>))"

subsection \<open>The public readers\<close>

definition Bq :: "environment \<Rightarrow> nat \<Rightarrow> nseries action" where
  "Bq env lvl = get_Bq (calculate_stress env lvl)"

definition total_stress :: "environment \<Rightarrow> nat \<Rightarrow> series action" where
  "total_stress env lvl = get_total_stress (calculate_stress env lvl)"

definition effective_stress :: "environment \<Rightarrow> nat \<Rightarrow> series action" where
  "effective_stress env lvl = get_effective_stress (calculate_stress env lvl)"

definition static_u0 :: "environment \<Rightarrow> nat \<Rightarrow> series action" where
  "static_u0 env lvl = get_static_u0 (calculate_stress env lvl)"

definition elevated_u0 :: "environment \<Rightarrow> nat \<Rightarrow> series action" where
  "elevated_u0 env lvl = get_elevated_u0 (calculate_stress env lvl)"

definition classify :: "environment \<Rightarrow> nat \<Rightarrow> string option \<Rightarrow> unit action" where
  "classify env lvl method = classify_soil (calculate_stress env lvl) env method"

subsection \<open>The mutations of the inputs, and the table of the specification\<close>

datatype mutation =
    Set_raw_data "real list list" | Del_raw_data
  | Set_qc "(real \<times> real) list" | Del_qc
  | Set_fs "(real \<times> real) list" | Del_fs
  | Set_u2 "(real \<times> real) list" | Del_u2
  | Set_area_ratio real | Del_area_ratio
  | Set_unit_weight unit_weight_value | Del_unit_weight
  | Set_static_gwl real | Del_static_gwl
  | Set_elevated_gwl real | Del_elevated_gwl

fun mutate :: "environment \<Rightarrow> nat \<Rightarrow> mutation \<Rightarrow> unit action" where
  "mutate env lvl (Set_raw_data d) = set_raw_data env lvl d"
| "mutate env lvl Del_raw_data = del_raw_data"
| "mutate env lvl (Set_qc d) = set_qc env lvl d"
| "mutate env lvl Del_qc = del_qc"
| "mutate env lvl (Set_fs d) = set_fs env lvl d"
| "mutate env lvl Del_fs = del_fs"
| "mutate env lvl (Set_u2 d) = set_u2 env lvl d"
| "mutate env lvl Del_u2 = del_u2"
| "mutate env lvl (Set_area_ratio v) = set_area_ratio v"
| "mutate env lvl Del_area_ratio = del_area_ratio"
| "mutate env lvl (Set_unit_weight v) = set_unit_weight env lvl v"
| "mutate env lvl Del_unit_weight = del_unit_weight"
| "mutate env lvl (Set_static_gwl v) = set_static_gwl v"
| "mutate env lvl Del_static_gwl = del_static_gwl"
| "mutate env lvl (Set_elevated_gwl v) = set_elevated_gwl v"
| "mutate env lvl Del_elevated_gwl = del_elevated_gwl"

text \<open>
  The dependency table as the specification writes it: the derived quantities that a
  mutation of each input evicts, the cascade through \<^verbatim>\<open>qt\<close> written out.
\<close>

datatype quantity =
  Q_qt | Q_Rf | Q_Qt | Q_Fr | Q_Bq | Q_Ic
  | Q_total_stress | Q_effective_stress | Q_static_u0 | Q_elevated_u0

fun spec_evicted :: "mutation \<Rightarrow> quantity set" where
  "spec_evicted (Set_raw_data d) =
     {Q_qt, Q_Rf, Q_Qt, Q_Fr, Q_Bq, Q_Ic,
      Q_total_stress, Q_effective_stress, Q_static_u0, Q_elevated_u0}"
| "spec_evicted Del_raw_data =
     {Q_total_stress, Q_effective_stress, Q_static_u0, Q_elevated_u0,
      Q_qt, Q_Rf, Q_Qt, Q_Fr, Q_Bq, Q_Ic}"
| "spec_evicted (Set_qc d) = {Q_qt, Q_Rf, Q_Qt, Q_Fr, Q_Bq, Q_Ic}"
| "spec_evicted Del_qc = {Q_qt, Q_Rf, Q_Qt, Q_Fr, Q_Bq, Q_Ic}"
| "spec_evicted (Set_fs d) = {Q_Rf, Q_Fr, Q_Ic}"
| "spec_evicted Del_fs = {Q_Rf, Q_Fr, Q_Ic}"
| "spec_evicted (Set_u2 d) = {Q_qt, Q_Rf, Q_Qt, Q_Fr, Q_Bq, Q_Ic}"
| "spec_evicted Del_u2 = {Q_qt, Q_Rf, Q_Qt, Q_Fr, Q_Bq, Q_Ic}"
| "spec_evicted (Set_area_ratio v) = {Q_qt, Q_Rf, Q_Qt, Q_Fr, Q_Bq, Q_Ic}"
| "spec_evicted Del_area_ratio = {Q_qt, Q_Rf, Q_Qt, Q_Fr, Q_Bq, Q_Ic}"
| "spec_evicted (Set_unit_weight v) =
     {Q_total_stress, Q_effective_stress, Q_Qt, Q_Fr, Q_Bq, Q_Ic}"
| "spec_evicted Del_unit_weight =
     {Q_total_stress, Q_effective_stress, Q_Qt, Q_Fr, Q_Bq, Q_Ic}"
| "spec_evicted (Set_static_gwl v) = {Q_static_u0, Q_effective_stress, Q_Qt, Q_Bq, Q_Ic}"
| "spec_evicted Del_static_gwl = {Q_static_u0, Q_effective_stress, Q_Qt, Q_Bq, Q_Ic}"
| "spec_evicted (Set_elevated_gwl v) = {Q_elevated_u0, Q_effective_stress, Q_Qt, Q_Bq, Q_Ic}"
| "spec_evicted Del_elevated_gwl = {Q_elevated_u0, Q_effective_stress, Q_Qt, Q_Bq, Q_Ic}"

text \<open>Whether a derived quantity is cached, and whether two states cache the same value.\<close>

fun cached :: "quantity \<Rightarrow> CPT \<Rightarrow> bool" where
  "cached Q_qt s = (p_qt s \<noteq> None)"
| "cached Q_Rf s = (p_Rf s \<noteq> None)"
| "cached Q_Qt s = (p_Qt s \<noteq> None)"
| "cached Q_Fr s = (p_Fr s \<noteq> None)"
| "cached Q_Bq s = (p_Bq s \<noteq> None)"
| "cached Q_Ic s = (p_Ic s \<noteq> None)"
| "cached Q_total_stress s = (p_total_stress s \<noteq> None)"
| "cached Q_effective_stress s = (p_effective_stress s \<noteq> None)"
| "cached Q_static_u0 s = (p_static_u0 s \<noteq> None)"
| "cached Q_elevated_u0 s = (p_elevated_u0 s \<noteq> None)"

fun same_cache :: "quantity \<Rightarrow> CPT \<Rightarrow> CPT \<Rightarrow> bool" where
  "same_cache Q_qt s s' = (p_qt s' = p_qt s)"
| "same_cache Q_Rf s s' = (p_Rf s' = p_Rf s)"
| "same_cache Q_Qt s s' = (p_Qt s' = p_Qt s)"
| "same_cache Q_Fr s s' = (p_Fr s' = p_Fr s)"
| "same_cache Q_Bq s s' = (p_Bq s' = p_Bq s)"
| "same_cache Q_Ic s s' = (p_Ic s' = p_Ic s)"
| "same_cache Q_total_stress s s' = (p_total_stress s' = p_total_stress s)"
| "same_cache Q_effective_stress s s' = (p_effective_stress s' = p_effective_stress s)"
| "same_cache Q_static_u0 s s' = (p_static_u0 s' = p_static_u0 s)"
| "same_cache Q_elevated_u0 s s' = (p_elevated_u0 s' = p_elevated_u0 s)"

subsection \<open>Example probes\<close>

text \<open>No classification method in the database, and a shapely that finds nothing.\<close>

definition empty_env :: environment where
  "empty_env = \<lparr>methods = (\<lambda>name. None), shp_within = (\<lambda>poly pt. False),
                 shp_distance = (\<lambda>poly pt. 1), np_float32 = Some\<rparr>"

text \<open>
  Two samples at 10 m and 15 m under a unit weight that grows from 14 to 15 over 20 m
  (a \<^verbatim>\<open>float64\<close> table).
\<close>

definition probe_sloped :: CPT where
  "probe_sloped =
     (init_CPT ''CPT-1'')\<lparr>p_qc := Some [(10, 1), (15, 2)],
                           p_unit_weight := Some [(0, 14), (20, 15)]\<rparr>"


text \<open>A probe without raw channel that holds the table of \<^verbatim>\<open>unit_weight = 16\<close>.\<close>

definition probe_table :: CPT where
  "probe_table =
     (init_CPT ''CPT-1'')\<lparr>p_unit_weight := Some [(0, 16), (9999, 16)],
                           p_unit_weight_dtype := Int64\<rparr>"


text \<open>A piezocone probe with two samples, as the bulk assignment of four columns leaves it.\<close>

definition probe_cptu :: CPT where
  "probe_cptu =
     snd (set_raw_data empty_env 0 [[1, 1.4, 35, -4], [2, 1.8, 47, 18]] (init_CPT ''CPT-1''))"

text \<open>
  The same probe after a bulk assignment of three columns sampled at 2 m and 3 m: \<^verbatim>\<open>qc\<close>
  and \<^verbatim>\<open>fs\<close> are replaced, \<^verbatim>\<open>u2\<close> is still the one sampled at 1 m and 2 m.
\<close>

definition probe_stale_u2 :: CPT where
  "probe_stale_u2 = snd (set_raw_data empty_env 0 [[2, 1, 30], [3, 1.2, 31]] probe_cptu)"

subsection \<open>What a read leaves alone\<close>

text \<open>
  Two states hold the same inputs and the same remembered method, and a total stress
  cached in the first is cached in the second.
\<close>

definition stable :: "CPT \<Rightarrow> CPT \<Rightarrow> bool" where
  "stable s s' =
     (pointID s' = pointID s \<and> holedepth s' = holedepth s \<and>
      p_qc s' = p_qc s \<and> p_fs s' = p_fs s \<and> p_u2 s' = p_u2 s \<and>
      p_area_ratio s' = p_area_ratio s \<and> p_gwl s' = p_gwl s \<and>
      p_elevated_gwl s' = p_elevated_gwl s \<and> p_unit_weight s' = p_unit_weight s \<and>
      p_unit_weight_dtype s' = p_unit_weight_dtype s \<and>
      p_soil_classification_method s' = p_soil_classification_method s \<and>
      (p_total_stress s \<noteq> None \<longrightarrow> p_total_stress s' \<noteq> None))"

definition preserves :: "(CPT \<Rightarrow> CPT \<Rightarrow> bool) \<Rightarrow> 'a action \<Rightarrow> bool" where
  "preserves R m = (\<forall>s. R s (snd (m s)))"

text \<open>The same, but the remembered method may have become \<open>k\<close>.\<close>

definition stable_upto :: "string \<Rightarrow> CPT \<Rightarrow> CPT \<Rightarrow> bool" where
  "stable_upto k s s' =
     (pointID s' = pointID s \<and> holedepth s' = holedepth s \<and>
      p_qc s' = p_qc s \<and> p_fs s' = p_fs s \<and> p_u2 s' = p_u2 s \<and>
      p_area_ratio s' = p_area_ratio s \<and> p_gwl s' = p_gwl s \<and>
      p_elevated_gwl s' = p_elevated_gwl s \<and> p_unit_weight s' = p_unit_weight s \<and>
      p_unit_weight_dtype s' = p_unit_weight_dtype s \<and>
      (p_soil_classification_method s' = p_soil_classification_method s \<or>
       p_soil_classification_method s' = Some k) \<and>
      (p_total_stress s \<noteq> None \<longrightarrow> p_total_stress s' \<noteq> None))"

text \<open>A probe without piezocone: two samples of \<^verbatim>\<open>qc\<close> and \<^verbatim>\<open>fs\<close>, unit weight 16, water at 0 m.\<close>

definition probe_no_u2 :: CPT where
  "probe_no_u2 =
     (init_CPT ''CPT-1'')\<lparr>holedepth := 2, p_qc := Some [(1, 1.4), (2, 1.8)],
        p_fs := Some [(1, 35), (2, 47)], p_gwl := Some 0,
        p_unit_weight := Some [(0, 16), (9999, 16)]\<rparr>"

text \<open>
  The channels among \<open>names\<close> that are stored with a depth index other than \<open>index\<close>
  (other as a sequence: the same depths in the same order).
\<close>

definition misaligned_channels :: "string list \<Rightarrow> real list \<Rightarrow> CPT \<Rightarrow> string list" where
  "misaligned_channels names index s =
     filter (\<lambda>n. case stored_channel n s of None \<Rightarrow> False | Some c \<Rightarrow> map fst c \<noteq> index) names"

text \<open>A probe that holds \<^verbatim>\<open>qc\<close> alone, at 1 m and 2 m.\<close>

definition probe_qc :: CPT where
  "probe_qc = snd (set_qc empty_env 0 [(1, 1.4), (2, 1.8)] (init_CPT ''CPT-1''))"

text \<open>The same probe after \<^verbatim>\<open>unit_weight = 16.0\<close>: the total stress is cached, 16 and 32.\<close>

definition probe_qc_uw :: CPT where
  "probe_qc_uw = snd (set_unit_weight empty_env 0 (FloatNumber 16) probe_qc)"

subsection \<open>What a mutation does to the caches\<close>

text \<open>
  The mutations that run \<^verbatim>\<open>_calculate_stress\<close> after they have evicted: the setter of the
  unit weight, and the setter of a raw channel that is given a new depth index while a
  total stress is cached.
\<close>

fun recalculates :: "mutation \<Rightarrow> CPT \<Rightarrow> bool" where
  "recalculates (Set_unit_weight v) s = True"
| "recalculates (Set_qc d) s =
     (p_total_stress s \<noteq> None \<and>
      (case p_qc s of None \<Rightarrow> False | Some c \<Rightarrow> map fst c \<noteq> map fst d))"
| "recalculates (Set_fs d) s =
     (p_total_stress s \<noteq> None \<and>
      (case p_fs s of None \<Rightarrow> False | Some c \<Rightarrow> map fst c \<noteq> map fst d))"
| "recalculates (Set_u2 d) s =
     (p_total_stress s \<noteq> None \<and>
      (case p_u2 s of None \<Rightarrow> False | Some c \<Rightarrow> map fst c \<noteq> map fst d))"
| "recalculates mu s = False"

text \<open>
  The quantities that a mutation stores anew although the table does not list them: the
  setter of one groundwater level recomputes the pore pressure of the other level.
\<close>

fun refreshed :: "mutation \<Rightarrow> CPT \<Rightarrow> quantity set" where
  "refreshed (Set_static_gwl v) s = (if p_elevated_gwl s \<noteq> None then {Q_elevated_u0} else {})"
| "refreshed (Set_elevated_gwl v) s = (if p_gwl s \<noteq> None then {Q_static_u0} else {})"
| "refreshed mu s = {}"

text \<open>
  From \<open>s\<close> to \<open>s'\<close> the caches listed for the mutation are gone, the refreshed ones are
  there, every other cache is as it was, the classification result of a probe that
  remembers a method is gone, and the method is remembered as before.
\<close>

definition evicts_exactly :: "mutation \<Rightarrow> CPT \<Rightarrow> CPT \<Rightarrow> bool" where
  "evicts_exactly mu s s' =
     ((\<forall>q \<in> spec_evicted mu. \<not> cached q s') \<and>
      (\<forall>q \<in> refreshed mu s. cached q s') \<and>
      (\<forall>q. q \<notin> spec_evicted mu \<union> refreshed mu s \<longrightarrow> same_cache q s s') \<and>
      (p_soil_classification_method s \<noteq> None \<longrightarrow>
         p_soil_classification s' = None \<and> p_soil_classification_graph_data s' = None) \<and>
      p_soil_classification_method s' = p_soil_classification_method s)"

subsection \<open>An example environment\<close>

text \<open>
  A stand-in for shapely on axis-parallel rectangles: a point is within a rectangle when it
  lies strictly inside the box of its vertices, at distance 0 from its outline when it
  lies on the edge of the box, and (coarsely) at distance 1 otherwise.
\<close>

definition finite_values :: "real option list \<Rightarrow> real list" where
  "finite_values vs = concat (map (\<lambda>v. case v of None \<Rightarrow> [] | Some x \<Rightarrow> [x]) vs)"

definition rect_within :: "polygon \<Rightarrow> real \<times> real \<Rightarrow> bool" where
  "rect_within poly pt =
     (let xs = finite_values (map fst poly); ys = finite_values (map snd poly)
      in xs \<noteq> [] \<and> ys \<noteq> [] \<and> list_min xs < fst pt \<and> fst pt < list_max xs
         \<and> list_min ys < snd pt \<and> snd pt < list_max ys)"

definition rect_distance :: "polygon \<Rightarrow> real \<times> real \<Rightarrow> real" where
  "rect_distance poly pt =
     (let xs = finite_values (map fst poly); ys = finite_values (map snd poly)
      in if xs \<noteq> [] \<and> ys \<noteq> [] \<and> list_min xs \<le> fst pt \<and> fst pt \<le> list_max xs
            \<and> list_min ys \<le> snd pt \<and> snd pt \<le> list_max ys \<and> \<not> rect_within poly pt
         then 0 else 1)"

text \<open>
  Two methods with rectangular zones on linear axes, named after two methods of the
  database: a one-graph method on \<^verbatim>\<open>fs\<close> and \<^verbatim>\<open>qE\<close>, and a two-graph method on \<^verbatim>\<open>Bq\<close>,
  \<^verbatim>\<open>qt\<close> and \<^verbatim>\<open>Rf\<close>, \<^verbatim>\<open>qt\<close> whose first graph has the combined zone.
\<close>

definition example_eslami :: method_def where
  "example_eslami =
     \<lparr>param_x1 = ''fs'', param_y1 = ''qE'', param_x2 = None, param_y2 = None,
      is_x1_on_log_scale = False, is_y1_on_log_scale = False,
      is_x2_on_log_scale = False, is_y2_on_log_scale = False,
      zone_names = [(''2'', ''Clay and/or silt'', ''CL''), (''4'', ''Sand-silt'', ''SM'')],
      zone_definitions_graph_1 =
        [(''2'', [(0, 0), (40, 0), (40, 1.5), (0, 1.5), (0, 0)]),
         (''4'', [(40, 1.5), (100, 1.5), (100, 3), (40, 3), (40, 1.5)])],
      zone_definitions_graph_2 = []\<rparr>"

definition example_robertson :: method_def where
  "example_robertson =
     \<lparr>param_x1 = ''Bq'', param_y1 = ''qt'', param_x2 = Some ''Rf'', param_y2 = Some ''qt'',
      is_x1_on_log_scale = False, is_y1_on_log_scale = False,
      is_x2_on_log_scale = False, is_y2_on_log_scale = False,
      zone_names = [(''3'', ''Clay'', ''CL''), (''9'', ''Sand'', ''SP''),
                    (''9,10,11,12'', ''Zone 9,10,11,12'', [])],
      zone_definitions_graph_1 =
        [(''3'', [(-1, 0), (2, 0), (2, 5), (-1, 5), (-1, 0)]),
         (''9,10,11,12'', [(-1, 5), (2, 5), (2, 100), (-1, 100), (-1, 5)])],
      zone_definitions_graph_2 =
        [(''9'', [(0, 5), (1, 5), (1, 100), (0, 100), (0, 5)]),
         (''3'', [(1, 0), (8, 0), (8, 100), (1, 100), (1, 0)])]\<rparr>"

definition example_env :: environment where
  "example_env =
     \<lparr>methods = (\<lambda>name. if name = ''Eslami Fellenius'' then Some example_eslami
                        else if name = ''Robertson et al 1986'' then Some example_robertson
                        else None),
      shp_within = rect_within, shp_distance = rect_distance, np_float32 = Some\<rparr>"

text \<open>The second coordinate of 'Eslami Fellenius', the effective cone resistance: \<^verbatim>\<open>qt - u2 / 1000\<close>
  with \<^verbatim>\<open>_u2\<close>, else \<^verbatim>\<open>qt\<close>.\<close>

definition qE_of :: "CPT \<Rightarrow> nseries \<Rightarrow> nseries" where
  "qE_of s qt =
     (case p_u2 s of
        None \<Rightarrow> qt
      | Some u2 \<Rightarrow> align_op nsub qt (smap (\<lambda>v. ndiv v (Some 1000)) (to_nseries u2)))"


text \<open>
  A piezocone probe with three samples, after \<^verbatim>\<open>unit_weight = 16.0\<close> and \<^verbatim>\<open>gwl = 0\<close>: a soft
  sample at 1 m, and two stiff samples at 2 m and 3 m of low and of high friction ratio.
\<close>

definition probe_layers :: CPT where
  "probe_layers =
     snd (set_gwl 0
       (snd (set_unit_weight empty_env 0 (FloatNumber 16)
         (snd (set_raw_data empty_env 0
                 [[1, 1.4, 35, -4], [2, 10, 50, 18], [3, 20, 600, 40]] (init_CPT ''CPT-2''))))))"

text \<open>
  A piezocone probe with a repeated depth, after \<^verbatim>\<open>unit_weight = 16.0\<close> and \<^verbatim>\<open>gwl = 0\<close>: a soft
  and a stiff sample at 1 m, and a soft sample at 2 m.
\<close>

definition probe_repeated :: CPT where
  "probe_repeated =
     snd (set_gwl 0
       (snd (set_unit_weight empty_env 0 (FloatNumber 16)
         (snd (set_raw_data empty_env 0
                 [[1, 1.4, 35, -4], [1, 10, 500, 18], [2, 1.8, 47, 18]] (init_CPT ''CPT-3''))))))"

section \<open>Properties\<close>

subsection \<open>Total stress\<close>

lemma length_cumsum_from: "length (cumsum_from a xs) = length xs"
  by (induction xs arbitrary: a) auto


lemma cumsum_from_sorted:
  "\<forall>x\<in>set xs. 0 \<le> x \<Longrightarrow> sorted (cumsum_from a xs) \<and> (\<forall>y\<in>set (cumsum_from a xs). a \<le> y)"
proof (induction xs arbitrary: a)
  case Nil
  then show ?case by simp
next
  case (Cons x xs)
  then have x: "0 \<le> x" and rest: "\<forall>x\<in>set xs. 0 \<le> x" by auto
  from Cons.IH[OF rest, of "a + x"] x show ?case by fastforce
qed

text \<open>Between two breakpoints the interpolated value is a weighted mean of the two.\<close>

lemma interp_seg_nonneg:
  "ps \<noteq> [] \<Longrightarrow> \<forall>p\<in>set ps. 0 \<le> snd p \<Longrightarrow> fst (hd ps) \<le> z \<Longrightarrow> 0 \<le> interp_seg z ps"
proof (induction z ps rule: interp_seg.induct)
  case (1 z)
  then show ?case by simp
next
  case (2 z x y)
  then show ?case by simp
next
  case (3 z x0 y0 x1 y1 ps)
  show ?case
  proof (cases "z < x1")
    case True
    from 3 have y: "0 \<le> y0" "0 \<le> y1" and lo: "x0 \<le> z" by auto
    define t where "t = (z - x0) / (x1 - x0)"
    from lo True have t: "0 \<le> t" "t \<le> 1" by (auto simp: t_def)
    have "(y1 - y0) / (x1 - x0) * (z - x0) + y0 = y1 * t + y0 * (1 - t)"
      by (simp add: t_def algebra_simps diff_divide_distrib)
    moreover have "0 \<le> y1 * t + y0 * (1 - t)" using y t by simp
    ultimately show ?thesis using True y by simp
  next
    case False
    with 3 show ?thesis by auto
  qed
qed

lemma np_interp_nonneg:
  "ps \<noteq> [] \<Longrightarrow> \<forall>p\<in>set ps. 0 \<le> snd p \<Longrightarrow> 0 \<le> np_interp z ps"
  by (auto simp: np_interp_def intro!: interp_seg_nonneg)

lemma nudge_from_snd: "map snd (nudge_from dt p ps) = map snd ps"
  by (induction dt p ps rule: nudge_from.induct) (auto simp: Let_def)

lemma nudge_duplicates_snd: "map snd (nudge_duplicates dt ps) = map snd ps"
  by (auto simp: nudge_duplicates_def nudge_from_snd split: list.splits)

lemma nudge_duplicates_Nil: "nudge_duplicates dt ps = [] \<longleftrightarrow> ps = []"
  by (auto simp: nudge_duplicates_def split: list.splits)


lemma nudge_duplicates_nonneg:
  assumes "\<forall>p\<in>set uw. 0 \<le> snd p"
  shows "\<forall>p\<in>set (nudge_duplicates dt uw). 0 \<le> snd p"
proof -
  have "set (map snd (nudge_duplicates dt uw)) = set (map snd uw)"
    by (simp only: nudge_duplicates_snd)
  then have "snd ` set (nudge_duplicates dt uw) = snd ` set uw" by simp
  with assms show ?thesis by (metis imageE imageI)
qed

text \<open>
  The loop changes nothing in a table in which no breakpoint has the depth of the one
  before it, and nothing in an \<^verbatim>\<open>int64\<close> table whose depths are not negative.
\<close>

lemma nudge_from_distinct_adj:
  "distinct_adj (prev # map fst ps) \<Longrightarrow> nudge_from dt prev ps = ps"
  by (induction dt prev ps rule: nudge_from.induct) (auto simp: Let_def)

lemma nudge_duplicates_distinct_adj:
  "distinct_adj (map fst ps) \<Longrightarrow> nudge_duplicates dt ps = ps"
  by (cases ps) (auto simp: nudge_duplicates_def nudge_from_distinct_adj)

lemma np_trunc_of_nat: "np_trunc (of_int n + 0.000001) = of_int n" if "0 \<le> n"
proof -
  have "\<lfloor>(of_int n :: real) + 0.000001\<rfloor> = n" by (simp add: floor_unique)
  moreover have "(0 :: real) \<le> of_int n + 0.000001" using that by simp
  ultimately show ?thesis by (simp add: np_trunc_def)
qed

lemma nudge_from_int64:
  "\<forall>p\<in>set ps. \<exists>n\<ge>0. fst p = of_int n \<Longrightarrow> nudge_from Int64 prev ps = ps"
proof (induction ps arbitrary: prev)
  case Nil
  then show ?case by simp
next
  case (Cons p ps)
  obtain x y where p: "p = (x, y)" by (cases p)
  from Cons.prems p obtain n :: int where n: "0 \<le> n" "x = of_int n" by auto
  have "setitem Int64 (x + 0.000001) = x"
    using np_trunc_of_nat[OF n(1)] n(2) by (simp add: setitem_def)
  moreover have "nudge_from Int64 x ps = ps" using Cons by simp
  ultimately show ?case using p by (auto simp: Let_def)
qed

lemma nudge_duplicates_int64:
  "\<forall>p\<in>set ps. \<exists>n\<ge>0. fst p = of_int n \<Longrightarrow> nudge_duplicates Int64 ps = ps"
  by (cases ps) (auto simp: nudge_duplicates_def nudge_from_int64)

text \<open>An \<^verbatim>\<open>int64\<close> operation whose exact result fits in 64 bits does not wrap.\<close>

lemma wrap_int64_fits:
  assumes "- (2 ^ 63) \<le> r" "r < 2 ^ 63"
  shows "wrap_int64 r = of_int \<lfloor>r\<rfloor>"
proof -
  define k :: int where "k = 2 ^ 63"
  have k2: "(2 :: int) ^ 64 = 2 * k" by (simp add: k_def)
  have kr: "(2 :: real) ^ 63 = of_int k" by (simp add: k_def)
  have lo: "- k \<le> \<lfloor>r\<rfloor>"
  proof -
    have "of_int (- k) \<le> r" using assms(1) kr by simp
    then show ?thesis by (simp only: le_floor_iff)
  qed
  have hi: "\<lfloor>r\<rfloor> < k"
  proof -
    have "r < of_int k" using assms(2) kr by simp
    then show ?thesis by (simp only: floor_less_iff)
  qed
  have "(\<lfloor>r\<rfloor> + k) mod (2 * k) = \<lfloor>r\<rfloor> + k"
    by (rule mod_pos_pos_trivial) (use lo hi in linarith)+
  then have "(\<lfloor>r\<rfloor> + 2 ^ 63) mod 2 ^ 64 - 2 ^ 63 = \<lfloor>r\<rfloor>"
    unfolding k2 unfolding k_def by simp
  then show ?thesis unfolding wrap_int64_def by (simp only:)
qed

lemma int64_op_nonneg:
  assumes "0 \<le> r" and "dt = Int64 \<longrightarrow> r < 2 ^ 63"
  shows "0 \<le> int64_op dt r"
proof (cases dt)
  case Int64
  with assms have "wrap_int64 r = of_int \<lfloor>r\<rfloor>" by (intro wrap_int64_fits) simp_all
  moreover have "0 \<le> \<lfloor>r\<rfloor>" using assms(1) by simp
  ultimately show ?thesis using Int64 by (simp add: int64_op_def)
next
  case Float64
  with assms show ?thesis by (simp add: int64_op_def)
qed

lemma length_np_diff: "length (np_diff xs) = length xs - 1"
  by (simp add: np_diff_def)

lemma np_diff_nth: "Suc i < length xs \<Longrightarrow> np_diff xs ! i = xs ! Suc i - xs ! i"
  by (simp add: np_diff_def nth_tl)

lemma length_total_stress_values:
  "depths \<noteq> [] \<Longrightarrow> length (total_stress_values ddt dt depths uw) = length depths"
  by (cases depths)
     (simp_all add: total_stress_values_def cumsum_def length_cumsum_from length_np_diff Let_def)



lemma sorted_total_stress_values:
  assumes "sorted depths" "uw \<noteq> []" "\<forall>p\<in>set uw. 0 \<le> snd p"
    and "ddt = Int64 \<longrightarrow> (\<forall>d\<in>set (np_diff depths). d < 2 ^ 63)"
  shows "sorted (total_stress_values ddt dt depths uw)"
proof -
  let ?nd = "nudge_duplicates dt uw"
  have nn: "?nd \<noteq> []" "\<forall>p\<in>set ?nd. 0 \<le> snd p"
    using assms nudge_duplicates_Nil[of dt uw] nudge_duplicates_nonneg[of uw dt] by auto
  let ?interp = "map (\<lambda>z. np_interp z ?nd) depths"
  let ?incs = "map (\<lambda>(d, w). int64_op ddt d * w) (zip (np_diff depths) (tl ?interp))"
  have d: "\<forall>x\<in>set (np_diff depths). 0 \<le> int64_op ddt x"
  proof
    fix x assume x: "x \<in> set (np_diff depths)"
    then obtain i where i: "i < length (np_diff depths)" "x = np_diff depths ! i"
      by (auto simp: in_set_conv_nth)
    then have "Suc i < length depths" by (simp add: length_np_diff)
    with i assms(1) have "0 \<le> x"
      by (simp add: np_diff_nth sorted_iff_nth_mono)
    moreover have "ddt = Int64 \<longrightarrow> x < 2 ^ 63" using assms(4) x by simp
    ultimately show "0 \<le> int64_op ddt x" by (rule int64_op_nonneg)
  qed
  have w: "\<forall>x\<in>set (tl ?interp). 0 \<le> x"
  proof
    fix x assume "x \<in> set (tl ?interp)"
    then have "x \<in> set ?interp" by (cases depths) auto
    then show "0 \<le> x" using np_interp_nonneg[OF nn] by auto
  qed
  have "\<forall>x\<in>set ?incs. 0 \<le> x"
  proof
    fix x assume "x \<in> set ?incs"
    then obtain a b where ab: "(a, b) \<in> set (zip (np_diff depths) (tl ?interp))"
        "x = int64_op ddt a * b"
      by auto
    from ab(1) have "a \<in> set (np_diff depths)" "b \<in> set (tl ?interp)"
      by (auto dest: set_zip_leftD set_zip_rightD)
    with d w ab(2) show "0 \<le> x" by simp
  qed
  from cumsum_from_sorted[OF this] show ?thesis
    by (simp add: total_stress_values_def cumsum_def Let_def)
qed

lemma calculate_total_stress_ok:
  assumes "p_unit_weight s = Some uw" "uw \<noteq> []" "depth_index_series s uw \<noteq> []"
  shows "calculate_total_stress s =
         (Inr (), s\<lparr>p_total_stress :=
                      Some (zip (depth_index_series s uw)
                              (total_stress_values (depth_index_dtype s) (p_unit_weight_dtype s)
                                 (depth_index_series s uw) uw))\<rparr>)"
  using assms by (simp add: calculate_total_stress_def Let_def)

lemmas total_stress_eval =
  calculate_total_stress_def depth_index_series_def depth_index_dtype_def
  total_stress_values_def int64_op_def nudge_duplicates_def setitem_def
  np_interp_def np_diff_def cumsum_def unit_weight_rows_def unit_weight_dtype_def




text \<open>
  C9. For depth samples in ascending order and a unit-weight profile with increasing
  breakpoint depths and no negative value, the total stress that
  \<^verbatim>\<open>_calculate_total_stress\<close> stores is non-decreasing with depth. (On a probe without raw
  channel whose table is \<^verbatim>\<open>int64\<close>, where the depth samples are \<^verbatim>\<open>int64\<close> and \<^verbatim>\<open>np.diff\<close>
  wraps around, the differences of successive depths are taken to stay below
  \<open>2\<^sup>6\<^sup>3\<close>.)
\<close>

theorem total_stress_nondecreasing:
  assumes "p_unit_weight s = Some uw" and "uw \<noteq> []"
      and "\<forall>p\<in>set uw. 0 \<le> snd p"
      and "sorted (map fst (nudge_duplicates (p_unit_weight_dtype s) uw))"
      and "depth_index_series s uw \<noteq> []"
      and "sorted (depth_index_series s uw)"
      and "depth_index_dtype s = Int64 \<longrightarrow>
             (\<forall>d\<in>set (np_diff (depth_index_series s uw)). d < 2 ^ 63)"
  shows "\<exists>ts. calculate_total_stress s = (Inr (), s\<lparr>p_total_stress := Some ts\<rparr>)
           \<and> map fst ts = depth_index_series s uw
           \<and> sorted (map snd ts)"
proof -
  let ?d = "depth_index_series s uw"
  let ?vs = "total_stress_values (depth_index_dtype s) (p_unit_weight_dtype s) ?d uw"
  have len: "length ?vs = length ?d"
    using assms(5) by (rule length_total_stress_values)
  have "sorted ?vs" using assms(6,2,3,7) by (rule sorted_total_stress_values)
  with len calculate_total_stress_ok[OF assms(1,2,5)] show ?thesis
    by (intro exI[of _ "zip ?d ?vs"]) simp
qed

theorem total_stress_nondecreasing_witness:
  "p_unit_weight probe_sloped = Some [(0, 14), (20, 15)]
   \<and> (0 :: real) \<le> 14 \<and> (0 :: real) \<le> 15
   \<and> sorted (map fst (nudge_duplicates (p_unit_weight_dtype probe_sloped) [(0, 14), (20, 15)]))
   \<and> sorted (depth_index_series probe_sloped [(0, 14), (20, 15)])
   \<and> depth_index_dtype probe_sloped = Float64
   \<and> (\<exists>ts. calculate_total_stress probe_sloped = (Inr (), probe_sloped\<lparr>p_total_stress := Some ts\<rparr>)
           \<and> map fst ts = depth_index_series probe_sloped [(0, 14), (20, 15)]
           \<and> sorted (map snd ts))
   \<and> p_unit_weight probe_table = Some [(0, 16), (9999, 16)]
   \<and> depth_index_dtype probe_table = Int64
   \<and> np_diff (depth_index_series probe_table [(0, 16), (9999, 16)]) = [9999]
   \<and> (9999 :: real) < 2 ^ 63
   \<and> (\<exists>ts. calculate_total_stress probe_table = (Inr (), probe_table\<lparr>p_total_stress := Some ts\<rparr>)
           \<and> map fst ts = [0, 9999]
           \<and> sorted (map snd ts))"
proof -
  have a: "p_unit_weight probe_sloped = Some [(0, 14), (20, 15)]"
    by (simp add: probe_sloped_def init_CPT_def)
  have b: "\<forall>p\<in>set [(0, 14), (20, 15 :: real)]. 0 \<le> snd p" by simp
  have c: "sorted (map fst (nudge_duplicates (p_unit_weight_dtype probe_sloped) [(0, 14), (20, 15)]))"
    by (simp add: nudge_duplicates_def)
  have d: "depth_index_series probe_sloped [(0, 14), (20, 15)] = [10, 15]"
    by (simp add: probe_sloped_def init_CPT_def depth_index_series_def)
  have e: "depth_index_series probe_sloped [(0, 14), (20, 15)] \<noteq> []"
          "sorted (depth_index_series probe_sloped [(0, 14), (20, 15)])"
    by (simp_all add: d)
  have f: "depth_index_dtype probe_sloped = Float64"
    by (simp add: probe_sloped_def init_CPT_def depth_index_dtype_def)
  have a2: "p_unit_weight probe_table = Some [(0, 16), (9999, 16)]"
    and f2: "depth_index_dtype probe_table = Int64"
    and dt2: "p_unit_weight_dtype probe_table = Int64"
    by (simp_all add: probe_table_def init_CPT_def depth_index_dtype_def)
  have b2: "\<forall>p\<in>set [(0, 16), (9999, 16 :: real)]. 0 \<le> snd p" by simp
  have c2: "sorted (map fst (nudge_duplicates (p_unit_weight_dtype probe_table) [(0, 16), (9999, 16)]))"
    by (simp add: nudge_duplicates_def)
  have d2: "depth_index_series probe_table [(0, 16), (9999, 16)] = [0, 9999]"
    by (simp add: probe_table_def init_CPT_def depth_index_series_def)
  have e2: "depth_index_series probe_table [(0, 16), (9999, 16)] \<noteq> []"
          "sorted (depth_index_series probe_table [(0, 16), (9999, 16)])"
    by (simp_all add: d2)
  have g2: "np_diff (depth_index_series probe_table [(0, 16), (9999, 16)]) = [9999]"
    by (simp add: d2 np_diff_def)
  have h2: "depth_index_dtype probe_table = Int64 \<longrightarrow>
             (\<forall>d\<in>set (np_diff (depth_index_series probe_table [(0, 16), (9999, 16)])). d < 2 ^ 63)"
    by (simp add: g2)
  have h: "depth_index_dtype probe_sloped = Int64 \<longrightarrow>
             (\<forall>d\<in>set (np_diff (depth_index_series probe_sloped [(0, 14), (20, 15)])). d < 2 ^ 63)"
    by (simp add: f)
  have 1: "\<exists>ts. calculate_total_stress probe_sloped
                 = (Inr (), probe_sloped\<lparr>p_total_stress := Some ts\<rparr>)
           \<and> map fst ts = depth_index_series probe_sloped [(0, 14), (20, 15)]
           \<and> sorted (map snd ts)"
    using total_stress_nondecreasing[OF a _ b c e h] by simp
  have 2: "\<exists>ts. calculate_total_stress probe_table
                 = (Inr (), probe_table\<lparr>p_total_stress := Some ts\<rparr>)
           \<and> map fst ts = [0, 9999]
           \<and> sorted (map snd ts)"
    using total_stress_nondecreasing[OF a2 _ b2 c2 e2 h2] unfolding d2 by simp
  have 3: "(0 :: real) \<le> 14" "(0 :: real) \<le> 15" "(9999 :: real) < 2 ^ 63" by simp_all
  show ?thesis
    using a 3(1,2) c e(2) f 1 a2 f2 g2 3(3) 2 by (intro conjI)
qed

subsection \<open>Pore pressure and effective stress\<close>



subsection \<open>The raw channels\<close>

lemma probe_cptu_eq:
  "probe_cptu =
     (init_CPT ''CPT-1'')\<lparr>holedepth := 2, p_qc := Some [(1, 1.4), (2, 1.8)],
        p_fs := Some [(1, 35), (2, 47)], p_u2 := Some [(1, -4), (2, 18)]\<rparr>"
  by (simp add: probe_cptu_def set_raw_data_def is_two_dimensional_def init_CPT_def Let_def
        listener_dependency_def delattr_private_def list_max_def)

text \<open>
  C4 at a failing input. On the piezocone probe \<open>probe_cptu\<close>, sampled at 1 m and 2 m, the
  bulk assignment of three columns sampled at 0.5 m and 1.5 m succeeds, replaces \<^verbatim>\<open>qc\<close> and
  \<^verbatim>\<open>fs\<close>, and leaves the old \<^verbatim>\<open>u2\<close> with its old depth index in place.
\<close>

theorem raw_data_three_columns_keeps_stale_u2:
  "fst (set_raw_data empty_env 0 [[0.5, 1, 30], [1.5, 1.2, 31]] probe_cptu) = Inr ()
   \<and> p_qc (snd (set_raw_data empty_env 0 [[0.5, 1, 30], [1.5, 1.2, 31]] probe_cptu))
       = Some [(0.5, 1), (1.5, 1.2)]
   \<and> p_fs (snd (set_raw_data empty_env 0 [[0.5, 1, 30], [1.5, 1.2, 31]] probe_cptu))
       = Some [(0.5, 30), (1.5, 31)]
   \<and> p_u2 (snd (set_raw_data empty_env 0 [[0.5, 1, 30], [1.5, 1.2, 31]] probe_cptu))
       = Some [(1, -4), (2, 18)]"
  by (simp add: probe_cptu_eq set_raw_data_def is_two_dimensional_def init_CPT_def Let_def
        listener_dependency_def delattr_private_def list_max_def)

subsection \<open>Mutations that raise\<close>

text \<open>
  C6 at a failing input. On a new probe, which has no unit weight, setting the static
  groundwater level raises and the level is stored all the same; so does setting the
  elevated level.
\<close>

theorem set_gwl_without_unit_weight_stores_gwl:
  "set_static_gwl 1 (init_CPT ''CPT-1'')
     = (Inl (AttributeError ''Unit weight of CPT-1 is not yet defined.''),
        (init_CPT ''CPT-1'')\<lparr>p_gwl := Some 1\<rparr>)
   \<and> set_elevated_gwl 1 (init_CPT ''CPT-1'')
     = (Inl (AttributeError ''Unit weight of CPT-1 is not yet defined.''),
        (init_CPT ''CPT-1'')\<lparr>p_elevated_gwl := Some 1\<rparr>)"
  by (simp add: set_static_gwl_def set_gwl_def set_elevated_gwl_def and_then_def
        calculate_effective_stress_def init_CPT_def)

subsection \<open>Reads keep the inputs\<close>

lemma stable_refl: "stable s s"
  by (simp add: stable_def)

lemma stable_trans: "stable s s1 \<Longrightarrow> stable s1 s2 \<Longrightarrow> stable s s2"
  by (simp add: stable_def)

lemma preservesD: "preserves R m \<Longrightarrow> R s (snd (m s))"
  by (simp add: preserves_def)

lemma preserves_and_then:
  assumes "preserves stable m" and "\<And>x. preserves stable (f x)"
  shows "preserves stable (and_then m f)"
proof (unfold preserves_def, intro allI)
  fix s
  obtain r s1 where m: "m s = (r, s1)" by (cases "m s")
  have s1: "stable s s1" using preservesD[OF assms(1), of s] m by simp
  show "stable s (snd (and_then m f s))"
  proof (cases r)
    case (Inl e)
    with m s1 show ?thesis by (simp add: and_then_def)
  next
    case (Inr x)
    with m have "and_then m f s = f x s1" by (simp add: and_then_def)
    with s1 preservesD[OF assms(2), of s1 x] show ?thesis by (auto intro: stable_trans)
  qed
qed

lemma preserves_const: "preserves stable (\<lambda>s. (r, s))"
  by (simp add: preserves_def stable_refl)

lemma preserves_if: "preserves R a \<Longrightarrow> preserves R b \<Longrightarrow> preserves R (if c then a else b)"
  by simp

lemma preserves_cond:
  "preserves R a \<Longrightarrow> preserves R b \<Longrightarrow> preserves R (\<lambda>s. if c s then a s else b s)"
  by (simp add: preserves_def)

lemma stable_get_qc: "preserves stable get_qc"
  by (auto simp: preserves_def get_qc_def stable_refl split: option.splits)

lemma stable_get_fs: "preserves stable get_fs"
  by (auto simp: preserves_def get_fs_def stable_refl split: option.splits)

lemma stable_get_u2: "preserves stable get_u2"
  by (auto simp: preserves_def get_u2_def stable_refl split: option.splits)

lemma stable_lift_series: "preserves stable g \<Longrightarrow> preserves stable (lift_series g)"
  unfolding lift_series_def by (intro preserves_and_then preserves_const)

lemma stable_get_qt: "preserves stable get_qt"
  by (auto simp: preserves_def get_qt_def stable_def Let_def split: option.splits)

lemma stable_qt_or_qc: "preserves stable qt_or_qc"
proof -
  have "preserves stable (and_then get_qc (\<lambda>v s1. (Inr (to_nseries v), s1)))"
    by (intro preserves_and_then preserves_const stable_get_qc)
  with stable_get_qt show ?thesis
    by (simp add: preserves_def qt_or_qc_def)
qed

lemma stable_calculate_total_stress: "preserves stable calculate_total_stress"
  by (auto simp: preserves_def calculate_total_stress_def stable_def Let_def split: option.splits)

lemma stable_calculate_effective_stress: "preserves stable calculate_effective_stress"
  by (auto simp: preserves_def calculate_effective_stress_def stable_def Let_def
           split: option.splits)

lemma stable_get_total_stress:
  assumes "preserves stable cs"
  shows "preserves stable (get_total_stress cs)"
proof -
  have "preserves stable (and_then cs (\<lambda>_ s1.
            case p_total_stress s1 of
              None \<Rightarrow> (Inl (AttributeError ''object has no attribute _total_stress''), s1)
            | Some v \<Rightarrow> (Inr v, s1)))"
    by (intro preserves_and_then assms)
       (auto simp: preserves_def stable_refl split: option.splits)
  then show ?thesis
    by (simp add: preserves_def get_total_stress_def stable_refl split: option.splits)
qed

lemma stable_get_effective_stress:
  assumes "preserves stable cs"
  shows "preserves stable (get_effective_stress cs)"
proof -
  have "preserves stable (and_then cs (\<lambda>_ s1.
            case p_effective_stress s1 of
              None \<Rightarrow> (Inl (AttributeError ''object has no attribute _effective_stress''), s1)
            | Some v \<Rightarrow> (Inr v, s1)))"
    by (intro preserves_and_then assms)
       (auto simp: preserves_def stable_refl split: option.splits)
  then show ?thesis
    by (simp add: preserves_def get_effective_stress_def stable_refl split: option.splits)
qed

lemma stable_get_static_u0:
  assumes "preserves stable cs"
  shows "preserves stable (get_static_u0 cs)"
proof -
  have "preserves stable (and_then cs (\<lambda>_ s1.
            case p_static_u0 s1 of
              None \<Rightarrow> (Inl (AttributeError ''object has no attribute _static_u0''), s1)
            | Some v \<Rightarrow> (Inr v, s1)))"
    by (intro preserves_and_then assms)
       (auto simp: preserves_def stable_refl split: option.splits)
  then show ?thesis
    by (simp add: preserves_def get_static_u0_def stable_refl split: option.splits)
qed

lemma stable_get_elevated_u0:
  assumes "preserves stable cs"
  shows "preserves stable (get_elevated_u0 cs)"
proof -
  have "preserves stable (and_then cs (\<lambda>_ s1.
            case p_elevated_u0 s1 of
              None \<Rightarrow> (Inl (AttributeError ''object has no attribute _elevated_u0''), s1)
            | Some v \<Rightarrow> (Inr v, s1)))"
    by (intro preserves_and_then assms)
       (auto simp: preserves_def stable_refl split: option.splits)
  then show ?thesis
    by (simp add: preserves_def get_elevated_u0_def stable_refl split: option.splits)
qed

lemma preserves_store: "(\<And>s. stable s (snd (g s))) \<Longrightarrow> preserves stable g"
  by (simp add: preserves_def)

lemma stable_get_Rf: "preserves stable get_Rf"
proof -
  have a: "preserves stable
          (and_then get_qt
             (\<lambda>s_qt s1. let s_Rf = h s_qt in (Inr s_Rf, s1\<lparr>p_Rf := Some s_Rf\<rparr>)))" for h
    by (intro preserves_and_then stable_get_qt preserves_store) (simp add: stable_def Let_def)
  show ?thesis
    unfolding preserves_def
  proof
    fix s
    show "stable s (snd (get_Rf s))"
    proof (cases "p_area_ratio s")
      case None
      then show ?thesis
        by (simp add: get_Rf_def and_then_def stable_def Let_def split: option.splits)
    next
      case (Some r)
      with a show ?thesis
        by (simp add: preserves_def get_Rf_def stable_refl split: option.splits)
    qed
  qed
qed

lemma stable_get_Qt:
  assumes "preserves stable cs"
  shows "preserves stable (get_Qt cs)"
proof -
  have "preserves stable
          (and_then qt_or_qc (\<lambda>s_qt.
           and_then (get_total_stress cs) (\<lambda>s_total_stress.
           and_then (get_effective_stress cs) (\<lambda>s_effective_stress s1.
             let s_norm_Qt = h s_qt s_total_stress s_effective_stress
             in (Inr s_norm_Qt, s1\<lparr>p_Qt := Some s_norm_Qt\<rparr>)))))" for h
    by (intro preserves_and_then stable_qt_or_qc stable_get_total_stress
          stable_get_effective_stress assms preserves_store)
       (simp add: stable_def Let_def)
  then show ?thesis
    by (simp add: preserves_def get_Qt_def stable_refl split: option.splits)
qed

lemma stable_get_Fr:
  assumes "preserves stable cs"
  shows "preserves stable (get_Fr cs)"
proof -
  have "preserves stable
          (and_then get_fs (\<lambda>s_fs.
           and_then qt_or_qc (\<lambda>s_qt.
           and_then (get_total_stress cs) (\<lambda>s_total_stress s1.
             let s_norm_Fr = h s_fs s_qt s_total_stress
             in (Inr s_norm_Fr, s1\<lparr>p_Fr := Some s_norm_Fr\<rparr>)))))" for h
    by (intro preserves_and_then stable_qt_or_qc stable_get_total_stress
          stable_get_fs assms preserves_store)
       (simp add: stable_def Let_def)
  then show ?thesis
    by (simp add: preserves_def get_Fr_def stable_refl split: option.splits)
qed

lemma stable_get_Bq:
  assumes "preserves stable cs"
  shows "preserves stable (get_Bq cs)"
proof -
  have "preserves stable
          (and_then qt_or_qc (\<lambda>s_qt.
            let s_Bq_without_u2 = k s_qt
            in
            and_then (get_total_stress cs) (\<lambda>s_total_stress.
            and_then (\<lambda>s1. if p_elevated_u0 s1 = None \<and> p_static_u0 s1 = None
                            then calculate_effective_stress s1 else (Inr (), s1)) (\<lambda>_.
            and_then get_u2 (\<lambda>s_u2.
            and_then (\<lambda>s1. if p_elevated_u0 s1 \<noteq> None then get_elevated_u0 cs s1
                            else get_static_u0 cs s1) (\<lambda>s_u0 s1.
              let s_Bq = h s_qt s_total_stress s_u2 s_u0
              in (Inr s_Bq, s1\<lparr>p_Bq := Some s_Bq\<rparr>)))))))" for h and k :: "nseries \<Rightarrow> nseries option"
    unfolding Let_def
    by (intro preserves_and_then stable_qt_or_qc stable_get_total_stress preserves_cond
          stable_calculate_effective_stress preserves_const stable_get_u2
          stable_get_elevated_u0 stable_get_static_u0 assms preserves_store)
       (simp add: stable_def)
  then show ?thesis
    by (simp add: preserves_def get_Bq_def stable_refl split: option.splits)
qed

lemma stable_get_Ic:
  assumes "preserves stable cs"
  shows "preserves stable (get_Ic cs)"
proof -
  have "preserves stable
          (and_then (get_Qt cs) (\<lambda>s_Qt.
           and_then (get_Fr cs) (\<lambda>s_Fr s1.
             let s_Ic = h s_Qt s_Fr in (Inr s_Ic, s1\<lparr>p_Ic := Some s_Ic\<rparr>))))" for h
    by (intro preserves_and_then stable_get_Qt stable_get_Fr assms preserves_store)
       (simp add: stable_def Let_def)
  then show ?thesis
    by (simp add: preserves_def get_Ic_def stable_refl split: option.splits)
qed

lemma stable_getattribute:
  assumes "preserves stable cs"
  shows "preserves stable (getattribute cs param)"
  unfolding getattribute_def
  by (intro preserves_if stable_lift_series stable_get_qc stable_get_fs stable_get_u2
        stable_get_qt stable_get_Rf stable_get_Qt stable_get_Fr stable_get_Bq stable_get_Ic
        stable_get_total_stress stable_get_effective_stress stable_get_static_u0
        stable_get_elevated_u0 preserves_const assms)

lemma stable_upto_trans: "stable_upto k s s1 \<Longrightarrow> stable_upto k s1 s2 \<Longrightarrow> stable_upto k s s2"
  by (auto simp: stable_upto_def)

lemma stable_imp_upto: "stable s s' \<Longrightarrow> stable_upto k s s'"
  by (simp add: stable_def stable_upto_def)

lemma preserves_upto: "preserves stable m \<Longrightarrow> preserves (stable_upto k) m"
  by (simp add: preserves_def stable_imp_upto)

lemma preserves_upto_and_then:
  assumes "preserves (stable_upto k) m" and "\<And>x. preserves (stable_upto k) (f x)"
  shows "preserves (stable_upto k) (and_then m f)"
proof (unfold preserves_def, intro allI)
  fix s
  obtain r s1 where m: "m s = (r, s1)" by (cases "m s")
  have s1: "stable_upto k s s1" using preservesD[OF assms(1), of s] m by simp
  show "stable_upto k s (snd (and_then m f s))"
  proof (cases r)
    case (Inl e)
    with m s1 show ?thesis by (simp add: and_then_def)
  next
    case (Inr x)
    with m have "and_then m f s = f x s1" by (simp add: and_then_def)
    with s1 preservesD[OF assms(2), of s1 x] show ?thesis
      by (auto intro: stable_upto_trans)
  qed
qed

lemma stable_compare_data_first:
  assumes "preserves stable cs"
  shows "preserves stable (compare_data_first cs method m)"
proof -
  have a: "preserves stable (and_then get_qt (\<lambda>s_qt.
                  and_then get_u2 (\<lambda>s_u2 s2. (Inr (h s_qt s_u2), s2))))" for h :: "nseries \<Rightarrow> series \<Rightarrow> nseries \<times> nseries"
    by (intro preserves_and_then stable_get_qt stable_get_u2 preserves_const)
  have b: "preserves stable (and_then get_qt (\<lambda>s_qt s2. (Inr (h s_qt), s2)))"
    for h :: "nseries \<Rightarrow> nseries \<times> nseries"
    by (intro preserves_and_then stable_get_qt preserves_const)
  have c: "preserves stable (and_then (lift_series get_fs) (\<lambda>x s1.
             if p_u2 s1 \<noteq> None
             then and_then get_qt (\<lambda>s_qt.
                  and_then get_u2 (\<lambda>s_u2 s2.
                    (Inr (x, align_op nsub s_qt
                               (smap (\<lambda>v. ndiv v (Some 1000)) (to_nseries s_u2))), s2))) s1
             else and_then get_qt (\<lambda>s_qt s2. (Inr (x, s_qt), s2)) s1))"
    by (intro preserves_and_then stable_lift_series stable_get_fs preserves_cond a b)
  have d: "preserves stable (and_then (getattribute cs (param_x1 m)) (\<lambda>x.
           and_then (getattribute cs (param_y1 m)) (\<lambda>y s2. (Inr (x, y), s2))))"
    by (intro preserves_and_then stable_getattribute assms preserves_const)
  from c d show ?thesis by (simp add: compare_data_first_def)
qed

lemma stable_compare_data_second:
  assumes "preserves stable cs"
  shows "preserves stable (compare_data_second cs method m)"
proof -
  have "preserves stable (and_then (getattribute cs px2) (\<lambda>x.
            case param_y2 m of
              None \<Rightarrow> (\<lambda>s. (Inl (TypeError ''attribute name must be string''), s))
            | Some py2 \<Rightarrow>
                and_then (getattribute cs py2) (\<lambda>y s2. (Inr (Some (x, y)), s2))))" for px2
    by (cases "param_y2 m")
       (auto intro!: preserves_and_then stable_getattribute assms preserves_const)
  then show ?thesis
    by (auto simp: compare_data_second_def preserves_const split: option.splits)
qed

lemma stable_upto_calculate_soil_classification:
  assumes "preserves stable cs"
  shows "preserves (stable_upto method) (calculate_soil_classification cs env method)"
proof -
  have fin: "preserves (stable_upto method) (\<lambda>s1.
            case build_frame env m (map fst qc) g1 g2 of
              Inl e \<Rightarrow> (Inl e, s1)
            | Inr (index, graph_data) \<Rightarrow>
                (case classify_frames env method m index g1 g2 of
                   Inl e \<Rightarrow> (Inl e, s1)
                 | Inr fr \<Rightarrow>
                     (case assign_recalc method fr of
                        Inl e \<Rightarrow> (Inl e, s1)
                      | Inr df_soil_zones \<Rightarrow>
                          (Inr df_soil_zones,
                           s1\<lparr>p_soil_classification_method := Some method,
                              p_soil_classification := Some df_soil_zones,
                              p_soil_classification_graph_data := Some graph_data\<rparr>))))"
    for qc g1 g2 m
    by (auto simp: preserves_def stable_upto_def split: sum.splits prod.splits)
  have "preserves (stable_upto method)
          (and_then (compare_data_first cs method m) (\<lambda>g1.
           and_then (compare_data_second cs method m) (\<lambda>g2.
           and_then get_qc (\<lambda>qc s1.
            case build_frame env m (map fst qc) g1 g2 of
              Inl e \<Rightarrow> (Inl e, s1)
            | Inr (index, graph_data) \<Rightarrow>
                (case classify_frames env method m index g1 g2 of
                   Inl e \<Rightarrow> (Inl e, s1)
                 | Inr fr \<Rightarrow>
                     (case assign_recalc method fr of
                        Inl e \<Rightarrow> (Inl e, s1)
                      | Inr df_soil_zones \<Rightarrow>
                          (Inr df_soil_zones,
                           s1\<lparr>p_soil_classification_method := Some method,
                              p_soil_classification := Some df_soil_zones,
                              p_soil_classification_graph_data := Some graph_data\<rparr>)))))))"
    for m
    by (intro preserves_upto_and_then preserves_upto stable_compare_data_first
          stable_compare_data_second stable_get_qc assms fin)
  then show ?thesis
    by (auto simp: preserves_def calculate_soil_classification_def stable_upto_def
             split: option.splits)
qed

lemma stable_upto_classify_soil:
  assumes "preserves stable cs"
  shows "preserves (stable_upto k) (classify_soil cs env (Some k))"
proof -
  have "preserves (stable_upto k)
          (and_then (calculate_soil_classification cs env k) (\<lambda>_ s1. (Inr (), s1)))"
    by (intro preserves_upto_and_then stable_upto_calculate_soil_classification assms)
       (simp add: preserves_def stable_upto_def)
  then show ?thesis by (simp add: preserves_def classify_soil_def)
qed

lemma stable_calculate_stress_body:
  assumes "preserves stable inner"
  shows "preserves stable (calculate_stress_body env inner)"
proof -
  have last: "preserves stable (\<lambda>s2.
       case p_soil_classification_method s2 of
         None \<Rightarrow> (Inr (), s2)
       | Some method \<Rightarrow> (Inr (), snd (classify_soil inner env (Some method) s2)))"
    unfolding preserves_def
  proof
    fix s2
    show "stable s2 (snd (case p_soil_classification_method s2 of
         None \<Rightarrow> (Inr (), s2)
       | Some method \<Rightarrow> (Inr (), snd (classify_soil inner env (Some method) s2))))"
    proof (cases "p_soil_classification_method s2")
      case None
      then show ?thesis by (simp add: stable_refl)
    next
      case (Some k)
      from preservesD[OF stable_upto_classify_soil[OF assms, where k=k and env=env], of s2] Some
      show ?thesis by (auto simp: stable_def stable_upto_def)
    qed
  qed
  have "preserves stable
     (and_then calculate_total_stress (\<lambda>_.
      and_then (\<lambda>s1. if p_gwl s1 \<noteq> None \<or> p_elevated_gwl s1 \<noteq> None
                     then calculate_effective_stress s1 else (Inr (), s1)) (\<lambda>_ s2.
       case p_soil_classification_method s2 of
         None \<Rightarrow> (Inr (), s2)
       | Some method \<Rightarrow> (Inr (), snd (classify_soil inner env (Some method) s2)))))"
    by (intro preserves_and_then stable_calculate_total_stress preserves_cond
          stable_calculate_effective_stress preserves_const last)
  then show ?thesis by (simp add: preserves_def calculate_stress_body_def)
qed

lemma stable_calculate_stress: "preserves stable (calculate_stress env n)"
  by (induction n) (simp_all add: stable_calculate_stress_body preserves_const)

subsection \<open>The stress recalculation returns\<close>

lemma and_then_Inr: "m s = (Inr x, s1) \<Longrightarrow> and_then m f s = f x s1"
  by (simp add: and_then_def)

lemma and_then_Inl: "m s = (Inl e, s1) \<Longrightarrow> and_then m f s = (Inl e, s1)"
  by (simp add: and_then_def)

lemma calculate_stress_unfold:
  "calculate_stress env n s =
   calculate_stress_body env
     (case n of 0 \<Rightarrow> (\<lambda>s. (Inl RecursionError, s)) | Suc k \<Rightarrow> calculate_stress env k) s"
  by (cases n) simp_all

lemma calculate_effective_stress_ok:
  assumes "p_unit_weight s \<noteq> None" "p_total_stress s \<noteq> None"
      and "p_gwl s \<noteq> None \<or> p_elevated_gwl s \<noteq> None"
  shows "fst (calculate_effective_stress s) = Inr ()"
  using assms
  by (auto simp: calculate_effective_stress_def Let_def split: option.splits)

lemma calculate_stress_steps:
  assumes "calculate_total_stress s = (Inr (), s1)"
      and "(if p_gwl s1 \<noteq> None \<or> p_elevated_gwl s1 \<noteq> None
            then calculate_effective_stress s1 else (Inr (), s1)) = (Inr (), s2)"
  shows "calculate_stress env n s =
         (Inr (),
          case p_soil_classification_method s2 of
            None \<Rightarrow> s2
          | Some m \<Rightarrow>
              snd (classify_soil
                     (case n of 0 \<Rightarrow> (\<lambda>s. (Inl RecursionError, s))
                      | Suc k \<Rightarrow> calculate_stress env k) env (Some m) s2))"
  using assms
  by (simp add: calculate_stress_unfold calculate_stress_body_def and_then_def
           split: option.splits)

lemma calculate_stress_ok:
  assumes "p_unit_weight s = Some uw" "uw \<noteq> []" "depth_index_series s uw \<noteq> []"
  shows "fst (calculate_stress env n s) = Inr ()"
    and "p_total_stress (snd (calculate_stress env n s)) \<noteq> None"
proof -
  let ?s1 = "s\<lparr>p_total_stress :=
                 Some (zip (depth_index_series s uw)
                         (total_stress_values (depth_index_dtype s) (p_unit_weight_dtype s)
                            (depth_index_series s uw) uw))\<rparr>"
  let ?inner = "case n of 0 \<Rightarrow> (\<lambda>s. (Inl RecursionError, s)) | Suc k \<Rightarrow> calculate_stress env k"
  have t: "calculate_total_stress s = (Inr (), ?s1)"
    using assms by (rule calculate_total_stress_ok)
  obtain s2 where e: "(if p_gwl ?s1 \<noteq> None \<or> p_elevated_gwl ?s1 \<noteq> None
            then calculate_effective_stress ?s1 else (Inr (), ?s1)) = (Inr (), s2)"
  proof (cases "p_gwl ?s1 \<noteq> None \<or> p_elevated_gwl ?s1 \<noteq> None")
    case True
    have "fst (calculate_effective_stress ?s1) = Inr ()"
      using assms(1) True by (intro calculate_effective_stress_ok) simp_all
    with True that[of "snd (calculate_effective_stress ?s1)"] show ?thesis
      by (cases "calculate_effective_stress ?s1") simp
  next
    case False
    with that[of ?s1] show ?thesis by simp
  qed
  have s2: "p_total_stress s2 \<noteq> None"
  proof -
    have "stable ?s1 s2"
      using e preservesD[OF stable_calculate_effective_stress, of ?s1]
      by (auto simp: stable_refl split: if_splits)
    then show ?thesis by (simp add: stable_def)
  qed
  note st = calculate_stress_steps[OF t e, of env n]
  show "fst (calculate_stress env n s) = Inr ()" by (simp add: st)
  have inner: "preserves stable ?inner"
    by (cases n) (simp_all add: preserves_const stable_calculate_stress)
  show "p_total_stress (snd (calculate_stress env n s)) \<noteq> None"
  proof (cases "p_soil_classification_method s2")
    case None
    with st s2 show ?thesis by simp
  next
    case (Some m)
    from preservesD[OF stable_upto_classify_soil[OF inner, where k=m and env=env], of s2] s2
    have "p_total_stress (snd (classify_soil ?inner env (Some m) s2)) \<noteq> None"
      by (simp add: stable_upto_def)
    with st Some show ?thesis by simp
  qed
qed

lemma get_qt_ok:
  assumes "p_qc s = Some qc"
  shows "\<exists>q. fst (get_qt s) = Inr q"
  using assms by (auto simp: get_qt_def Let_def split: option.splits)

lemma qt_or_qc_ok:
  assumes "p_qc s = Some qc"
  shows "\<exists>q. fst (qt_or_qc s) = Inr q"
  using assms get_qt_ok[OF assms]
  by (auto simp: qt_or_qc_def get_qc_def and_then_def)

lemma get_total_stress_ok:
  assumes "p_unit_weight s = Some uw" "uw \<noteq> []" "depth_index_series s uw \<noteq> []"
  shows "\<exists>ts. fst (get_total_stress (calculate_stress env n) s) = Inr ts"
    and "p_total_stress (snd (get_total_stress (calculate_stress env n) s)) \<noteq> None"
  using calculate_stress_ok[OF assms, of env n]
  by (auto simp: get_total_stress_def and_then_def split: option.splits prod.splits sum.splits)

text \<open>
  Without \<^verbatim>\<open>_u2\<close>, and with everything else that \<^verbatim>\<open>Bq\<close> asks for, the read ends in the
  exception of the getter of \<^verbatim>\<open>u2\<close>.
\<close>

lemma Bq_without_u2_raises:
  assumes u2: "p_u2 s = None" and bq: "p_Bq s = None"
      and qc: "p_qc s = Some qc" "qc \<noteq> []"
      and uw: "p_unit_weight s = Some uw" "uw \<noteq> []"
      and gwl: "p_gwl s \<noteq> None \<or> p_elevated_gwl s \<noteq> None"
  shows "fst (Bq env lvl s) =
         Inl (AttributeError (''Pore pressure, u2, of '' @ pointID s @ '' is not yet defined.''))"
proof -
  let ?cs = "calculate_stress env lvl"
  obtain q s1 where q: "qt_or_qc s = (Inr q, s1)"
    using qt_or_qc_ok[OF qc(1)] by (cases "qt_or_qc s") auto
  have s1: "stable s s1" using preservesD[OF stable_qt_or_qc, of s] q by simp
  have d1: "depth_index_series s1 uw \<noteq> []"
    using s1 qc by (simp add: depth_index_series_def stable_def)
  have uw1: "p_unit_weight s1 = Some uw" using s1 uw by (simp add: stable_def)
  obtain ts s2 where ts: "get_total_stress ?cs s1 = (Inr ts, s2)"
    using get_total_stress_ok(1)[OF uw1 uw(2) d1, of env lvl]
    by (cases "get_total_stress ?cs s1") auto
  have s2: "stable s1 s2"
    using preservesD[OF stable_get_total_stress[OF stable_calculate_stress[of env lvl]], of s1] ts
    by simp
  have ts2: "p_total_stress s2 \<noteq> None"
    using get_total_stress_ok(2)[OF uw1 uw(2) d1, of env lvl] ts by simp
  let ?eff = "\<lambda>s1. if p_elevated_u0 s1 = None \<and> p_static_u0 s1 = None
                     then calculate_effective_stress s1 else (Inr (), s1)"
  obtain s3 where s3: "?eff s2 = (Inr (), s3)"
  proof (cases "p_elevated_u0 s2 = None \<and> p_static_u0 s2 = None")
    case True
    have "fst (calculate_effective_stress s2) = Inr ()"
      using s1 s2 uw gwl ts2 by (intro calculate_effective_stress_ok) (auto simp: stable_def)
    with True that[of "snd (calculate_effective_stress s2)"] show ?thesis
      by (cases "calculate_effective_stress s2") simp
  next
    case False
    with that[of s2] show ?thesis by auto
  qed
  have st3: "stable s2 s3"
    using s3 preservesD[OF stable_calculate_effective_stress, of s2]
    by (auto simp: stable_refl split: if_splits)
  have s_s3: "stable s s3" using s1 s2 st3 by (blast intro: stable_trans)
  have "get_u2 s3 =
        (Inl (AttributeError (''Pore pressure, u2, of '' @ pointID s @ '' is not yet defined.'')), s3)"
    using s_s3 u2 by (simp add: get_u2_def stable_def)
  then show ?thesis
    using u2 bq qc uw gwl q ts s3
    by (auto simp: Bq_def get_Bq_def Let_def and_then_Inr and_then_Inl)
qed

text \<open>
  C5 at a failing input. The probe \<open>probe_no_u2\<close> has \<^verbatim>\<open>qc\<close>, a unit-weight profile and a
  static groundwater level, and no \<^verbatim>\<open>u2\<close>; reading \<^verbatim>\<open>Bq\<close> raises the error of the missing
  \<^verbatim>\<open>u2\<close> and returns no series.
\<close>

theorem Bq_without_u2_raises_at_probe:
  "fst (Bq empty_env 0 probe_no_u2) =
   Inl (AttributeError ''Pore pressure, u2, of CPT-1 is not yet defined.'')"
proof -
  have "fst (Bq empty_env 0 probe_no_u2) =
        Inl (AttributeError (''Pore pressure, u2, of '' @ pointID probe_no_u2
                             @ '' is not yet defined.''))"
    by (rule Bq_without_u2_raises[where qc = "[(1, 1.4), (2, 1.8)]" and uw = "[(0, 16), (9999, 16)]"])
       (simp_all add: probe_no_u2_def init_CPT_def)
  then show ?thesis by (simp add: probe_no_u2_def init_CPT_def)
qed

subsection \<open>Setting one raw channel\<close>

lemma validate_depth_index_eq:
  "validate_depth_index index names s =
     (if misaligned_channels names index s = [] then (True, None)
      else (False, Some (misaligned_channels names index s)))"
proof -
  have "map fst (filter (\<lambda>(name, c). index \<noteq> map fst c)
          (concat (map (\<lambda>attr. case stored_channel attr s of
                                  None \<Rightarrow> [] | Some c \<Rightarrow> [(attr, c)]) names)))
        = misaligned_channels names index s"
    by (induction names) (auto simp: misaligned_channels_def split: option.splits)
  moreover have "concat (map (\<lambda>attr. case stored_channel attr s of
                                  None \<Rightarrow> [] | Some c \<Rightarrow> [(attr, c)]) names) = []
        \<Longrightarrow> misaligned_channels names index s = []"
    by (induction names) (auto simp: misaligned_channels_def split: option.splits)
  ultimately show ?thesis
    by (auto simp: validate_depth_index_def Let_def)
qed

lemma probe_qc_eq:
  "probe_qc = (init_CPT ''CPT-1'')\<lparr>holedepth := 1.8, p_qc := Some [(1, 1.4), (2, 1.8)]\<rparr>"
  by (simp add: probe_qc_def set_qc_def validate_depth_index_eq misaligned_channels_def
        stored_channel_def init_CPT_def Let_def del_qt_def listener_dependency_def
        delattr_private_def list_max_def)

lemmas evict_eval =
  del_qt_def listener_dependency_def delattr_private_def del_classification_def

lemma probe_qc_uw_eq:
  "probe_qc_uw =
     (init_CPT ''CPT-1'')\<lparr>holedepth := 1.8, p_qc := Some [(1, 1.4), (2, 1.8)],
        p_unit_weight := Some [(0, 16), (9999, 16)],
        p_total_stress := Some [(1, 16), (2, 32)]\<rparr>"
  by (simp add: probe_qc_uw_def probe_qc_eq set_unit_weight_def init_CPT_def Let_def
        evict_eval calculate_stress_body_def and_then_def total_stress_eval)

text \<open>
  C7, as the specification states it, fails on the probe \<open>probe_qc\<close>: \<^verbatim>\<open>fs\<close> given at the
  depths 2 m, 1 m has the depth index of \<^verbatim>\<open>qc\<close> as a set, and the assignment is refused.
\<close>

theorem set_fs_same_set_counterexample:
  "set (map fst [(2, 35), (1, 47 :: real)]) = set (map fst [(1, 1.4), (2, 1.8 :: real)])
   \<and> p_qc probe_qc = Some [(1, 1.4), (2, 1.8)]
   \<and> set_fs empty_env 0 [(2, 35), (1, 47)] probe_qc
       = (Inl (ValueError (mismatch_message [''qc''])), probe_qc)"
  by (auto simp: probe_qc_eq set_fs_def validate_depth_index_eq misaligned_channels_def
        stored_channel_def init_CPT_def)

lemma del_qt_keeps:
  "p_unit_weight (del_qt s) = p_unit_weight s"
  "p_total_stress (del_qt s) = p_total_stress s"
  "p_qc (del_qt s) = p_qc s" "p_fs (del_qt s) = p_fs s" "p_u2 (del_qt s) = p_u2 s"
  by (simp_all add: del_qt_def listener_dependency_def delattr_private_def
        del_classification_def Let_def)

lemma listener_Rf_Fr_Ic_keeps:
  "p_unit_weight (listener_dependency [''Rf'', ''Fr'', ''Ic''] True s) = p_unit_weight s"
  "p_total_stress (listener_dependency [''Rf'', ''Fr'', ''Ic''] True s) = p_total_stress s"
  "p_qc (listener_dependency [''Rf'', ''Fr'', ''Ic''] True s) = p_qc s"
  "p_fs (listener_dependency [''Rf'', ''Fr'', ''Ic''] True s) = p_fs s"
  "p_u2 (listener_dependency [''Rf'', ''Fr'', ''Ic''] True s) = p_u2 s"
  by (simp_all add: listener_dependency_def delattr_private_def del_classification_def Let_def)

lemma misaligned_two:
  "misaligned_channels [a, b] index s = [] \<longleftrightarrow>
     (\<forall>c. stored_channel a s = Some c \<longrightarrow> map fst c = index) \<and>
     (\<forall>c. stored_channel b s = Some c \<longrightarrow> map fst c = index)"
  by (auto simp: misaligned_channels_def split: option.splits)

lemma set_qc_alignment:
  assumes "data \<noteq> []"
      and "p_total_stress s \<noteq> None \<longrightarrow> (\<exists>uw. p_unit_weight s = Some uw \<and> uw \<noteq> [])"
  shows "(fst (set_qc env lvl data s) = Inr ())
           = (misaligned_channels [''fs'', ''u2''] (map fst data) s = [])"
    and "misaligned_channels [''fs'', ''u2''] (map fst data) s \<noteq> [] \<Longrightarrow>
         set_qc env lvl data s =
           (Inl (ValueError (mismatch_message
                   (misaligned_channels [''fs'', ''u2''] (map fst data) s))), s)"
proof -
  show bad: "misaligned_channels [''fs'', ''u2''] (map fst data) s \<noteq> [] \<Longrightarrow>
         set_qc env lvl data s =
           (Inl (ValueError (mismatch_message
                   (misaligned_channels [''fs'', ''u2''] (map fst data) s))), s)"
    using assms(1) by (simp add: set_qc_def validate_depth_index_eq)
  show "(fst (set_qc env lvl data s) = Inr ())
           = (misaligned_channels [''fs'', ''u2''] (map fst data) s = [])"
  proof (cases "misaligned_channels [''fs'', ''u2''] (map fst data) s = []")
    case False
    with bad show ?thesis by simp
  next
    case True
    let ?s2 = "if holedepth s < list_max (map snd data)
               then s\<lparr>p_qc := Some data, holedepth := list_max (map snd data)\<rparr>
               else s\<lparr>p_qc := Some data\<rparr>"
    let ?s3 = "del_qt ?s2"
    have "fst (calculate_stress env lvl ?s3) = Inr ()" if "p_total_stress ?s3 \<noteq> None"
    proof -
      from that have "p_total_stress s \<noteq> None" by (simp add: del_qt_keeps split: if_splits)
      with assms(2) obtain uw where uw: "p_unit_weight s = Some uw" "uw \<noteq> []" by auto
      have "p_unit_weight ?s3 = Some uw" using uw by (simp add: del_qt_keeps)
      moreover have "depth_index_series ?s3 uw \<noteq> []"
        using assms(1) by (simp add: depth_index_series_def del_qt_keeps)
      ultimately show ?thesis using uw(2) by (intro calculate_stress_ok(1))
    qed
    with True assms(1) show ?thesis
      by (auto simp: set_qc_def validate_depth_index_eq Let_def)
  qed
qed

lemma set_fs_alignment:
  assumes "data \<noteq> []"
      and "p_total_stress s \<noteq> None \<longrightarrow> (\<exists>uw. p_unit_weight s = Some uw \<and> uw \<noteq> [])"
  shows "(fst (set_fs env lvl data s) = Inr ())
           = (misaligned_channels [''qc'', ''u2''] (map fst data) s = [])"
    and "misaligned_channels [''qc'', ''u2''] (map fst data) s \<noteq> [] \<Longrightarrow>
         set_fs env lvl data s =
           (Inl (ValueError (mismatch_message
                   (misaligned_channels [''qc'', ''u2''] (map fst data) s))), s)"
proof -
  show bad: "misaligned_channels [''qc'', ''u2''] (map fst data) s \<noteq> [] \<Longrightarrow>
         set_fs env lvl data s =
           (Inl (ValueError (mismatch_message
                   (misaligned_channels [''qc'', ''u2''] (map fst data) s))), s)"
    using assms(1) by (simp add: set_fs_def validate_depth_index_eq)
  show "(fst (set_fs env lvl data s) = Inr ())
           = (misaligned_channels [''qc'', ''u2''] (map fst data) s = [])"
  proof (cases "misaligned_channels [''qc'', ''u2''] (map fst data) s = []")
    case False
    with bad show ?thesis by simp
  next
    case True
    let ?s2 = "if holedepth s < list_max (map snd data)
               then s\<lparr>p_fs := Some data, holedepth := list_max (map snd data)\<rparr>
               else s\<lparr>p_fs := Some data\<rparr>"
    let ?s3 = "listener_dependency [''Rf'', ''Fr'', ''Ic''] True ?s2"
    have "fst (calculate_stress env lvl ?s3) = Inr ()" if "p_total_stress ?s3 \<noteq> None"
    proof -
      from that have "p_total_stress s \<noteq> None"
        by (simp add: listener_Rf_Fr_Ic_keeps split: if_splits)
      with assms(2) obtain uw where uw: "p_unit_weight s = Some uw" "uw \<noteq> []" by auto
      have "p_unit_weight ?s3 = Some uw" using uw by (simp add: listener_Rf_Fr_Ic_keeps)
      moreover have "depth_index_series ?s3 uw \<noteq> []"
        using assms(1) True
        by (auto simp: depth_index_series_def listener_Rf_Fr_Ic_keeps misaligned_two
              stored_channel_def split: option.splits)
      ultimately show ?thesis using uw(2) by (intro calculate_stress_ok(1))
    qed
    with True assms(1) show ?thesis
      by (auto simp: set_fs_def validate_depth_index_eq Let_def)
  qed
qed

lemma set_u2_alignment:
  assumes "data \<noteq> []"
      and "p_total_stress s \<noteq> None \<longrightarrow> (\<exists>uw. p_unit_weight s = Some uw \<and> uw \<noteq> [])"
  shows "(fst (set_u2 env lvl data s) = Inr ())
           = (misaligned_channels [''qc'', ''fs''] (map fst data) s = [])"
    and "misaligned_channels [''qc'', ''fs''] (map fst data) s \<noteq> [] \<Longrightarrow>
         set_u2 env lvl data s =
           (Inl (ValueError (mismatch_message
                   (misaligned_channels [''qc'', ''fs''] (map fst data) s))), s)"
proof -
  show bad: "misaligned_channels [''qc'', ''fs''] (map fst data) s \<noteq> [] \<Longrightarrow>
         set_u2 env lvl data s =
           (Inl (ValueError (mismatch_message
                   (misaligned_channels [''qc'', ''fs''] (map fst data) s))), s)"
    using assms(1) by (simp add: set_u2_def validate_depth_index_eq)
  show "(fst (set_u2 env lvl data s) = Inr ())
           = (misaligned_channels [''qc'', ''fs''] (map fst data) s = [])"
  proof (cases "misaligned_channels [''qc'', ''fs''] (map fst data) s = []")
    case False
    with bad show ?thesis by simp
  next
    case True
    let ?s2 = "if holedepth s < list_max (map snd data)
               then s\<lparr>p_u2 := Some data, holedepth := list_max (map snd data)\<rparr>
               else s\<lparr>p_u2 := Some data\<rparr>"
    let ?s3 = "del_qt ?s2"
    have "fst (calculate_stress env lvl ?s3) = Inr ()" if "p_total_stress ?s3 \<noteq> None"
    proof -
      from that have "p_total_stress s \<noteq> None" by (simp add: del_qt_keeps split: if_splits)
      with assms(2) obtain uw where uw: "p_unit_weight s = Some uw" "uw \<noteq> []" by auto
      have "p_unit_weight ?s3 = Some uw" using uw by (simp add: del_qt_keeps)
      moreover have "depth_index_series ?s3 uw \<noteq> []"
        using assms(1) True
        by (auto simp: depth_index_series_def del_qt_keeps misaligned_two
              stored_channel_def split: option.splits)
      ultimately show ?thesis using uw(2) by (intro calculate_stress_ok(1))
    qed
    with True assms(1) show ?thesis
      by (auto simp: set_u2_def validate_depth_index_eq Let_def)
  qed
qed

text \<open>
  C7, amended. Setting \<^verbatim>\<open>qc\<close>, \<^verbatim>\<open>fs\<close> or \<^verbatim>\<open>u2\<close> to a table with at least one row, on a probe
  whose cached total stress (if any) has a unit-weight profile behind it, succeeds if and
  only if every other raw channel already present has the depth index of the new data,
  the same depths in the same order. Otherwise it fails with the \<^verbatim>\<open>ValueError\<close> whose
  message names each misaligned channel and points to the \<^verbatim>\<open>raw_data\<close> property, and the
  probe is left as it was.
\<close>

theorem channel_setter_alignment:
  assumes "data \<noteq> []"
      and "p_total_stress s \<noteq> None \<longrightarrow> (\<exists>uw. p_unit_weight s = Some uw \<and> uw \<noteq> [])"
  shows "((fst (set_qc env lvl data s) = Inr ())
            = (misaligned_channels [''fs'', ''u2''] (map fst data) s = []))
       \<and> (misaligned_channels [''fs'', ''u2''] (map fst data) s \<noteq> [] \<longrightarrow>
            set_qc env lvl data s =
              (Inl (ValueError (mismatch_message
                      (misaligned_channels [''fs'', ''u2''] (map fst data) s))), s))
       \<and> ((fst (set_fs env lvl data s) = Inr ())
            = (misaligned_channels [''qc'', ''u2''] (map fst data) s = []))
       \<and> (misaligned_channels [''qc'', ''u2''] (map fst data) s \<noteq> [] \<longrightarrow>
            set_fs env lvl data s =
              (Inl (ValueError (mismatch_message
                      (misaligned_channels [''qc'', ''u2''] (map fst data) s))), s))
       \<and> ((fst (set_u2 env lvl data s) = Inr ())
            = (misaligned_channels [''qc'', ''fs''] (map fst data) s = []))
       \<and> (misaligned_channels [''qc'', ''fs''] (map fst data) s \<noteq> [] \<longrightarrow>
            set_u2 env lvl data s =
              (Inl (ValueError (mismatch_message
                      (misaligned_channels [''qc'', ''fs''] (map fst data) s))), s))"
  using set_qc_alignment[OF assms] set_fs_alignment[OF assms] set_u2_alignment[OF assms]
  by blast

theorem channel_setter_alignment_witness:
  "[(1, 35), (3, 47 :: real)] \<noteq> []
   \<and> p_total_stress probe_qc = None
   \<and> misaligned_channels [''qc'', ''u2''] (map fst [(1, 35), (3, 47 :: real)]) probe_qc = [''qc'']
   \<and> set_fs empty_env 0 [(1, 35), (3, 47)] probe_qc
        = (Inl (ValueError
             (''Error: Input data is mismatched with existing qc datasets.'' @ [CHR 0x0A]
              @ ''To reset the whole raw dataset, use the raw_data property.'')), probe_qc)
   \<and> misaligned_channels [''qc'', ''u2''] (map fst [(1, 35), (2, 47 :: real)]) probe_qc = []
   \<and> fst (set_fs empty_env 0 [(1, 35), (2, 47)] probe_qc) = Inr ()
   \<and> p_total_stress probe_qc_uw = Some [(1, 16), (2, 32)]
   \<and> p_unit_weight probe_qc_uw = Some [(0, 16), (9999, 16)]
   \<and> misaligned_channels [''fs'', ''u2''] (map fst [(1, 1.5), (3, 1.9 :: real)]) probe_qc_uw = []
   \<and> fst (set_qc empty_env 0 [(1, 1.5), (3, 1.9)] probe_qc_uw) = Inr ()"
proof -
  have ts: "p_total_stress probe_qc = None" by (simp add: probe_qc_eq init_CPT_def)
  have m1: "misaligned_channels [''qc'', ''u2''] (map fst [(1, 35), (3, 47 :: real)]) probe_qc = [''qc'']"
    by (simp add: probe_qc_eq init_CPT_def misaligned_channels_def stored_channel_def)
  have m2: "misaligned_channels [''qc'', ''u2''] (map fst [(1, 35), (2, 47 :: real)]) probe_qc = []"
    by (simp add: probe_qc_eq init_CPT_def misaligned_channels_def stored_channel_def)
  have uw: "p_total_stress probe_qc_uw = Some [(1, 16), (2, 32)]"
           "p_unit_weight probe_qc_uw = Some [(0, 16), (9999, 16)]"
    by (simp_all add: probe_qc_uw_eq init_CPT_def)
  have m3: "misaligned_channels [''fs'', ''u2''] (map fst [(1, 1.5), (3, 1.9 :: real)]) probe_qc_uw = []"
    by (simp add: probe_qc_uw_eq init_CPT_def misaligned_channels_def stored_channel_def)
  from channel_setter_alignment[of "[(1, 35), (3, 47)]" probe_qc empty_env 0]
       channel_setter_alignment[of "[(1, 35), (2, 47)]" probe_qc empty_env 0]
       channel_setter_alignment[of "[(1, 1.5), (3, 1.9)]" probe_qc_uw empty_env 0]
       ts m1 m2 m3 uw
  show ?thesis by (simp add: mismatch_message_def)
qed

subsection \<open>Eviction\<close>

lemma evicts_exactly_fields:
  "evicts_exactly mu s s' =
     ((\<forall>q \<in> spec_evicted mu. \<not> cached q s') \<and>
      (\<forall>q \<in> refreshed mu s. cached q s') \<and>
      (\<forall>q \<in> {Q_qt, Q_Rf, Q_Qt, Q_Fr, Q_Bq, Q_Ic, Q_total_stress, Q_effective_stress,
               Q_static_u0, Q_elevated_u0} - (spec_evicted mu \<union> refreshed mu s).
          same_cache q s s') \<and>
      (p_soil_classification_method s \<noteq> None \<longrightarrow>
         p_soil_classification s' = None \<and> p_soil_classification_graph_data s' = None) \<and>
      p_soil_classification_method s' = p_soil_classification_method s)"
proof -
  have "q \<in> {Q_qt, Q_Rf, Q_Qt, Q_Fr, Q_Bq, Q_Ic, Q_total_stress, Q_effective_stress,
              Q_static_u0, Q_elevated_u0}" for q
    by (cases q) simp_all
  then show ?thesis unfolding evicts_exactly_def by blast
qed

lemma evicts_del_raw_data: "evicts_exactly Del_raw_data s (snd (del_raw_data s))"
  by (simp add: evicts_exactly_fields del_raw_data_def evict_eval Let_def)

lemma evicts_set_raw_data:
  "set_raw_data env lvl d s = (Inr (), s') \<Longrightarrow> evicts_exactly (Set_raw_data d) s s'"
  by (auto simp: evicts_exactly_fields set_raw_data_def evict_eval Let_def split: if_splits)

lemma evicts_del_qc: "del_qc s = (Inr (), s') \<Longrightarrow> evicts_exactly Del_qc s s'"
  by (auto simp: evicts_exactly_fields del_qc_def evict_eval Let_def split: if_splits)

lemma evicts_del_fs: "del_fs s = (Inr (), s') \<Longrightarrow> evicts_exactly Del_fs s s'"
  by (auto simp: evicts_exactly_fields del_fs_def evict_eval Let_def split: if_splits)

lemma evicts_del_u2: "del_u2 s = (Inr (), s') \<Longrightarrow> evicts_exactly Del_u2 s s'"
  by (auto simp: evicts_exactly_fields del_u2_def evict_eval Let_def split: if_splits)

lemma evicts_set_area_ratio:
  "set_area_ratio v s = (Inr (), s') \<Longrightarrow> evicts_exactly (Set_area_ratio v) s s'"
  by (auto simp: evicts_exactly_fields set_area_ratio_def evict_eval Let_def split: if_splits)

lemma evicts_del_area_ratio:
  "del_area_ratio s = (Inr (), s') \<Longrightarrow> evicts_exactly Del_area_ratio s s'"
  by (auto simp: evicts_exactly_fields del_area_ratio_def evict_eval Let_def split: if_splits)

lemma evicts_del_unit_weight:
  "del_unit_weight s = (Inr (), s') \<Longrightarrow> evicts_exactly Del_unit_weight s s'"
  by (auto simp: evicts_exactly_fields del_unit_weight_def evict_eval Let_def split: if_splits)

lemma evicts_del_gwl:
  "del_static_gwl s = (Inr (), s') \<Longrightarrow> evicts_exactly Del_static_gwl s s'"
  by (auto simp: evicts_exactly_fields del_static_gwl_def del_gwl_def evict_eval Let_def
           split: if_splits)

lemma evicts_del_elevated_gwl:
  "del_elevated_gwl s = (Inr (), s') \<Longrightarrow> evicts_exactly Del_elevated_gwl s s'"
  by (auto simp: evicts_exactly_fields del_elevated_gwl_def evict_eval Let_def split: if_splits)

lemma evicts_set_gwl:
  assumes "set_static_gwl v s = (Inr (), s')"
  shows "evicts_exactly (Set_static_gwl v) s s'"
    and "\<And>g ts. p_elevated_gwl s = Some g \<Longrightarrow> p_total_stress s = Some ts \<Longrightarrow>
           p_elevated_u0 s' = Some (u0_series g (map fst ts))"
  using assms
  by (auto simp: evicts_exactly_fields set_static_gwl_def set_gwl_def and_then_def
        calculate_effective_stress_def evict_eval Let_def split: if_splits option.splits)

lemma evicts_set_elevated_gwl:
  assumes "set_elevated_gwl v s = (Inr (), s')"
  shows "evicts_exactly (Set_elevated_gwl v) s s'"
    and "\<And>g ts. p_gwl s = Some g \<Longrightarrow> p_total_stress s = Some ts \<Longrightarrow>
           p_static_u0 s' = Some (u0_series g (map fst ts))"
  using assms
  by (auto simp: evicts_exactly_fields set_elevated_gwl_def and_then_def
        calculate_effective_stress_def evict_eval Let_def split: if_splits option.splits)

lemma evicts_set_unit_weight:
  assumes "set_unit_weight env lvl v s = (Inr (), s')"
  shows "\<exists>s_ev. evicts_exactly (Set_unit_weight v) s s_ev
               \<and> calculate_stress env lvl s_ev = (Inr (), s')"
proof -
  let ?s1 = "s\<lparr>p_unit_weight := Some (unit_weight_rows v),
                p_unit_weight_dtype := unit_weight_dtype v\<rparr>"
  let ?s2 = "listener_dependency
               [''total_stress'', ''effective_stress'', ''Qt'', ''Fr'', ''Bq'', ''Ic''] True ?s1"
  have "evicts_exactly (Set_unit_weight v) s ?s2"
    by (auto simp: evicts_exactly_fields evict_eval Let_def)
  moreover have "calculate_stress env lvl ?s2 = (Inr (), s')"
    using assms by (simp add: set_unit_weight_def Let_def)
  ultimately show ?thesis by blast
qed

lemma keepexisting_eq:
  "fst (validate_depth_index index [n] s) =
     (case stored_channel n s of None \<Rightarrow> True | Some c \<Rightarrow> map fst c = index)"
  by (simp add: validate_depth_index_eq misaligned_channels_def split: option.splits)

lemma evicts_set_qc:
  assumes "set_qc env lvl d s = (Inr (), s')"
  shows "\<not> recalculates (Set_qc d) s \<Longrightarrow> evicts_exactly (Set_qc d) s s'"
    and "recalculates (Set_qc d) s \<Longrightarrow>
         \<exists>s_ev. evicts_exactly (Set_qc d) s s_ev \<and> calculate_stress env lvl s_ev = (Inr (), s')"
proof -
  let ?s2 = "if holedepth s < list_max (map snd d)
             then s\<lparr>p_qc := Some d, holedepth := list_max (map snd d)\<rparr>
             else s\<lparr>p_qc := Some d\<rparr>"
  have ev: "evicts_exactly (Set_qc d) s (del_qt ?s2)"
    by (auto simp: evicts_exactly_fields evict_eval Let_def)
  have ok: "fst (validate_depth_index (map fst d) [''fs'', ''u2''] s)" "d \<noteq> []"
    using assms by (auto simp: set_qc_def split: if_splits prod.splits bool.splits)
  have run: "set_qc env lvl d s =
             (if recalculates (Set_qc d) s then calculate_stress env lvl (del_qt ?s2)
              else (Inr (), del_qt ?s2))"
    using ok
    by (cases "validate_depth_index (map fst d) [''fs'', ''u2''] s")
       (auto simp: set_qc_def Let_def keepexisting_eq stored_channel_def del_qt_keeps
             split: option.splits)
  show "evicts_exactly (Set_qc d) s s'" if "\<not> recalculates (Set_qc d) s"
  proof -
    from run that have "set_qc env lvl d s = (Inr (), del_qt ?s2)" by (simp only: if_False)
    with assms have "s' = del_qt ?s2" by simp
    with ev show ?thesis by simp
  qed
  show "\<exists>s_ev. evicts_exactly (Set_qc d) s s_ev \<and> calculate_stress env lvl s_ev = (Inr (), s')"
    if "recalculates (Set_qc d) s"
  proof -
    from run that have "set_qc env lvl d s = calculate_stress env lvl (del_qt ?s2)"
      by (simp only: if_True)
    with assms have "calculate_stress env lvl (del_qt ?s2) = (Inr (), s')" by simp
    with ev show ?thesis by blast
  qed
qed

lemma evicts_set_fs:
  assumes "set_fs env lvl d s = (Inr (), s')"
  shows "\<not> recalculates (Set_fs d) s \<Longrightarrow> evicts_exactly (Set_fs d) s s'"
    and "recalculates (Set_fs d) s \<Longrightarrow>
         \<exists>s_ev. evicts_exactly (Set_fs d) s s_ev \<and> calculate_stress env lvl s_ev = (Inr (), s')"
proof -
  let ?s2 = "if holedepth s < list_max (map snd d)
             then s\<lparr>p_fs := Some d, holedepth := list_max (map snd d)\<rparr>
             else s\<lparr>p_fs := Some d\<rparr>"
  let ?s3 = "listener_dependency [''Rf'', ''Fr'', ''Ic''] True ?s2"
  have ev: "evicts_exactly (Set_fs d) s ?s3"
    by (auto simp: evicts_exactly_fields evict_eval Let_def)
  have ok: "fst (validate_depth_index (map fst d) [''qc'', ''u2''] s)" "d \<noteq> []"
    using assms by (auto simp: set_fs_def split: if_splits prod.splits bool.splits)
  have run: "set_fs env lvl d s =
             (if recalculates (Set_fs d) s then calculate_stress env lvl ?s3
              else (Inr (), ?s3))"
    using ok
    by (cases "validate_depth_index (map fst d) [''qc'', ''u2''] s")
       (auto simp: set_fs_def Let_def keepexisting_eq stored_channel_def listener_Rf_Fr_Ic_keeps
             split: option.splits)
  show "evicts_exactly (Set_fs d) s s'" if "\<not> recalculates (Set_fs d) s"
  proof -
    from run that have "set_fs env lvl d s = (Inr (), ?s3)" by (simp only: if_False)
    with assms have "s' = ?s3" by simp
    with ev show ?thesis by simp
  qed
  show "\<exists>s_ev. evicts_exactly (Set_fs d) s s_ev \<and> calculate_stress env lvl s_ev = (Inr (), s')"
    if "recalculates (Set_fs d) s"
  proof -
    from run that have "set_fs env lvl d s = calculate_stress env lvl (?s3)"
      by (simp only: if_True)
    with assms have "calculate_stress env lvl (?s3) = (Inr (), s')" by simp
    with ev show ?thesis by blast
  qed
qed

lemma evicts_set_u2:
  assumes "set_u2 env lvl d s = (Inr (), s')"
  shows "\<not> recalculates (Set_u2 d) s \<Longrightarrow> evicts_exactly (Set_u2 d) s s'"
    and "recalculates (Set_u2 d) s \<Longrightarrow>
         \<exists>s_ev. evicts_exactly (Set_u2 d) s s_ev \<and> calculate_stress env lvl s_ev = (Inr (), s')"
proof -
  let ?s2 = "if holedepth s < list_max (map snd d)
             then s\<lparr>p_u2 := Some d, holedepth := list_max (map snd d)\<rparr>
             else s\<lparr>p_u2 := Some d\<rparr>"
  have ev: "evicts_exactly (Set_u2 d) s (del_qt ?s2)"
    by (auto simp: evicts_exactly_fields evict_eval Let_def)
  have ok: "fst (validate_depth_index (map fst d) [''qc'', ''fs''] s)" "d \<noteq> []"
    using assms by (auto simp: set_u2_def split: if_splits prod.splits bool.splits)
  have run: "set_u2 env lvl d s =
             (if recalculates (Set_u2 d) s then calculate_stress env lvl (del_qt ?s2)
              else (Inr (), del_qt ?s2))"
    using ok
    by (cases "validate_depth_index (map fst d) [''qc'', ''fs''] s")
       (auto simp: set_u2_def Let_def keepexisting_eq stored_channel_def del_qt_keeps
             split: option.splits)
  show "evicts_exactly (Set_u2 d) s s'" if "\<not> recalculates (Set_u2 d) s"
  proof -
    from run that have "set_u2 env lvl d s = (Inr (), del_qt ?s2)" by (simp only: if_False)
    with assms have "s' = del_qt ?s2" by simp
    with ev show ?thesis by simp
  qed
  show "\<exists>s_ev. evicts_exactly (Set_u2 d) s s_ev \<and> calculate_stress env lvl s_ev = (Inr (), s')"
    if "recalculates (Set_u2 d) s"
  proof -
    from run that have "set_u2 env lvl d s = calculate_stress env lvl (del_qt ?s2)"
      by (simp only: if_True)
    with assms have "calculate_stress env lvl (del_qt ?s2) = (Inr (), s')" by simp
    with ev show ?thesis by blast
  qed
qed

lemma calculate_stress_Inr_total:
  assumes "calculate_stress env n s = (Inr (), s')"
  shows "p_total_stress s' \<noteq> None"
proof -
  obtain r s1 where t: "calculate_total_stress s = (r, s1)" by (cases "calculate_total_stress s")
  have r: "r = Inr ()"
    using assms t
    by (cases r) (auto simp: calculate_stress_unfold calculate_stress_body_def and_then_def)
  from t r obtain uw where uw: "p_unit_weight s = Some uw" "uw \<noteq> []" "depth_index_series s uw \<noteq> []"
    by (auto simp: calculate_total_stress_def Let_def split: option.splits if_splits)
  from calculate_stress_ok(2)[OF uw, of env n] assms show ?thesis by simp
qed

lemma set_qc_new_index_at_probe:
  "mutate empty_env 0 (Set_qc [(1, 1.5), (3, 1.9)]) probe_qc_uw =
     (Inr (),
      (init_CPT ''CPT-1'')\<lparr>holedepth := 1.9, p_qc := Some [(1, 1.5), (3, 1.9)],
         p_unit_weight := Some [(0, 16), (9999, 16)],
         p_total_stress := Some [(1, 16), (3, 48)]\<rparr>)"
  by (simp add: probe_qc_uw_eq set_qc_def validate_depth_index_eq misaligned_channels_def
        stored_channel_def init_CPT_def Let_def evict_eval list_max_def
        calculate_stress_body_def and_then_def total_stress_eval)

text \<open>
  C1, as the specification states it, fails on the probe \<open>probe_qc_uw\<close>: the total
  stress is not listed for \<^verbatim>\<open>qc\<close>, it is cached as 16 and 32 at 1 m and 2 m, and setting
  \<^verbatim>\<open>qc\<close> at 1 m and 3 m leaves it cached as 16 and 48 at 1 m and 3 m.
\<close>

theorem set_qc_changes_unlisted_total_stress_counterexample:
  "Q_total_stress \<notin> spec_evicted (Set_qc [(1, 1.5), (3, 1.9)])
   \<and> p_total_stress probe_qc_uw = Some [(1, 16), (2, 32)]
   \<and> fst (mutate empty_env 0 (Set_qc [(1, 1.5), (3, 1.9)]) probe_qc_uw) = Inr ()
   \<and> p_total_stress (snd (mutate empty_env 0 (Set_qc [(1, 1.5), (3, 1.9)]) probe_qc_uw))
       = Some [(1, 16), (3, 48)]"
  unfolding set_qc_new_index_at_probe by (simp add: probe_qc_uw_eq init_CPT_def)

text \<open>
  C1, amended. For every probe and every mutation of an input of the dependency table
  that returns:
  \<^item> unless the mutation runs the stress recalculation, it evicts exactly the cached
    quantities that the table lists for the input, evicts the classification result of
    a probe that remembers a method, keeps the method name, and leaves every other
    cached quantity as it was, but for the pore pressure of the other groundwater
    level, which the setter of one level recomputes on the depths of the cached total
    stress and stores;
  \<^item> the setter of the unit weight, and the setter of \<^verbatim>\<open>qc\<close>, \<^verbatim>\<open>fs\<close> or \<^verbatim>\<open>u2\<close> that brings a
    new depth index while a total stress is cached, first evict in exactly this way
    and then run \<^verbatim>\<open>_calculate_stress\<close> on the state so reached; after it the total stress
    is cached again and the method name is as before.
\<close>

theorem mutation_evicts_dependents:
  assumes "mutate env lvl mu s = (Inr (), s')"
  shows "(\<not> recalculates mu s \<longrightarrow> evicts_exactly mu s s')
       \<and> (recalculates mu s \<longrightarrow>
            (\<exists>s_ev. evicts_exactly mu s s_ev \<and> calculate_stress env lvl s_ev = (Inr (), s'))
            \<and> p_soil_classification_method s' = p_soil_classification_method s
            \<and> p_total_stress s' \<noteq> None)
       \<and> (\<forall>v g ts. mu = Set_static_gwl v \<and> p_elevated_gwl s = Some g \<and> p_total_stress s = Some ts
            \<longrightarrow> p_elevated_u0 s' = Some (u0_series g (map fst ts)))
       \<and> (\<forall>v g ts. mu = Set_elevated_gwl v \<and> p_gwl s = Some g \<and> p_total_stress s = Some ts
            \<longrightarrow> p_static_u0 s' = Some (u0_series g (map fst ts)))"
proof -
  have rec: "p_soil_classification_method s' = p_soil_classification_method s
             \<and> p_total_stress s' \<noteq> None"
    if "evicts_exactly mu s s_ev" "calculate_stress env lvl s_ev = (Inr (), s')" for s_ev
  proof -
    have "stable s_ev s'"
      using preservesD[OF stable_calculate_stress[of env lvl], of s_ev] that(2) by simp
    with that(1) calculate_stress_Inr_total[OF that(2)] show ?thesis
      by (simp add: stable_def evicts_exactly_def)
  qed
  show ?thesis
  proof (cases mu)
    case (Set_raw_data d)
    with assms evicts_set_raw_data[of env lvl d s s'] show ?thesis by simp
  next
    case Del_raw_data
    with assms evicts_del_raw_data[of s] show ?thesis by auto
  next
    case (Set_qc d)
    with assms evicts_set_qc[of env lvl d s s'] rec show ?thesis by auto
  next
    case Del_qc
    with assms evicts_del_qc[of s s'] show ?thesis by simp
  next
    case (Set_fs d)
    with assms evicts_set_fs[of env lvl d s s'] rec show ?thesis by auto
  next
    case Del_fs
    with assms evicts_del_fs[of s s'] show ?thesis by simp
  next
    case (Set_u2 d)
    with assms evicts_set_u2[of env lvl d s s'] rec show ?thesis by auto
  next
    case Del_u2
    with assms evicts_del_u2[of s s'] show ?thesis by simp
  next
    case (Set_area_ratio v)
    with assms evicts_set_area_ratio[of v s s'] show ?thesis by simp
  next
    case Del_area_ratio
    with assms evicts_del_area_ratio[of s s'] show ?thesis by simp
  next
    case (Set_unit_weight v)
    with assms evicts_set_unit_weight[of env lvl v s s'] rec show ?thesis by auto
  next
    case Del_unit_weight
    with assms evicts_del_unit_weight[of s s'] show ?thesis by simp
  next
    case (Set_static_gwl v)
    with assms evicts_set_gwl[of v s s'] show ?thesis by simp
  next
    case Del_static_gwl
    with assms evicts_del_gwl[of s s'] show ?thesis by simp
  next
    case (Set_elevated_gwl v)
    with assms evicts_set_elevated_gwl[of v s s'] show ?thesis by simp
  next
    case Del_elevated_gwl
    with assms evicts_del_elevated_gwl[of s s'] show ?thesis by simp
  qed
qed

theorem mutation_evicts_dependents_witness:
  "mutate empty_env 0 (Set_qc [(1, 1.5), (3, 1.9)]) probe_qc_uw =
     (Inr (),
      (init_CPT ''CPT-1'')\<lparr>holedepth := 1.9, p_qc := Some [(1, 1.5), (3, 1.9)],
         p_unit_weight := Some [(0, 16), (9999, 16)],
         p_total_stress := Some [(1, 16), (3, 48)]\<rparr>)
   \<and> recalculates (Set_qc [(1, 1.5), (3, 1.9)]) probe_qc_uw
   \<and> (\<exists>s_ev. evicts_exactly (Set_qc [(1, 1.5), (3, 1.9)]) probe_qc_uw s_ev
         \<and> calculate_stress empty_env 0 s_ev =
            (Inr (),
             (init_CPT ''CPT-1'')\<lparr>holedepth := 1.9, p_qc := Some [(1, 1.5), (3, 1.9)],
                p_unit_weight := Some [(0, 16), (9999, 16)],
                p_total_stress := Some [(1, 16), (3, 48)]\<rparr>))
   \<and> mutate empty_env 0 Del_unit_weight probe_qc_uw =
       (Inr (),
        (init_CPT ''CPT-1'')\<lparr>holedepth := 1.8, p_qc := Some [(1, 1.4), (2, 1.8)]\<rparr>)
   \<and> \<not> recalculates Del_unit_weight probe_qc_uw
   \<and> evicts_exactly Del_unit_weight probe_qc_uw
       ((init_CPT ''CPT-1'')\<lparr>holedepth := 1.8, p_qc := Some [(1, 1.4), (2, 1.8)]\<rparr>)"
proof -
  have a: "recalculates (Set_qc [(1, 1.5), (3, 1.9)]) probe_qc_uw"
    by (simp add: probe_qc_uw_eq init_CPT_def)
  have b: "mutate empty_env 0 Del_unit_weight probe_qc_uw =
       (Inr (),
        (init_CPT ''CPT-1'')\<lparr>holedepth := 1.8, p_qc := Some [(1, 1.4), (2, 1.8)]\<rparr>)"
    by (simp add: probe_qc_uw_eq del_unit_weight_def init_CPT_def Let_def evict_eval)
  from mutation_evicts_dependents[OF set_qc_new_index_at_probe]
       mutation_evicts_dependents[OF b] a set_qc_new_index_at_probe b
  show ?thesis by simp
qed

subsection \<open>The classification returns on aligned coordinates\<close>

lemma map_fst_series_ge: "map fst (series_ge a lo) = map fst a"
  by (induction a) (auto simp: series_ge_def)

lemma map_fst_series_le: "map fst (series_le a hi) = map fst a"
  by (induction a) (auto simp: series_le_def)

lemma map_fst_zip_same:
  "length a = length b \<Longrightarrow> map fst (map (\<lambda>((d, x), (d', y)). (d, f x y)) (zip a b)) = map fst a"
  by (induction a b rule: list_induct2) auto

lemma map_fst_series_and:
  assumes "map fst a = map fst b"
  shows "map fst (series_and a b) = map fst a"
proof -
  from assms have l: "length a = length b" by (rule map_eq_imp_length_eq)
  have "series_and a b = map (\<lambda>((d, x), (d', y)). (d, x \<and> y)) (zip a b)"
    using assms by (simp add: series_and_def)
  then show ?thesis by (simp only: map_fst_zip_same[OF l])
qed

lemma map_fst_isna:
  "map fst (map (\<lambda>(lab, z, de, us). (lab, z = None)) rows) = map fst rows"
  by (induction rows) auto

lemma map_fst_series_inbounds:
  assumes "map fst x = map fst rows" and "map fst y = map fst rows"
  shows "map fst (series_inbounds verts rows x y) = map fst rows"
proof -
  let ?a0 = "map (\<lambda>(lab, z, de, us). (lab, z = None)) rows"
  let ?a1 = "series_and ?a0 (series_ge x (list_min (map fst verts)))"
  let ?a2 = "series_and ?a1 (series_le x (list_max (map fst verts)))"
  let ?a3 = "series_and ?a2 (series_ge y (list_min (map snd verts)))"
  let ?a4 = "series_and ?a3 (series_le y (list_max (map snd verts)))"
  have 0: "map fst ?a0 = map fst rows" by (rule map_fst_isna)
  have "map fst ?a0 = map fst (series_ge x (list_min (map fst verts)))"
    by (simp only: 0 map_fst_series_ge assms)
  from map_fst_series_and[OF this] have 1: "map fst ?a1 = map fst rows" by (simp only: 0)
  have "map fst ?a1 = map fst (series_le x (list_max (map fst verts)))"
    by (simp only: 1 map_fst_series_le assms)
  from map_fst_series_and[OF this] have 2: "map fst ?a2 = map fst rows" by (simp only: 1)
  have "map fst ?a2 = map fst (series_ge y (list_min (map snd verts)))"
    by (simp only: 2 map_fst_series_ge assms)
  from map_fst_series_and[OF this] have 3: "map fst ?a3 = map fst rows" by (simp only: 2)
  have "map fst ?a3 = map fst (series_le y (list_max (map snd verts)))"
    by (simp only: 3 map_fst_series_le assms)
  from map_fst_series_and[OF this] have 4: "map fst ?a4 = map fst rows" by (simp only: 3)
  then show ?thesis by (simp only: series_inbounds_def)
qed

lemma check_bool_indexer_same:
  "map fst key = index \<Longrightarrow> check_bool_indexer index key = Inr (map snd key)"
  by (simp add: check_bool_indexer_def)

lemma length_filter_zip:
  "length bs = length xs \<Longrightarrow> length (filter fst (zip bs xs)) = length (filter (\<lambda>b. b) bs)"
  by (induction bs xs rule: list_induct2) auto

lemma getitem_bool_same:
  assumes "map fst key = map fst a"
  shows "getitem_bool a key = Inr (map (\<lambda>(b, d, v). v) (filter fst (zip (map snd key) a)))"
proof -
  from assms have "length key = length a" by (rule map_eq_imp_length_eq)
  then show ?thesis using assms by (simp add: getitem_bool_def check_bool_indexer_same)
qed

lemma set_nonzero: "set (nonzero bs) \<subseteq> {0..<length bs}"
  by (auto simp: nonzero_def dest!: set_zip_rightD)

lemma length_nonzero: "length (nonzero bs) = length (filter (\<lambda>b. b) bs)"
  using length_filter_zip[of bs "[0..<length bs]"] by (simp add: nonzero_def)

lemma loc_getbool_same:
  assumes "map fst key = map fst rows"
  shows "loc_getbool rows key = Inr (map (\<lambda>i. rows ! i) (nonzero (map snd key)))"
proof -
  from assms have "length key = length rows" by (rule map_eq_imp_length_eq)
  then have "\<not> list_ex (\<lambda>i. length rows \<le> i) (nonzero (map snd key))"
    using set_nonzero[of "map snd key"] by (auto simp: list_ex_iff)
  then show ?thesis using assms by (simp add: loc_getbool_def check_bool_indexer_same)
qed

lemma loc_setbool_same:
  assumes "map fst key = map fst rows" and "length (filter (\<lambda>b. b) (map snd key)) = n"
  shows "loc_setbool rows key n = Inr (map snd key)"
proof -
  from assms have "length key = length rows" by (metis map_eq_imp_length_eq)
  then show ?thesis using assms by (simp add: loc_setbool_def check_bool_indexer_same)
qed

lemma map_fst_store_rows: "map fst (store_rows bs vs rows) = map fst rows"
  by (induction bs vs rows rule: store_rows.induct) (auto split: list.splits)

lemma process_zone_aligned:
  assumes x: "map fst x = map fst rows" and y: "map fst y = map fst rows"
    and named: "(method = ''Robertson et al 1986'' \<and> k = ''9,10,11,12'') \<or> k \<in> fst ` set names"
  shows "\<exists>rows' rc'. process_zone env method names x y lx ly (k, verts) (rows, rc) = Inr (rows', rc')
                    \<and> map fst rows' = map fst rows"
proof -
  let ?B = "series_inbounds verts rows x y"
  have B: "map fst ?B = map fst rows" by (rule map_fst_series_inbounds[OF x y])
  have lB: "length ?B = length rows" using B by (rule map_eq_imp_length_eq)
  have lx: "length x = length rows" using x by (rule map_eq_imp_length_eq)
  have ly: "length y = length rows" using y by (rule map_eq_imp_length_eq)
  let ?px = "map (\<lambda>(b, d, v). v) (filter fst (zip (map snd ?B) x))"
  let ?py = "map (\<lambda>(b, d, v). v) (filter fst (zip (map snd ?B) y))"
  have gx: "getitem_bool x ?B = Inr ?px" using B x by (simp add: getitem_bool_same)
  have gy: "getitem_bool y ?B = Inr ?py" using B y by (simp add: getitem_bool_same)
  have cx: "length ?px = length (filter (\<lambda>b. b) (map snd ?B))"
    using length_filter_zip[of "map snd ?B" x] lB lx by simp
  have cy: "length ?py = length (filter (\<lambda>b. b) (map snd ?B))"
    using length_filter_zip[of "map snd ?B" y] lB ly by simp
  have gl: "loc_getbool rows ?B = Inr (map (\<lambda>i. rows ! i) (nonzero (map snd ?B)))"
    by (rule loc_getbool_same[OF B])
  have sl: "loc_setbool rows ?B n = Inr (map snd ?B)"
    if "n = length (filter (\<lambda>b. b) (map snd ?B))" for n
    using loc_setbool_same[OF B, of n] that by simp
  show ?thesis
  proof (cases "method = ''Robertson et al 1986'' \<and> k = ''9,10,11,12''")
    case True
    then show ?thesis
      using gx gy cx cy gl
      by (simp add: process_zone_def Let_def length_nonzero)
  next
    case False
    then have nf: "(method = ''Robertson et al 1986'' \<and> k = ''9,10,11,12'') = False" by simp
    from False named obtain d u where "map_of (rev names) k = Some (d, u)"
      by (cases "map_of (rev names) k") (auto simp: map_of_eq_None_iff)
    then show ?thesis
      using gx gy cx cy sl
      by (simp add: process_zone_def Let_def map_fst_store_rows nf)
  qed
qed

lemma process_zones_aligned:
  assumes "map fst x = map fst rows" and "map fst y = map fst rows"
    and "\<forall>zone \<in> set zones. (method = ''Robertson et al 1986'' \<and> fst zone = ''9,10,11,12'')
                              \<or> fst zone \<in> fst ` set names"
  shows "\<exists>rows' rc'. process_zones env method names x y lx ly zones (rows, rc) = Inr (rows', rc')
                    \<and> map fst rows' = map fst rows"
  using assms
proof (induction zones arbitrary: rows rc)
  case Nil
  then show ?case by simp
next
  case (Cons zone zones)
  obtain k verts where z: "zone = (k, verts)" by (cases zone)
  from Cons.prems(3) z
  have "(method = ''Robertson et al 1986'' \<and> k = ''9,10,11,12'') \<or> k \<in> fst ` set names"
    by simp
  from process_zone_aligned[OF Cons.prems(1,2) this, of env lx ly verts rc]
  obtain rows1 rc1 where
    1: "process_zone env method names x y lx ly (k, verts) (rows, rc) = Inr (rows1, rc1)"
    and i1: "map fst rows1 = map fst rows" by blast
  have "\<exists>rows' rc'. process_zones env method names x y lx ly zones (rows1, rc1) = Inr (rows', rc')
                    \<and> map fst rows' = map fst rows1"
    using Cons.prems i1 by (intro Cons.IH) simp_all
  with 1 i1 z show ?case by simp
qed

subsection \<open>The coordinates of 'Eslami Fellenius'\<close>

lemma and_then_InrE:
  assumes "and_then m f s = (Inr y, s')"
  obtains x s1 where "m s = (Inr x, s1)" "f x s1 = (Inr y, s')"
  using assms by (auto simp: and_then_def split: prod.splits sum.splits)

lemma get_qt_state:
  assumes "get_qt s = (Inr qt, s1)"
  shows "s1 = s \<or> s1 = s\<lparr>p_qt := Some qt\<rparr>"
  using assms by (auto simp: get_qt_def Let_def split: option.splits)

lemma reindex_same: "map fst a = index \<Longrightarrow> reindex a index = Inr (map snd a)"
  by (simp add: reindex_def)

lemma map_fst_align_op:
  assumes "map fst a = map fst b"
  shows "map fst (align_op f a b) = map fst a"
proof -
  from assms have l: "length a = length b" by (rule map_eq_imp_length_eq)
  have "align_op f a b = map (\<lambda>((d, x), (d', y)). (d, f x y)) (zip a b)"
    using assms by (simp add: align_op_def)
  then show ?thesis by (simp only: map_fst_zip_same[OF l])
qed

lemma map_fst_to_nseries: "map fst (to_nseries a) = map fst a"
  by (induction a) (auto simp: to_nseries_def)

lemma map_fst_smap: "map fst (smap g a) = map fst a"
  by (induction a) (auto simp: smap_def)

lemma get_qt_aligned:
  assumes qc: "p_qc s = Some qc"
    and u2: "\<forall>u2. p_u2 s = Some u2 \<longrightarrow> map fst u2 = map fst qc"
    and qt: "\<forall>qt. p_qt s = Some qt \<longrightarrow> map fst qt = map fst qc"
  shows "\<exists>qt s_q. get_qt s = (Inr qt, s_q) \<and> map fst qt = map fst qc
                 \<and> (s_q = s \<or> s_q = s\<lparr>p_qt := Some qt\<rparr>)"
proof (cases "p_qt s")
  case (Some v)
  with qc qt show ?thesis by (simp add: get_qt_def)
next
  case None
  note nqt = None
  show ?thesis
  proof (cases "p_area_ratio s")
    case None
    with qc nqt show ?thesis by (simp add: get_qt_def map_fst_to_nseries)
  next
    case (Some a)
    note ar = Some
    show ?thesis
    proof (cases "p_u2 s")
      case None
      with qc nqt ar show ?thesis
        by (simp add: get_qt_def Let_def map_fst_smap map_fst_to_nseries)
    next
      case (Some u)
      let ?b = "smap (\<lambda>v. nmul (ndiv v (Some 1000)) (Some (1 - a))) (to_nseries u)"
      from u2 Some have "map fst u = map fst qc" by simp
      then have "map fst (to_nseries qc) = map fst ?b"
        by (simp only: map_fst_smap map_fst_to_nseries)
      from map_fst_align_op[OF this, of nadd]
      have "map fst (align_op nadd (to_nseries qc) ?b) = map fst qc"
        by (simp only: map_fst_to_nseries)
      with qc nqt ar Some show ?thesis by (simp add: get_qt_def Let_def)
    qed
  qed
qed

lemma map_fst_qE_of:
  assumes "\<forall>u2. p_u2 s = Some u2 \<longrightarrow> map fst u2 = map fst qt"
  shows "map fst (qE_of s qt) = map fst qt"
proof (cases "p_u2 s")
  case None
  then show ?thesis by (simp add: qE_of_def)
next
  case (Some u)
  let ?b = "smap (\<lambda>v. ndiv v (Some 1000)) (to_nseries u)"
  from assms Some have "map fst qt = map fst ?b"
    by (simp only: map_fst_smap map_fst_to_nseries)
  from map_fst_align_op[OF this, of nsub] Some show ?thesis by (simp add: qE_of_def)
qed

lemma compare_data_first_eslami_run:
  assumes fs: "p_fs s = Some fs" and qt: "get_qt s = (Inr qt, s_q)"
  shows "compare_data_first cs ''Eslami Fellenius'' m s = (Inr (to_nseries fs, qE_of s qt), s_q)"
proof -
  have l: "lift_series get_fs s = (Inr (to_nseries fs), s)"
    using fs by (simp add: lift_series_def get_fs_def and_then_def)
  have u: "p_u2 s_q = p_u2 s"
    using get_qt_state[OF qt] by auto
  show ?thesis
  proof (cases "p_u2 s")
    case None
    then show ?thesis
      using l qt by (simp add: compare_data_first_def and_then_def qE_of_def)
  next
    case (Some u2)
    with u have "get_u2 s_q = (Inr u2, s_q)" by (simp add: get_u2_def)
    then show ?thesis
      using l qt Some by (simp add: compare_data_first_def and_then_def qE_of_def)
  qed
qed

lemma build_frame_one:
  assumes "param_x2 m = None"
    and "reindex (fst g1) index = Inr X" and "reindex (snd g1) index = Inr Y"
  shows "build_frame env m index g1 g2 =
           Inr (index, map (\<lambda>(lab, x, y). (lab, x, y, None, None))
                         (zip index (zip (map (astype_float32 env) X)
                                         (map (astype_float32 env) Y))))"
  using assms by (simp add: build_frame_def)

lemma classify_frames_one:
  assumes "param_x2 m = None"
  shows "classify_frames env method m index g1 g2 =
           process_zones env method (zone_names m) (fst g1) (snd g1)
             (is_x1_on_log_scale m) (is_y1_on_log_scale m) (zone_definitions_graph_1 m)
             (map (\<lambda>lab. (lab, None, None, None)) index, None)"
  using assms by (simp add: classify_frames_def split: sum.splits)

lemma map_fst_rows0: "map fst (map (\<lambda>lab. (lab, None, None, None)) index) = index"
  by (induction index) auto

text \<open>
  The classification with 'Eslami Fellenius' returns on every probe whose \<^verbatim>\<open>fs\<close>, \<^verbatim>\<open>u2\<close> and
  cached \<^verbatim>\<open>qt\<close> carry the depth index of \<^verbatim>\<open>qc\<close>, with a one-graph method of the database
  whose zones are all named.
\<close>

lemma eslami_fellenius_returns:
  assumes m: "methods env ''Eslami Fellenius'' = Some m" and one: "param_x2 m = None"
    and named: "\<forall>zone \<in> set (zone_definitions_graph_1 m). fst zone \<in> fst ` set (zone_names m)"
    and qc: "p_qc s = Some qc" and fs: "p_fs s = Some fs" and fsi: "map fst fs = map fst qc"
    and u2: "\<forall>u2. p_u2 s = Some u2 \<longrightarrow> map fst u2 = map fst qc"
    and qt: "\<forall>qt. p_qt s = Some qt \<longrightarrow> map fst qt = map fst qc"
  shows "\<exists>df s'. calculate_soil_classification cs env ''Eslami Fellenius'' s = (Inr df, s')
               \<and> map fst df = map fst qc
               \<and> p_soil_classification_method s' = Some ''Eslami Fellenius''
               \<and> p_soil_classification s' = Some df"
proof -
  from get_qt_aligned[OF qc u2 qt] obtain qtv s_q where
    g: "get_qt s = (Inr qtv, s_q)" and qi: "map fst qtv = map fst qc"
    and sq: "s_q = s \<or> s_q = s\<lparr>p_qt := Some qtv\<rparr>" by blast
  let ?x = "to_nseries fs"
  let ?y = "qE_of s qtv"
  let ?index = "map fst qc"
  have c1: "compare_data_first cs ''Eslami Fellenius'' m s = (Inr (?x, ?y), s_q)"
    by (rule compare_data_first_eslami_run[OF fs g])
  have c2: "compare_data_second cs ''Eslami Fellenius'' m s_q = (Inr None, s_q)"
    by (simp add: compare_data_second_def)
  have c3: "get_qc s_q = (Inr qc, s_q)"
    using sq qc by (auto simp: get_qc_def)
  have xi: "map fst ?x = ?index" using fsi by (simp only: map_fst_to_nseries)
  have "\<forall>u2. p_u2 s = Some u2 \<longrightarrow> map fst u2 = map fst qtv" using u2 qi by simp
  from map_fst_qE_of[OF this] have yi: "map fst ?y = ?index" using qi by simp
  have bf: "build_frame env m ?index (?x, ?y) None =
           Inr (?index, map (\<lambda>(lab, x, y). (lab, x, y, None, None))
                         (zip ?index (zip (map (astype_float32 env) (map snd ?x))
                                         (map (astype_float32 env) (map snd ?y)))))"
    by (rule build_frame_one[OF one]) (simp_all only: fst_conv snd_conv reindex_same[OF xi] reindex_same[OF yi])
  let ?rows0 = "map (\<lambda>lab. (lab, None, None, None)) ?index :: soil_classification"
  have r0: "map fst ?x = map fst ?rows0" "map fst ?y = map fst ?rows0"
    using xi yi by (simp_all only: map_fst_rows0)
  have nm: "\<forall>zone \<in> set (zone_definitions_graph_1 m).
              (''Eslami Fellenius'' = ''Robertson et al 1986'' \<and> fst zone = ''9,10,11,12'')
              \<or> fst zone \<in> fst ` set (zone_names m)"
    using named by simp
  from process_zones_aligned[OF r0 nm, of env "is_x1_on_log_scale m" "is_y1_on_log_scale m" None]
  obtain rows rc where
    pz: "process_zones env ''Eslami Fellenius'' (zone_names m) ?x ?y
           (is_x1_on_log_scale m) (is_y1_on_log_scale m) (zone_definitions_graph_1 m)
           (?rows0, None) = Inr (rows, rc)"
    and ri: "map fst rows = map fst ?rows0" by blast
  have cf: "classify_frames env ''Eslami Fellenius'' m ?index (?x, ?y) None = Inr (rows, rc)"
    using classify_frames_one[OF one, of env "''Eslami Fellenius''" ?index "(?x, ?y)" None] pz
    by simp
  have ar: "assign_recalc ''Eslami Fellenius'' (rows, rc) = Inr rows"
    by (simp add: assign_recalc_def)
  have run: "calculate_soil_classification cs env ''Eslami Fellenius'' s =
          (Inr rows, s_q\<lparr>p_soil_classification_method := Some ''Eslami Fellenius'',
                          p_soil_classification := Some rows,
                          p_soil_classification_graph_data :=
                            Some (map (\<lambda>(lab, x, y). (lab, x, y, None, None))
                         (zip ?index (zip (map (astype_float32 env) (map snd ?x))
                                         (map (astype_float32 env) (map snd ?y)))))\<rparr>)"
    unfolding calculate_soil_classification_def m option.case
    by (simp add: and_then_def c1 c2 c3 bf cf ar)
  have "map fst rows = ?index" using ri by (simp only: map_fst_rows0)
  with run show ?thesis by simp
qed

lemma compare_data_first_eslami:
  assumes "compare_data_first cs ''Eslami Fellenius'' m s = (Inr g1, s1)"
  shows "\<exists>fs qt. p_fs s = Some fs \<and> get_qt s = (Inr qt, s1)
                \<and> g1 = (to_nseries fs, qE_of s qt)"
proof -
  from assms obtain x sa where
    x: "lift_series get_fs s = (Inr x, sa)" and
    rest: "(if p_u2 sa \<noteq> None
            then and_then get_qt (\<lambda>s_qt.
                 and_then get_u2 (\<lambda>s_u2 s2.
                   (Inr (x, align_op nsub s_qt
                              (smap (\<lambda>v. ndiv v (Some 1000)) (to_nseries s_u2))), s2))) sa
            else and_then get_qt (\<lambda>s_qt s2. (Inr (x, s_qt), s2)) sa) = (Inr g1, s1)"
    by (auto simp: compare_data_first_def elim!: and_then_InrE)
  from x obtain fs where fs: "p_fs s = Some fs" "x = to_nseries fs" "sa = s"
    by (auto simp: lift_series_def get_fs_def and_then_def split: option.splits)
  show ?thesis
  proof (cases "p_u2 s")
    case None
    with rest fs obtain qt where "get_qt s = (Inr qt, s1)" "g1 = (x, qt)"
      by (auto elim!: and_then_InrE)
    with fs None show ?thesis by (simp add: qE_of_def)
  next
    case (Some u2)
    with rest fs have
      "and_then get_qt (\<lambda>s_qt.
                 and_then get_u2 (\<lambda>s_u2 s2.
                   (Inr (x, align_op nsub s_qt
                              (smap (\<lambda>v. ndiv v (Some 1000)) (to_nseries s_u2))), s2))) s
       = (Inr g1, s1)"
      by simp
    then obtain qt sb where
      qt: "get_qt s = (Inr qt, sb)" and
      u: "and_then get_u2 (\<lambda>s_u2 s2.
                   (Inr (x, align_op nsub qt
                              (smap (\<lambda>v. ndiv v (Some 1000)) (to_nseries s_u2))), s2)) sb
          = (Inr g1, s1)"
      by (rule and_then_InrE)
    have "p_u2 sb = Some u2" using get_qt_state[OF qt] Some by auto
    with u have "s1 = sb"
      "g1 = (x, align_op nsub qt (smap (\<lambda>v. ndiv v (Some 1000)) (to_nseries u2)))"
      by (auto simp: get_u2_def and_then_def)
    with qt fs Some show ?thesis by (simp add: qE_of_def)
  qed
qed

lemma qE_of_aligned:
  assumes "p_u2 s = Some u2" and "map fst u2 = map fst qt"
  shows "qE_of s qt = map (\<lambda>((d, q), (d', u)). (d, nsub q (Some (u / 1000)))) (zip qt u2)"
proof -
  let ?u = "smap (\<lambda>v. ndiv v (Some 1000)) (to_nseries u2)"
  have fu: "map fst qt = map fst ?u"
    using assms(2) by (simp only: map_fst_smap map_fst_to_nseries)
  have u: "?u = map (\<lambda>(d, v). (d, Some (v / 1000))) u2"
    by (induction u2) (auto simp: smap_def to_nseries_def ndiv_def)
  have "qE_of s qt = map (\<lambda>((d, x), (d', y)). (d, nsub x y)) (zip qt ?u)"
    using assms(1) fu by (simp add: qE_of_def align_op_def)
  also have "\<dots> = map (\<lambda>((d, q), (d', u)). (d, nsub q (Some (u / 1000)))) (zip qt u2)"
    unfolding u by (simp add: zip_map2 case_prod_unfold)
  finally show ?thesis .
qed

text \<open>
  C10. When the classification with 'Eslami Fellenius' returns, the zones returned are
  those of the loops over the graphs run on the coordinates \<^verbatim>\<open>fs\<close> and \<open>qE_of\<close>, the second
  being \<^verbatim>\<open>qt - u2 / 1000\<close> when \<^verbatim>\<open>_u2\<close> is present (the difference of the two Series, which
  is taken sample by sample when \<^verbatim>\<open>u2\<close> is on the index of \<^verbatim>\<open>qt\<close>) and \<^verbatim>\<open>qt\<close> otherwise,
  \<^verbatim>\<open>qt\<close> being what the getter returns at this call. The stored graph data holds, for
  every label of the index of \<^verbatim>\<open>qc\<close>, these two coordinates reindexed to that index and
  cast to \<^verbatim>\<open>float32\<close>, and no second graph. The probe is left as the getter of \<^verbatim>\<open>qt\<close> left
  it, which caches at most \<^verbatim>\<open>_qt\<close>, with the method name, the classification and the
  graph data stored: no field of the probe holds the second coordinate.
\<close>

theorem eslami_fellenius_coordinates:
  assumes "calculate_soil_classification cs env ''Eslami Fellenius'' s = (Inr df, s')"
  shows "\<exists>fs qc qt s_q m recalc X Y.
           p_fs s = Some fs \<and> p_qc s = Some qc \<and> get_qt s = (Inr qt, s_q)
         \<and> methods env ''Eslami Fellenius'' = Some m
         \<and> classify_frames env ''Eslami Fellenius'' m (map fst qc)
               (to_nseries fs, qE_of s qt) None = Inr (df, recalc)
         \<and> reindex (to_nseries fs) (map fst qc) = Inr X
         \<and> reindex (qE_of s qt) (map fst qc) = Inr Y
         \<and> (s_q = s \<or> s_q = s\<lparr>p_qt := Some qt\<rparr>)
         \<and> s' = s_q\<lparr>p_soil_classification_method := Some ''Eslami Fellenius'',
                    p_soil_classification := Some df,
                    p_soil_classification_graph_data :=
                      Some (map (\<lambda>(lab, x, y). (lab, x, y, None, None))
                              (zip (map fst qc) (zip (map (astype_float32 env) X)
                                                     (map (astype_float32 env) Y))))\<rparr>
         \<and> (\<forall>u2. p_u2 s = Some u2 \<longrightarrow>
               qE_of s qt = align_op nsub qt (smap (\<lambda>v. ndiv v (Some 1000)) (to_nseries u2)))
         \<and> (\<forall>u2. p_u2 s = Some u2 \<and> map fst u2 = map fst qt \<longrightarrow>
               qE_of s qt = map (\<lambda>((d, q), (d', u)). (d, nsub q (Some (u / 1000)))) (zip qt u2))
         \<and> (p_u2 s = None \<longrightarrow> qE_of s qt = qt)"
proof -
  from assms obtain m where m: "methods env ''Eslami Fellenius'' = Some m"
    by (auto simp: calculate_soil_classification_def split: option.splits)
  let ?fin = "\<lambda>g1 g2 qc s1.
            case build_frame env m (map fst qc) g1 g2 of
              Inl e \<Rightarrow> (Inl e, s1)
            | Inr (index, graph_data) \<Rightarrow>
                (case classify_frames env ''Eslami Fellenius'' m index g1 g2 of
                   Inl e \<Rightarrow> (Inl e, s1)
                 | Inr fr \<Rightarrow>
                     (case assign_recalc ''Eslami Fellenius'' fr of
                        Inl e \<Rightarrow> (Inl e, s1)
                      | Inr df_soil_zones \<Rightarrow>
                          (Inr df_soil_zones,
                           s1\<lparr>p_soil_classification_method := Some ''Eslami Fellenius'',
                              p_soil_classification := Some df_soil_zones,
                              p_soil_classification_graph_data := Some graph_data\<rparr>)))"
  from assms m have
    "and_then (compare_data_first cs ''Eslami Fellenius'' m) (\<lambda>g1.
     and_then (compare_data_second cs ''Eslami Fellenius'' m) (\<lambda>g2.
     and_then get_qc (\<lambda>qc s1. ?fin g1 g2 qc s1))) s = (Inr df, s')"
    by (simp add: calculate_soil_classification_def)
  then obtain g1 s1 where
    g1: "compare_data_first cs ''Eslami Fellenius'' m s = (Inr g1, s1)" and
    r1: "and_then (compare_data_second cs ''Eslami Fellenius'' m) (\<lambda>g2.
         and_then get_qc (\<lambda>qc s1. ?fin g1 g2 qc s1)) s1 = (Inr df, s')"
    by (rule and_then_InrE)
  have c2: "compare_data_second cs ''Eslami Fellenius'' m s1 = (Inr None, s1)"
    by (simp add: compare_data_second_def)
  from r1 obtain g2 sb where
    "compare_data_second cs ''Eslami Fellenius'' m s1 = (Inr g2, sb)"
    "and_then get_qc (\<lambda>qc s1. ?fin g1 g2 qc s1) sb = (Inr df, s')"
    by (rule and_then_InrE)
  with c2 have r2: "and_then get_qc (\<lambda>qc s1. ?fin g1 None qc s1) s1 = (Inr df, s')"
    by (simp only: prod.inject sum.inject)
  then obtain qc s2 where
    qc: "get_qc s1 = (Inr qc, s2)" and fin: "?fin g1 None qc s2 = (Inr df, s')"
    by (rule and_then_InrE)
  from compare_data_first_eslami[OF g1] obtain fs qt where
    fs: "p_fs s = Some fs" and qt: "get_qt s = (Inr qt, s1)" and
    g1_eq: "g1 = (to_nseries fs, qE_of s qt)"
    by blast
  note st = get_qt_state[OF qt]
  from qc have s2: "s2 = s1" and qc1: "p_qc s1 = Some qc"
    by (auto simp: get_qc_def split: option.splits)
  from qc1 st have qc0: "p_qc s = Some qc" by auto
  let ?index = "map fst qc"
  from fin obtain index gd where bf: "build_frame env m ?index g1 None = Inr (index, gd)"
    by (cases "build_frame env m ?index g1 None") auto
  from bf g1_eq obtain X Y where
    X: "reindex (to_nseries fs) ?index = Inr X" and
    Y: "reindex (qE_of s qt) ?index = Inr Y" and
    one: "param_x2 m = None" and
    index: "index = ?index" and
    gd: "gd = map (\<lambda>(lab, x, y). (lab, x, y, None, None))
                (zip ?index (zip (map (astype_float32 env) X) (map (astype_float32 env) Y)))"
    by (auto simp: build_frame_def Let_def split: sum.splits if_splits)
  from fin bf obtain fr where
    cf0: "classify_frames env ''Eslami Fellenius'' m index g1 None = Inr fr"
    by (cases "classify_frames env ''Eslami Fellenius'' m index g1 None") auto
  obtain rows recalc where fr: "fr = (rows, recalc)" by (cases fr)
  have ar: "assign_recalc ''Eslami Fellenius'' fr = Inr rows"
    by (simp add: assign_recalc_def fr)
  from fin bf cf0 ar s2 have df: "df = rows" and
    s': "s' = s1\<lparr>p_soil_classification_method := Some ''Eslami Fellenius'',
                    p_soil_classification := Some df,
                    p_soil_classification_graph_data := Some gd\<rparr>"
    by auto
  have cf: "classify_frames env ''Eslami Fellenius'' m ?index
                   (to_nseries fs, qE_of s qt) None = Inr (df, recalc)"
    using cf0 fr df index g1_eq by simp
  have al: "\<forall>u2. p_u2 s = Some u2 \<longrightarrow>
               qE_of s qt = align_op nsub qt (smap (\<lambda>v. ndiv v (Some 1000)) (to_nseries u2))"
    by (simp add: qE_of_def)
  have per: "\<forall>u2. p_u2 s = Some u2 \<and> map fst u2 = map fst qt \<longrightarrow>
               qE_of s qt = map (\<lambda>((d, q), (d', u)). (d, nsub q (Some (u / 1000)))) (zip qt u2)"
    using qE_of_aligned by blast
  have none: "p_u2 s = None \<longrightarrow> qE_of s qt = qt" by (simp add: qE_of_def)
  show ?thesis
  proof (intro exI conjI)
    show "p_fs s = Some fs" by (rule fs)
    show "p_qc s = Some qc" by (rule qc0)
    show "get_qt s = (Inr qt, s1)" by (rule qt)
    show "methods env ''Eslami Fellenius'' = Some m" by (rule m)
    show "classify_frames env ''Eslami Fellenius'' m (map fst qc)
            (to_nseries fs, qE_of s qt) None = Inr (df, recalc)" by (rule cf)
    show "reindex (to_nseries fs) ?index = Inr X" by (rule X)
    show "reindex (qE_of s qt) ?index = Inr Y" by (rule Y)
    show "s1 = s \<or> s1 = s\<lparr>p_qt := Some qt\<rparr>" by (rule st)
    show "s' = s1\<lparr>p_soil_classification_method := Some ''Eslami Fellenius'',
                    p_soil_classification := Some df,
                    p_soil_classification_graph_data :=
                      Some (map (\<lambda>(lab, x, y). (lab, x, y, None, None))
                              (zip (map fst qc) (zip (map (astype_float32 env) X)
                                                     (map (astype_float32 env) Y))))\<rparr>"
      using s' gd by simp
    show "\<forall>u2. p_u2 s = Some u2 \<longrightarrow>
               qE_of s qt = align_op nsub qt (smap (\<lambda>v. ndiv v (Some 1000)) (to_nseries u2))"
      by (rule al)
    show "\<forall>u2. p_u2 s = Some u2 \<and> map fst u2 = map fst qt \<longrightarrow>
               qE_of s qt = map (\<lambda>((d, q), (d', u)). (d, nsub q (Some (u / 1000)))) (zip qt u2)"
      by (rule per)
    show "p_u2 s = None \<longrightarrow> qE_of s qt = qt" by (rule none)
  qed
qed

lemmas frame_eval =
  process_zone_def series_inbounds_def series_and_def series_ge_def series_le_def bools_at_def
  check_bool_indexer_def getitem_bool_def loc_getbool_def loc_setbool_def nonzero_def
  is_point_in_polygon_def list_min_def list_max_def rect_within_def rect_distance_def
  finite_values_def Let_def

lemma eslami_first_at_probe:
  "compare_data_first cs ''Eslami Fellenius'' m probe_cptu =
     (Inr ([(1, Some 35), (2, Some 47)], [(1, Some (351 / 250)), (2, Some (891 / 500))]),
      probe_cptu)"
  by (simp add: compare_data_first_def probe_cptu_eq init_CPT_def and_then_def lift_series_def
        get_fs_def get_qt_def get_u2_def to_nseries_def smap_def align_op_def nsub_def ndiv_def
        Let_def)

lemma eslami_frames_at_probe:
  "classify_frames example_env ''Eslami Fellenius'' example_eslami [1, 2]
     ([(1, Some 35), (2, Some 47)], [(1, Some (351 / 250)), (2, Some (891 / 500))]) None =
   Inr ([(1, Some ''2'', Some ''Clay and/or silt'', Some ''CL''),
         (2, Some ''4'', Some ''Sand-silt'', Some ''SM'')], None)"
  by (simp add: classify_frames_def example_eslami_def example_env_def frame_eval)

lemma eslami_build_at_probe:
  "build_frame example_env example_eslami [1, 2]
     ([(1, Some 35), (2, Some 47)], [(1, Some (351 / 250)), (2, Some (891 / 500))]) None =
   Inr ([1, 2],
        [(1, astype_float32 example_env (Some 35), astype_float32 example_env (Some (351 / 250)),
          None, None),
         (2, astype_float32 example_env (Some 47), astype_float32 example_env (Some (891 / 500)),
          None, None)])"
  by (simp add: build_frame_def reindex_def example_eslami_def)

lemma eslami_at_probe:
  "calculate_soil_classification cs example_env ''Eslami Fellenius'' probe_cptu =
     (Inr [(1, Some ''2'', Some ''Clay and/or silt'', Some ''CL''),
           (2, Some ''4'', Some ''Sand-silt'', Some ''SM'')],
      probe_cptu\<lparr>p_soil_classification_method := Some ''Eslami Fellenius'',
        p_soil_classification :=
          Some [(1, Some ''2'', Some ''Clay and/or silt'', Some ''CL''),
                (2, Some ''4'', Some ''Sand-silt'', Some ''SM'')],
        p_soil_classification_graph_data :=
          Some [(1, astype_float32 example_env (Some 35),
                    astype_float32 example_env (Some (351 / 250)), None, None),
                (2, astype_float32 example_env (Some 47),
                    astype_float32 example_env (Some (891 / 500)), None, None)]\<rparr>)"
proof -
  have qc: "get_qc probe_cptu = (Inr [(1, 1.4), (2, 1.8)], probe_cptu)"
    by (simp add: get_qc_def probe_cptu_eq init_CPT_def)
  have m: "methods example_env ''Eslami Fellenius'' = Some example_eslami"
    by (simp add: example_env_def)
  show ?thesis
    unfolding calculate_soil_classification_def m option.case
    by (simp add: and_then_def eslami_first_at_probe compare_data_second_def qc
          eslami_build_at_probe eslami_frames_at_probe assign_recalc_def)
qed

lemma probe_stale_u2_eq:
  "probe_stale_u2 =
     (init_CPT ''CPT-1'')\<lparr>holedepth := 3, p_qc := Some [(2, 1), (3, 1.2)],
        p_fs := Some [(2, 30), (3, 31)], p_u2 := Some [(1, -4), (2, 18)]\<rparr>"
  by (simp add: probe_stale_u2_def probe_cptu_eq set_raw_data_def is_two_dimensional_def
        init_CPT_def Let_def listener_dependency_def delattr_private_def list_max_def)

lemma eslami_first_at_stale_probe:
  "compare_data_first cs ''Eslami Fellenius'' m probe_stale_u2 =
     (Inr ([(2, Some 30), (3, Some 31)], [(1, None), (2, Some (491 / 500)), (3, None)]),
      probe_stale_u2)"
  by (simp add: compare_data_first_def probe_stale_u2_eq init_CPT_def and_then_def
        lift_series_def get_fs_def get_qt_def get_u2_def to_nseries_def smap_def align_op_def
        values_at_def nsub_def ndiv_def Let_def)

lemma eslami_frames_at_stale_probe:
  "classify_frames example_env ''Eslami Fellenius'' example_eslami [2, 3]
     ([(2, Some 30), (3, Some 31)], [(1, None), (2, Some (491 / 500)), (3, None)]) None =
   Inr ([(2, Some ''2'', Some ''Clay and/or silt'', Some ''CL''), (3, None, None, None)], None)"
  by (simp add: classify_frames_def example_eslami_def example_env_def frame_eval)

lemma eslami_build_at_stale_probe:
  "build_frame example_env example_eslami [2, 3]
     ([(2, Some 30), (3, Some 31)], [(1, None), (2, Some (491 / 500)), (3, None)]) None =
   Inr ([2, 3],
        [(2, astype_float32 example_env (Some 30), astype_float32 example_env (Some (491 / 500)),
          None, None),
         (3, astype_float32 example_env (Some 31), astype_float32 example_env None,
          None, None)])"
  by (simp add: build_frame_def reindex_def label_value_def example_eslami_def)

lemma eslami_at_stale_probe:
  "calculate_soil_classification cs example_env ''Eslami Fellenius'' probe_stale_u2 =
     (Inr [(2, Some ''2'', Some ''Clay and/or silt'', Some ''CL''), (3, None, None, None)],
      probe_stale_u2\<lparr>p_soil_classification_method := Some ''Eslami Fellenius'',
        p_soil_classification :=
          Some [(2, Some ''2'', Some ''Clay and/or silt'', Some ''CL''), (3, None, None, None)],
        p_soil_classification_graph_data :=
          Some [(2, astype_float32 example_env (Some 30),
                    astype_float32 example_env (Some (491 / 500)), None, None),
                (3, astype_float32 example_env (Some 31),
                    astype_float32 example_env None, None, None)]\<rparr>)"
proof -
  have qc: "get_qc probe_stale_u2 = (Inr [(2, 1), (3, 1.2)], probe_stale_u2)"
    by (simp add: get_qc_def probe_stale_u2_eq init_CPT_def)
  have m: "methods example_env ''Eslami Fellenius'' = Some example_eslami"
    by (simp add: example_env_def)
  show ?thesis
    unfolding calculate_soil_classification_def m option.case
    by (simp add: and_then_def eslami_first_at_stale_probe compare_data_second_def qc
          eslami_build_at_stale_probe eslami_frames_at_stale_probe assign_recalc_def)
qed

text \<open>
  The theorem in the example environment, at two probes. At the piezocone probe
  \<open>probe_cptu\<close> the rows of the graph data hold \<^verbatim>\<open>(35, 1.4 - (-4) / 1000)\<close> at 1 m and
  \<^verbatim>\<open>(47, 1.8 - 18 / 1000)\<close> at 2 m, that is \<open>(35, 1.404)\<close> and \<open>(47, 1.782)\<close> as \<^verbatim>\<open>float32\<close>. At
  the probe \<open>probe_stale_u2\<close>, whose \<^verbatim>\<open>u2\<close> is sampled at other depths than \<^verbatim>\<open>qc\<close>, the
  difference \<^verbatim>\<open>qt - u2 / 1000\<close> is \<^verbatim>\<open>1 - 18 / 1000\<close> at 2 m and NaN at 3 m: the sample at 2 m
  is classified, the sample at 3 m is not, and the method is remembered.
\<close>

theorem eslami_fellenius_coordinates_witness:
  "(\<exists>df s'. calculate_soil_classification (calculate_stress example_env 0) example_env
              ''Eslami Fellenius'' probe_cptu = (Inr df, s')
     \<and> df = [(1, Some ''2'', Some ''Clay and/or silt'', Some ''CL''),
             (2, Some ''4'', Some ''Sand-silt'', Some ''SM'')]
     \<and> p_soil_classification_graph_data s' =
         Some [(1, astype_float32 example_env (Some 35),
                   astype_float32 example_env (Some (351 / 250)), None, None),
               (2, astype_float32 example_env (Some 47),
                   astype_float32 example_env (Some (891 / 500)), None, None)]
     \<and> p_qc s' = p_qc probe_cptu \<and> p_fs s' = p_fs probe_cptu \<and> p_u2 s' = p_u2 probe_cptu
     \<and> p_qt s' = None)
   \<and> (\<exists>df s'. calculate_soil_classification (calculate_stress example_env 0) example_env
              ''Eslami Fellenius'' probe_stale_u2 = (Inr df, s')
     \<and> df = [(2, Some ''2'', Some ''Clay and/or silt'', Some ''CL''), (3, None, None, None)]
     \<and> p_soil_classification_graph_data s' =
         Some [(2, astype_float32 example_env (Some 30),
                   astype_float32 example_env (Some (491 / 500)), None, None),
               (3, astype_float32 example_env (Some 31),
                   astype_float32 example_env None, None, None)]
     \<and> p_soil_classification_method s' = Some ''Eslami Fellenius''
     \<and> p_u2 s' = Some [(1, -4), (2, 18)] \<and> p_qt s' = None)"
proof (rule conjI)
  let ?s = probe_cptu
  let ?df = "[(1, Some ''2'', Some ''Clay and/or silt'', Some ''CL''),
              (2, Some ''4'', Some ''Sand-silt'', Some ''SM'')] :: soil_classification"
  obtain s' where run: "calculate_soil_classification (calculate_stress example_env 0)
      example_env ''Eslami Fellenius'' ?s = (Inr ?df, s')"
    using eslami_at_probe[of "calculate_stress example_env 0"] by blast
  from eslami_fellenius_coordinates[OF run] obtain fs qc qt s_q X Y where
    fs: "p_fs ?s = Some fs" and qc: "p_qc ?s = Some qc" and qt: "get_qt ?s = (Inr qt, s_q)" and
    X: "reindex (to_nseries fs) (map fst qc) = Inr X" and
    Y: "reindex (qE_of ?s qt) (map fst qc) = Inr Y" and
    s': "s' = s_q\<lparr>p_soil_classification_method := Some ''Eslami Fellenius'',
                    p_soil_classification := Some ?df,
                    p_soil_classification_graph_data :=
                      Some (map (\<lambda>(lab, x, y). (lab, x, y, None, None))
                              (zip (map fst qc) (zip (map (astype_float32 example_env) X)
                                                     (map (astype_float32 example_env) Y))))\<rparr>" and
    per: "\<forall>u2. p_u2 ?s = Some u2 \<and> map fst u2 = map fst qt \<longrightarrow>
               qE_of ?s qt = map (\<lambda>((d, q), (d', u)). (d, nsub q (Some (u / 1000)))) (zip qt u2)"
    by (elim exE conjE)
  from fs have fs_eq: "fs = [(1, 35), (2, 47)]" by (simp add: probe_cptu_eq init_CPT_def)
  from qc have qc_eq: "qc = [(1, 1.4), (2, 1.8)]" by (simp add: probe_cptu_eq init_CPT_def)
  from qt have qt_eq: "qt = [(1, Some 1.4), (2, Some 1.8)]" and sq: "s_q = ?s"
    by (simp_all add: get_qt_def probe_cptu_eq init_CPT_def to_nseries_def)
  have u2: "p_u2 ?s = Some [(1, -4), (2, 18)] \<and> map fst [(1::real, -4::real), (2, 18)] = map fst qt"
    by (simp add: probe_cptu_eq init_CPT_def qt_eq)
  have qE: "qE_of ?s qt = [(1, Some (351 / 250)), (2, Some (891 / 500))]"
    using per[rule_format, OF u2] by (simp add: qt_eq nsub_def)
  from X have X_eq: "X = [Some 35, Some 47]"
    by (simp add: fs_eq qc_eq reindex_def to_nseries_def)
  from Y have Y_eq: "Y = [Some (351 / 250), Some (891 / 500)]"
    by (simp add: qE qc_eq reindex_def)
  have "p_soil_classification_graph_data s' =
         Some [(1, astype_float32 example_env (Some 35),
                   astype_float32 example_env (Some (351 / 250)), None, None),
               (2, astype_float32 example_env (Some 47),
                   astype_float32 example_env (Some (891 / 500)), None, None)]
     \<and> p_qc s' = p_qc ?s \<and> p_fs s' = p_fs ?s \<and> p_u2 s' = p_u2 ?s \<and> p_qt s' = None"
    unfolding s' sq by (simp add: X_eq Y_eq qc_eq probe_cptu_eq init_CPT_def)
  with run show "\<exists>df s'. calculate_soil_classification (calculate_stress example_env 0) example_env
              ''Eslami Fellenius'' probe_cptu = (Inr df, s')
     \<and> df = [(1, Some ''2'', Some ''Clay and/or silt'', Some ''CL''),
             (2, Some ''4'', Some ''Sand-silt'', Some ''SM'')]
     \<and> p_soil_classification_graph_data s' =
         Some [(1, astype_float32 example_env (Some 35),
                   astype_float32 example_env (Some (351 / 250)), None, None),
               (2, astype_float32 example_env (Some 47),
                   astype_float32 example_env (Some (891 / 500)), None, None)]
     \<and> p_qc s' = p_qc probe_cptu \<and> p_fs s' = p_fs probe_cptu \<and> p_u2 s' = p_u2 probe_cptu
     \<and> p_qt s' = None"
    by (intro exI[of _ ?df] exI[of _ s'] conjI) simp_all
next
  let ?s = probe_stale_u2
  let ?df = "[(2, Some ''2'', Some ''Clay and/or silt'', Some ''CL''), (3, None, None, None)]
             :: soil_classification"
  obtain s' where run: "calculate_soil_classification (calculate_stress example_env 0)
      example_env ''Eslami Fellenius'' ?s = (Inr ?df, s')"
    using eslami_at_stale_probe[of "calculate_stress example_env 0"] by blast
  from eslami_fellenius_coordinates[OF run] obtain fs qc qt s_q X Y where
    fs: "p_fs ?s = Some fs" and qc: "p_qc ?s = Some qc" and qt: "get_qt ?s = (Inr qt, s_q)" and
    X: "reindex (to_nseries fs) (map fst qc) = Inr X" and
    Y: "reindex (qE_of ?s qt) (map fst qc) = Inr Y" and
    s': "s' = s_q\<lparr>p_soil_classification_method := Some ''Eslami Fellenius'',
                    p_soil_classification := Some ?df,
                    p_soil_classification_graph_data :=
                      Some (map (\<lambda>(lab, x, y). (lab, x, y, None, None))
                              (zip (map fst qc) (zip (map (astype_float32 example_env) X)
                                                     (map (astype_float32 example_env) Y))))\<rparr>" and
    al: "\<forall>u2. p_u2 ?s = Some u2 \<longrightarrow>
               qE_of ?s qt = align_op nsub qt (smap (\<lambda>v. ndiv v (Some 1000)) (to_nseries u2))"
    by (elim exE conjE)
  from fs have fs_eq: "fs = [(2, 30), (3, 31)]" by (simp add: probe_stale_u2_eq init_CPT_def)
  from qc have qc_eq: "qc = [(2, 1), (3, 1.2)]" by (simp add: probe_stale_u2_eq init_CPT_def)
  from qt have qt_eq: "qt = [(2, Some 1), (3, Some 1.2)]" and sq: "s_q = ?s"
    by (simp_all add: get_qt_def probe_stale_u2_eq init_CPT_def to_nseries_def)
  have u2: "p_u2 ?s = Some [(1, -4), (2, 18)]"
    by (simp add: probe_stale_u2_eq init_CPT_def)
  have qE: "qE_of ?s qt = [(1, None), (2, Some (491 / 500)), (3, None)]"
    using al[rule_format, OF u2]
    by (simp add: qt_eq align_op_def values_at_def smap_def to_nseries_def nsub_def ndiv_def)
  from X have X_eq: "X = [Some 30, Some 31]"
    by (simp add: fs_eq qc_eq reindex_def to_nseries_def)
  from Y have Y_eq: "Y = [Some (491 / 500), None]"
    by (simp add: qE qc_eq reindex_def label_value_def)
  have "p_soil_classification_graph_data s' =
         Some [(2, astype_float32 example_env (Some 30),
                   astype_float32 example_env (Some (491 / 500)), None, None),
               (3, astype_float32 example_env (Some 31),
                   astype_float32 example_env None, None, None)]
     \<and> p_soil_classification_method s' = Some ''Eslami Fellenius''
     \<and> p_u2 s' = Some [(1, -4), (2, 18)] \<and> p_qt s' = None"
    unfolding s' sq by (simp add: X_eq Y_eq qc_eq probe_stale_u2_eq init_CPT_def)
  with run show "\<exists>df s'. calculate_soil_classification (calculate_stress example_env 0) example_env
              ''Eslami Fellenius'' probe_stale_u2 = (Inr df, s')
     \<and> df = [(2, Some ''2'', Some ''Clay and/or silt'', Some ''CL''), (3, None, None, None)]
     \<and> p_soil_classification_graph_data s' =
         Some [(2, astype_float32 example_env (Some 30),
                   astype_float32 example_env (Some (491 / 500)), None, None),
               (3, astype_float32 example_env (Some 31),
                   astype_float32 example_env None, None, None)]
     \<and> p_soil_classification_method s' = Some ''Eslami Fellenius''
     \<and> p_u2 s' = Some [(1, -4), (2, 18)] \<and> p_qt s' = None"
    by (intro exI[of _ ?df] exI[of _ s'] conjI) simp_all
qed

subsection \<open>The combined zone of 'Robertson et al 1986'\<close>

lemma probe_layers_eq:
  "probe_layers =
     (init_CPT ''CPT-2'')\<lparr>holedepth := 3, p_qc := Some [(1, 1.4), (2, 10), (3, 20)],
        p_fs := Some [(1, 35), (2, 50), (3, 600)], p_u2 := Some [(1, -4), (2, 18), (3, 40)],
        p_gwl := Some 0, p_unit_weight := Some [(0, 16), (9999, 16)],
        p_total_stress := Some [(1, 16), (2, 32), (3, 48)]\<rparr>"
  by (simp add: probe_layers_def set_gwl_def set_unit_weight_def set_raw_data_def
        is_two_dimensional_def init_CPT_def Let_def evict_eval list_max_def
        calculate_stress_body_def and_then_def total_stress_eval calculate_effective_stress_def
        u0_series_def series_sub_def GLOBAL_unit_weight_of_water_def)

lemma probe_repeated_eq:
  "probe_repeated =
     (init_CPT ''CPT-3'')\<lparr>holedepth := 2, p_qc := Some [(1, 1.4), (1, 10), (2, 1.8)],
        p_fs := Some [(1, 35), (1, 500), (2, 47)], p_u2 := Some [(1, -4), (1, 18), (2, 18)],
        p_gwl := Some 0, p_unit_weight := Some [(0, 16), (9999, 16)],
        p_total_stress := Some [(1, 16), (1, 16), (2, 32)]\<rparr>"
  by (simp add: probe_repeated_def set_gwl_def set_unit_weight_def set_raw_data_def
        is_two_dimensional_def init_CPT_def Let_def evict_eval list_max_def
        calculate_stress_body_def and_then_def total_stress_eval calculate_effective_stress_def
        u0_series_def series_sub_def GLOBAL_unit_weight_of_water_def)

text \<open>On the probe \<open>probe_layers\<close>, whose depths are distinct.\<close>

lemma robertson_first_at_probe:
  "compare_data_first (calculate_stress example_env 0) ''Robertson et al 1986''
     example_robertson probe_layers =
   (Inr ([(1, Some (- (7 / 692))), (2, Some (- (1 / 4984))), (3, Some (5 / 9976))],
         [(1, Some (7 / 5)), (2, Some 10), (3, Some 20)]),
    probe_layers\<lparr>p_effective_stress := Some [(1, 6), (2, 12), (3, 18)],
      p_static_u0 := Some [(1, 10), (2, 20), (3, 30)],
      p_Bq := Some [(1, Some (- (7 / 692))), (2, Some (- (1 / 4984))), (3, Some (5 / 9976))]\<rparr>)"
  by (simp add: compare_data_first_def example_robertson_def getattribute_def probe_layers_eq
        init_CPT_def get_Bq_def get_qt_def qt_or_qc_def get_qc_def get_u2_def
        get_total_stress_def get_static_u0_def calculate_effective_stress_def u0_series_def
        series_sub_def GLOBAL_unit_weight_of_water_def and_then_def to_nseries_def smap_def
        align_op_def nsub_def ndiv_def nmul_def Let_def)

lemma robertson_second_at_probe:
  "compare_data_second (calculate_stress example_env 0) ''Robertson et al 1986''
     example_robertson
     (probe_layers\<lparr>p_effective_stress := Some [(1, 6), (2, 12), (3, 18)],
      p_static_u0 := Some [(1, 10), (2, 20), (3, 30)],
      p_Bq := Some [(1, Some (- (7 / 692))), (2, Some (- (1 / 4984))), (3, Some (5 / 9976))]\<rparr>)
    = (Inr (Some ([(1, Some (5 / 2)), (2, Some (1 / 2)), (3, Some 3)],
                  [(1, Some (7 / 5)), (2, Some 10), (3, Some 20)])),
       probe_layers\<lparr>p_effective_stress := Some [(1, 6), (2, 12), (3, 18)],
         p_static_u0 := Some [(1, 10), (2, 20), (3, 30)],
         p_Bq := Some [(1, Some (- (7 / 692))), (2, Some (- (1 / 4984))), (3, Some (5 / 9976))],
         p_Rf := Some [(1, Some (5 / 2)), (2, Some (1 / 2)), (3, Some 3)]\<rparr>)"
  by (simp add: compare_data_second_def example_robertson_def getattribute_def probe_layers_eq
        init_CPT_def get_Rf_def get_qt_def and_then_def to_nseries_def smap_def
        align_op_def ndiv_def nmul_def Let_def)

lemma robertson_build_at_probe:
  "build_frame example_env example_robertson [1, 2, 3]
     ([(1, Some (- (7 / 692))), (2, Some (- (1 / 4984))), (3, Some (5 / 9976))],
      [(1, Some (7 / 5)), (2, Some 10), (3, Some 20)])
     (Some ([(1, Some (5 / 2)), (2, Some (1 / 2)), (3, Some 3)],
            [(1, Some (7 / 5)), (2, Some 10), (3, Some 20)])) =
   Inr ([1, 2, 3],
        [(1, astype_float32 example_env (Some (- (7 / 692))),
             astype_float32 example_env (Some (7 / 5)), Some (5 / 2), Some (7 / 5)),
         (2, astype_float32 example_env (Some (- (1 / 4984))),
             astype_float32 example_env (Some 10), Some (1 / 2), Some 10),
         (3, astype_float32 example_env (Some (5 / 9976)),
             astype_float32 example_env (Some 20), Some 3, Some 20)])"
  by (simp add: build_frame_def reindex_def example_robertson_def pad_def)

lemma robertson_frames_at_probe:
  "classify_frames example_env ''Robertson et al 1986'' example_robertson [1, 2, 3]
     ([(1, Some (- (7 / 692))), (2, Some (- (1 / 4984))), (3, Some (5 / 9976))],
      [(1, Some (7 / 5)), (2, Some 10), (3, Some 20)])
     (Some ([(1, Some (5 / 2)), (2, Some (1 / 2)), (3, Some 3)],
            [(1, Some (7 / 5)), (2, Some 10), (3, Some 20)])) =
   Inr ([(1, Some ''3'', Some ''Clay'', Some ''CL''), (2, Some ''9'', Some ''Sand'', Some ''SP''),
         (3, Some ''3'', Some ''Clay'', Some ''CL'')], Some [2, 3])"
  by (simp add: classify_frames_def example_robertson_def example_env_def frame_eval)

lemma robertson_at_probe:
  "fst (calculate_soil_classification (calculate_stress example_env 0) example_env
          ''Robertson et al 1986'' probe_layers) =
   Inr [(1, Some ''3'', Some ''Clay'', Some ''CL''), (2, Some ''9'', Some ''Sand'', Some ''SP''),
        (3, Some ''9,10,11,12'', Some ''Zone 9,10,11,12'', Some [])]"
proof -
  have m: "methods example_env ''Robertson et al 1986'' = Some example_robertson"
    by (simp add: example_env_def)
  have qc: "get_qc s = (Inr [(1, 7 / 5), (2, 10), (3, 20)], s)"
    if "p_qc s = Some [(1, 7 / 5), (2, 10), (3, 20)]" for s
    using that by (simp add: get_qc_def)
  have q: "p_qc probe_layers = Some [(1, 7 / 5), (2, 10), (3, 20)]"
    by (simp add: probe_layers_eq init_CPT_def)
  show ?thesis
    unfolding calculate_soil_classification_def m option.case
    by (simp add: and_then_def robertson_first_at_probe robertson_second_at_probe qc q
          robertson_build_at_probe robertson_frames_at_probe assign_recalc_def loc_labels_def
          finalize_recalc_def is_concrete_zone_def Let_def
          del: calculate_stress.simps)
qed

text \<open>On the probe \<open>probe_repeated\<close>, which has two samples at 1 m.\<close>

lemma robertson_first_at_repeated:
  "compare_data_first (calculate_stress example_env 0) ''Robertson et al 1986''
     example_robertson probe_repeated =
   (Inr ([(1, Some (- (7 / 692))), (1, Some (1 / 1248)), (2, Some (- (1 / 884)))],
         [(1, Some (7 / 5)), (1, Some 10), (2, Some (9 / 5))]),
    probe_repeated\<lparr>p_effective_stress := Some [(1, 6), (1, 6), (2, 12)],
      p_static_u0 := Some [(1, 10), (1, 10), (2, 20)],
      p_Bq := Some [(1, Some (- (7 / 692))), (1, Some (1 / 1248)), (2, Some (- (1 / 884)))]\<rparr>)"
  by (simp add: compare_data_first_def example_robertson_def getattribute_def probe_repeated_eq
        init_CPT_def get_Bq_def get_qt_def qt_or_qc_def get_qc_def get_u2_def
        get_total_stress_def get_static_u0_def calculate_effective_stress_def u0_series_def
        series_sub_def GLOBAL_unit_weight_of_water_def and_then_def to_nseries_def smap_def
        align_op_def nsub_def ndiv_def nmul_def Let_def)

lemma robertson_second_at_repeated:
  "compare_data_second (calculate_stress example_env 0) ''Robertson et al 1986''
     example_robertson
     (probe_repeated\<lparr>p_effective_stress := Some [(1, 6), (1, 6), (2, 12)],
      p_static_u0 := Some [(1, 10), (1, 10), (2, 20)],
      p_Bq := Some [(1, Some (- (7 / 692))), (1, Some (1 / 1248)), (2, Some (- (1 / 884)))]\<rparr>)
    = (Inr (Some ([(1, Some (5 / 2)), (1, Some 5), (2, Some (47 / 18))],
                  [(1, Some (7 / 5)), (1, Some 10), (2, Some (9 / 5))])),
       probe_repeated\<lparr>p_effective_stress := Some [(1, 6), (1, 6), (2, 12)],
         p_static_u0 := Some [(1, 10), (1, 10), (2, 20)],
         p_Bq := Some [(1, Some (- (7 / 692))), (1, Some (1 / 1248)), (2, Some (- (1 / 884)))],
         p_Rf := Some [(1, Some (5 / 2)), (1, Some 5), (2, Some (47 / 18))]\<rparr>)"
  by (simp add: compare_data_second_def example_robertson_def getattribute_def probe_repeated_eq
        init_CPT_def get_Rf_def get_qt_def and_then_def to_nseries_def smap_def
        align_op_def ndiv_def nmul_def Let_def)

lemma robertson_build_at_repeated:
  "build_frame example_env example_robertson [1, 1, 2]
     ([(1, Some (- (7 / 692))), (1, Some (1 / 1248)), (2, Some (- (1 / 884)))],
      [(1, Some (7 / 5)), (1, Some 10), (2, Some (9 / 5))])
     (Some ([(1, Some (5 / 2)), (1, Some 5), (2, Some (47 / 18))],
            [(1, Some (7 / 5)), (1, Some 10), (2, Some (9 / 5))])) =
   Inr ([1, 1, 2],
        [(1, astype_float32 example_env (Some (- (7 / 692))),
             astype_float32 example_env (Some (7 / 5)), Some (5 / 2), Some (7 / 5)),
         (1, astype_float32 example_env (Some (1 / 1248)),
             astype_float32 example_env (Some 10), Some 5, Some 10),
         (2, astype_float32 example_env (Some (- (1 / 884))),
             astype_float32 example_env (Some (9 / 5)), Some (47 / 18), Some (9 / 5))])"
  by (simp add: build_frame_def reindex_def example_robertson_def pad_def)

lemma robertson_graph_1_at_repeated:
  "process_zones example_env ''Robertson et al 1986'' (zone_names example_robertson)
     [(1, Some (- (7 / 692))), (1, Some (1 / 1248)), (2, Some (- (1 / 884)))]
     [(1, Some (7 / 5)), (1, Some 10), (2, Some (9 / 5))]
     (is_x1_on_log_scale example_robertson) (is_y1_on_log_scale example_robertson)
     (zone_definitions_graph_1 example_robertson)
     ([(1, None, None, None), (1, None, None, None), (2, None, None, None)], None) =
   Inr ([(1, Some ''3'', Some ''Clay'', Some ''CL''), (1, None, None, None),
         (2, Some ''3'', Some ''Clay'', Some ''CL'')], Some [1])"
  by (simp add: example_robertson_def example_env_def frame_eval)

lemma robertson_frames_at_repeated:
  "classify_frames example_env ''Robertson et al 1986'' example_robertson [1, 1, 2]
     ([(1, Some (- (7 / 692))), (1, Some (1 / 1248)), (2, Some (- (1 / 884)))],
      [(1, Some (7 / 5)), (1, Some 10), (2, Some (9 / 5))])
     (Some ([(1, Some (5 / 2)), (1, Some 5), (2, Some (47 / 18))],
            [(1, Some (7 / 5)), (1, Some 10), (2, Some (9 / 5))])) =
   Inr ([(1, Some ''3'', Some ''Clay'', Some ''CL''), (1, Some ''3'', Some ''Clay'', Some ''CL''),
         (2, Some ''3'', Some ''Clay'', Some ''CL'')], Some [1])"
  by (simp add: classify_frames_def example_robertson_def example_env_def frame_eval)

lemma robertson_at_repeated:
  "calculate_soil_classification (calculate_stress example_env 0) example_env
          ''Robertson et al 1986'' probe_repeated =
   (Inl (ValueError ''cannot reindex on an axis with duplicate labels''),
    probe_repeated\<lparr>p_effective_stress := Some [(1, 6), (1, 6), (2, 12)],
         p_static_u0 := Some [(1, 10), (1, 10), (2, 20)],
         p_Bq := Some [(1, Some (- (7 / 692))), (1, Some (1 / 1248)), (2, Some (- (1 / 884)))],
         p_Rf := Some [(1, Some (5 / 2)), (1, Some 5), (2, Some (47 / 18))]\<rparr>)"
proof -
  have m: "methods example_env ''Robertson et al 1986'' = Some example_robertson"
    by (simp add: example_env_def)
  have qc: "get_qc s = (Inr [(1, 7 / 5), (1, 10), (2, 9 / 5)], s)"
    if "p_qc s = Some [(1, 7 / 5), (1, 10), (2, 9 / 5)]" for s
    using that by (simp add: get_qc_def)
  have q: "p_qc probe_repeated = Some [(1, 7 / 5), (1, 10), (2, 9 / 5)]"
    by (simp add: probe_repeated_eq init_CPT_def)
  show ?thesis
    unfolding calculate_soil_classification_def m option.case
    by (simp add: and_then_def robertson_first_at_repeated robertson_second_at_repeated qc q
          robertson_build_at_repeated robertson_frames_at_repeated assign_recalc_def
          loc_labels_def
          del: calculate_stress.simps)
qed

text \<open>
  C3 at a failing input. On the probe \<open>probe_repeated\<close>, which has a soft and a stiff sample
  at 1 m and a soft sample at 2 m, in the example environment: the first graph puts the
  two soft samples into zone 3 and defers the stiff sample, which lies in the combined
  zone; the second graph puts the deferred sample into zone 3, which is none of the
  zones 9 to 12, so the rule finalizes it with the combined zone. The assignment after
  the loops selects by the label 1 m, which two rows of the frame carry, and pandas
  refuses: the call raises \<^verbatim>\<open>ValueError\<close> and stores neither the method nor a
  classification.
\<close>

theorem robertson_1986_repeated_depth_raises:
  "\<exists>g1 g2 s1 s2 s'.
     compare_data_first (calculate_stress example_env 0) ''Robertson et al 1986''
       example_robertson probe_repeated = (Inr g1, s1)
   \<and> compare_data_second (calculate_stress example_env 0) ''Robertson et al 1986''
       example_robertson s1 = (Inr (Some g2), s2)
   \<and> p_qc probe_repeated = Some [(1, 7 / 5), (1, 10), (2, 9 / 5)]
   \<and> process_zones example_env ''Robertson et al 1986'' (zone_names example_robertson)
       (fst g1) (snd g1)
       (is_x1_on_log_scale example_robertson) (is_y1_on_log_scale example_robertson)
       (zone_definitions_graph_1 example_robertson)
       ([(1, None, None, None), (1, None, None, None), (2, None, None, None)], None) =
     Inr ([(1, Some ''3'', Some ''Clay'', Some ''CL''), (1, None, None, None),
           (2, Some ''3'', Some ''Clay'', Some ''CL'')], Some [1])
   \<and> classify_frames example_env ''Robertson et al 1986'' example_robertson [1, 1, 2]
       g1 (Some g2) =
     Inr ([(1, Some ''3'', Some ''Clay'', Some ''CL''), (1, Some ''3'', Some ''Clay'', Some ''CL''),
           (2, Some ''3'', Some ''Clay'', Some ''CL'')], Some [1])
   \<and> \<not> is_concrete_zone (Some ''3'')
   \<and> calculate_soil_classification (calculate_stress example_env 0) example_env
       ''Robertson et al 1986'' probe_repeated =
     (Inl (ValueError ''cannot reindex on an axis with duplicate labels''), s')
   \<and> p_soil_classification_method s' = None \<and> p_soil_classification s' = None
   \<and> p_soil_classification_graph_data s' = None"
proof -
  let ?x1 = "[(1, Some (- (7 / 692))), (1, Some (1 / 1248)), (2, Some (- (1 / 884)))]
             :: nseries"
  let ?y1 = "[(1, Some (7 / 5)), (1, Some 10), (2, Some (9 / 5))] :: nseries"
  let ?x2 = "[(1, Some (5 / 2)), (1, Some 5), (2, Some (47 / 18))] :: nseries"
  let ?s1 = "probe_repeated\<lparr>p_effective_stress := Some [(1, 6), (1, 6), (2, 12)],
      p_static_u0 := Some [(1, 10), (1, 10), (2, 20)],
      p_Bq := Some ?x1\<rparr>"
  let ?s2 = "?s1\<lparr>p_Rf := Some ?x2\<rparr>"
  have 1: "compare_data_first (calculate_stress example_env 0) ''Robertson et al 1986''
       example_robertson probe_repeated = (Inr (?x1, ?y1), ?s1)"
    by (rule robertson_first_at_repeated)
  have 2: "compare_data_second (calculate_stress example_env 0) ''Robertson et al 1986''
       example_robertson ?s1 = (Inr (Some (?x2, ?y1)), ?s2)"
    using robertson_second_at_repeated by simp
  have 3: "p_qc probe_repeated = Some [(1, 7 / 5), (1, 10), (2, 9 / 5)]"
    by (simp add: probe_repeated_eq init_CPT_def)
  have 4: "process_zones example_env ''Robertson et al 1986'' (zone_names example_robertson)
       (fst (?x1, ?y1)) (snd (?x1, ?y1))
       (is_x1_on_log_scale example_robertson) (is_y1_on_log_scale example_robertson)
       (zone_definitions_graph_1 example_robertson)
       ([(1, None, None, None), (1, None, None, None), (2, None, None, None)], None) =
     Inr ([(1, Some ''3'', Some ''Clay'', Some ''CL''), (1, None, None, None),
           (2, Some ''3'', Some ''Clay'', Some ''CL'')], Some [1])"
    using robertson_graph_1_at_repeated by simp
  have 5: "classify_frames example_env ''Robertson et al 1986'' example_robertson [1, 1, 2]
       (?x1, ?y1) (Some (?x2, ?y1)) =
     Inr ([(1, Some ''3'', Some ''Clay'', Some ''CL''), (1, Some ''3'', Some ''Clay'', Some ''CL''),
           (2, Some ''3'', Some ''Clay'', Some ''CL'')], Some [1])"
    by (rule robertson_frames_at_repeated)
  have 6: "\<not> is_concrete_zone (Some ''3'')" by (simp add: is_concrete_zone_def)
  have 7: "calculate_soil_classification (calculate_stress example_env 0) example_env
       ''Robertson et al 1986'' probe_repeated =
     (Inl (ValueError ''cannot reindex on an axis with duplicate labels''), ?s2)"
    using robertson_at_repeated by simp
  have 8: "p_soil_classification_method ?s2 = None" "p_soil_classification ?s2 = None"
    "p_soil_classification_graph_data ?s2 = None"
    by (simp_all add: probe_repeated_eq init_CPT_def)
  show ?thesis
    by (intro exI[of _ "(?x1, ?y1)"] exI[of _ "(?x2, ?y1)"] exI[of _ ?s1] exI[of _ ?s2] conjI)
       (rule 1 2 3 4 5 6 7 8)+
qed

end
